theory Spec2Isabelle
  imports Main "HOL-Library.Word" "HOL-Library.Sublist"
begin

section \<open>JavaScript values\<close>

text \<open>
  The player command of the plugin is written in TypeScript. A JavaScript string is a
  sequence of 16-bit code units, and every string operation the command uses
  (\<^verbatim>\<open>+\<close>, template literals, \<^verbatim>\<open>join\<close>, \<^verbatim>\<open>replace\<close>,
  \<^verbatim>\<open>trimEnd\<close>) works on code units, so a string is a list of 16-bit words here.
  String literals of the source are written as \<open>ascii ''...''\<close> for their ASCII stretches
  and as explicit code units elsewhere (Chinese labels, emoji as surrogate pairs).
\<close>

type_synonym jsstring = "16 word list"

definition ascii :: "string \<Rightarrow> jsstring" where
  "ascii s = map of_char s"

text \<open>\<^verbatim>\<open>Array.prototype.join\<close> on an array of strings.\<close>

fun join :: "jsstring \<Rightarrow> jsstring list \<Rightarrow> jsstring" where
  "join sep [] = []"
| "join sep [s] = s"
| "join sep (s # t # ts) = s @ sep @ join sep (t # ts)"

text \<open>
  \<^verbatim>\<open>String.prototype.trimEnd\<close> removes the trailing white space and line terminators
  of ECMAScript: TAB, LF, VT, FF, CR, SP, NBSP, U+1680, U+2000 to U+200A, U+2028, U+2029,
  U+202F, U+205F, U+3000 and U+FEFF.
\<close>

definition isWhiteSpace :: "16 word \<Rightarrow> bool" where
  "isWhiteSpace u \<longleftrightarrow>
     u \<in> {0x0009, 0x000A, 0x000B, 0x000C, 0x000D, 0x0020, 0x00A0, 0x1680,
          0x2000, 0x2001, 0x2002, 0x2003, 0x2004, 0x2005, 0x2006, 0x2007, 0x2008, 0x2009,
          0x200A, 0x2028, 0x2029, 0x202F, 0x205F, 0x3000, 0xFEFF}"

definition trimEnd :: "jsstring \<Rightarrow> jsstring" where
  "trimEnd s = rev (dropWhile isWhiteSpace (rev s))"

text \<open>
  \<^verbatim>\<open>str.replace(/c/g, r)\<close> for a pattern that is one literal code unit \<open>c\<close> and a
  replacement \<open>r\<close> without replacement patterns: every occurrence of \<open>c\<close> becomes \<open>r\<close>,
  left to right, and replaced text is not scanned again.
\<close>

definition replaceAll :: "16 word \<Rightarrow> jsstring \<Rightarrow> jsstring \<Rightarrow> jsstring" where
  "replaceAll c r s = concat (map (\<lambda>u. if u = c then r else [u]) s)"

text \<open>
  \<^verbatim>\<open>a || b\<close> for a string \<open>a\<close> that may be undefined: the empty string and undefined
  are falsy.
\<close>

definition orElse :: "jsstring option \<Rightarrow> jsstring \<Rightarrow> jsstring" where
  "orElse a b = (case a of None \<Rightarrow> b | Some s \<Rightarrow> if s = [] then b else s)"

text \<open>
  A JavaScript number is an IEEE double. Its arithmetic and its rendering are not part of
  this development: the type of numbers is a type parameter \<open>'n\<close>, and the operations
  the command applies to numbers are the fields of \<open>jsops\<close>: \<open>numToString\<close> is the
  conversion of a number to a string (in a template literal, and as the property key
  when a number indexes an object), \<open>toFixed2\<close> is \<^verbatim>\<open>n.toFixed(2)\<close>, \<open>times100\<close> is
  \<^verbatim>\<open>n * 100\<close>. In the same way \<open>'o\<close> is the type of JSON objects, with
  \<open>jsonStringify\<close> for \<^verbatim>\<open>JSON.stringify\<close> of one object.
\<close>

record ('n, 'o) jsops =
  numToString :: "'n \<Rightarrow> jsstring"
  toFixed2 :: "'n \<Rightarrow> jsstring"
  times100 :: "'n \<Rightarrow> 'n"
  jsonStringify :: "'o \<Rightarrow> jsstring"

text \<open>A template literal renders a missing value as \<^verbatim>\<open>undefined\<close>.\<close>

definition strOrUndefined :: "jsstring option \<Rightarrow> jsstring" where
  "strOrUndefined v = (case v of None \<Rightarrow> (ascii ''undefined'') | Some s \<Rightarrow> s)"

definition numOrUndefined :: "('n, 'o) jsops \<Rightarrow> 'n option \<Rightarrow> jsstring" where
  "numOrUndefined ops v = (case v of None \<Rightarrow> (ascii ''undefined'') | Some n \<Rightarrow> numToString ops n)"

text \<open>\<^verbatim>\<open>JSON.stringify\<close> of an array of objects.\<close>

definition stringifyArray :: "('n, 'o) jsops \<Rightarrow> 'o list \<Rightarrow> jsstring" where
  "stringifyArray ops xs = (ascii ''['') @ join (ascii '','') (map (jsonStringify ops) xs) @ (ascii '']'')"

text \<open>
  The integers are one instance of the numbers: an integer below \<open>10^21\<close> in magnitude
  renders as its decimal numeral, and \<^verbatim>\<open>toFixed(2)\<close> appends two zero decimals.
  Objects are carried in serialised form in this instance.
\<close>

definition digitChar :: "nat \<Rightarrow> 16 word" where
  "digitChar d =
     (if d = 0 then 0x30 else if d = 1 then 0x31 else if d = 2 then 0x32
      else if d = 3 then 0x33 else if d = 4 then 0x34 else if d = 5 then 0x35
      else if d = 6 then 0x36 else if d = 7 then 0x37 else if d = 8 then 0x38 else 0x39)"

fun showNat :: "nat \<Rightarrow> jsstring" where
  "showNat n = (if n < 10 then [digitChar n] else showNat (n div 10) @ [digitChar (n mod 10)])"

declare showNat.simps [simp del]

definition showInt :: "int \<Rightarrow> jsstring" where
  "showInt i = (if i < 0 then (ascii ''-'') @ showNat (nat (- i)) else showNat (nat i))"

definition intOps :: "(int, jsstring) jsops" where
  "intOps = \<lparr> numToString = showInt,
              toFixed2 = (\<lambda>i. showInt i @ (ascii ''.00'')),
              times100 = (\<lambda>i. 100 * i),
              jsonStringify = (\<lambda>s. s) \<rparr>"

section \<open>The data model\<close>

text \<open>
  The interfaces of \<^verbatim>\<open>commands/player.ts\<close> and of the configuration. A field that the
  command tests for presence before it reads it is an option; \<open>Position\<close> is
  \<open>BlockPosition\<close> with the optional \<open>dimId\<close>. The field \<^verbatim>\<open>id\<close> of a biome is \<open>id'\<close>.
\<close>

record 'n BlockPosition =
  x :: 'n
  y :: 'n
  z :: 'n

record 'n Position = "'n BlockPosition" +
  dimId :: "'n option"

record 'n Biome =
  id' :: 'n
  name :: jsstring

record BlockInfo =
  type :: jsstring
  name :: jsstring

record 'n DeviceInfo =
  ip :: jsstring
  os :: jsstring
  clientId :: jsstring
  inputMode :: 'n
  serverAddress :: jsstring
  avgPing :: 'n
  avgPacketLoss :: 'n
  lastPing :: 'n
  lastPacketLoss :: 'n

record ('n, 'o) PlayerInfo =
  name :: "jsstring option"
  xuid :: jsstring
  uuid :: jsstring
  uniqueId :: jsstring
  permLevel :: 'n
  gameMode :: 'n
  isOP :: bool
  isSimulatedPlayer :: bool
  health :: 'n
  maxHealth :: 'n
  pos :: "'n Position option"
  blockPos :: "'n BlockPosition option"
  feetPos :: "'n Position option"
  lastDeathPos :: "'n Position option"
  respawnPos :: "'n Position option"
  direction :: 'o
  speed :: "'n option"
  biome :: "'n Biome option"
  standingOn :: "BlockInfo option"
  isFlying :: bool
  isSneaking :: bool
  isSprinting :: bool
  isMoving :: bool
  isInAir :: bool
  isInWater :: bool
  isInLava :: bool
  isOnGround :: bool
  isOnFire :: bool
  isSleeping :: bool
  isGliding :: bool
  isRiding :: bool
  isInvisible :: bool
  isHungry :: bool
  canFly :: bool
  canSleep :: bool
  canPickupItems :: bool
  level :: 'n
  currentExp :: 'n
  totalExp :: 'n
  expNeededForNextLevel :: 'n
  handItem :: "'o option"
  offHandItem :: "'o option"
  armor :: "'o list option"
  tags :: "jsstring list option"
  device :: "'n DeviceInfo option"
  langCode :: jsstring

datatype OutputMode = mode_text | mode_typst_image

record FieldFilter =
  key :: jsstring
  enabled :: bool

text \<open>The fields of \<^verbatim>\<open>Config\<close> that the player command reads.\<close>

record 'n Config =
  playerFieldFilters :: "FieldFilter list option"
  defaultOutputModes :: "OutputMode list"
  quoteCommandReplies :: bool
  typstRenderScale :: 'n

record TypstTheme =
  fontFamily :: jsstring
  pageBg :: jsstring
  textColor :: jsstring
  headerFill :: jsstring
  headerStroke :: jsstring
  headerText :: jsstring
  panelFill :: jsstring
  panelStroke :: jsstring
  sectionTitle :: jsstring
  statsText :: jsstring

section \<open>Field visibility and lookup tables\<close>

text \<open>
  \<^verbatim>\<open>cfg.playerFieldFilters?.find(f => f.key === key)\<close>, then
  \<^verbatim>\<open>filter?.enabled ?? true\<close>.
\<close>

definition isFieldEnabled :: "'n Config \<Rightarrow> jsstring \<Rightarrow> bool" where
  "isFieldEnabled cfg k =
     (let found = (case playerFieldFilters cfg of
                     None \<Rightarrow> None
                   | Some fs \<Rightarrow> find (\<lambda>f. key f = k) fs)
      in case found of None \<Rightarrow> True | Some f \<Rightarrow> enabled f)"

text \<open>
  The tables are objects indexed by a number: the property looked up is the one named
  by the number's string form, so each table lists its property names.
\<close>

definition INPUT_MODE_MAP :: "(jsstring \<times> jsstring) list" where
  "INPUT_MODE_MAP =
     [((ascii ''1''), ([0x2328, 0xFE0F] @ ascii '' '' @ [0x952E, 0x9F20])),
      ((ascii ''2''), ([0xD83D, 0xDCF1] @ ascii '' '' @ [0x89E6, 0x5C4F])),
      ((ascii ''3''), ([0xD83C, 0xDFAE] @ ascii '' '' @ [0x624B, 0x67C4]))]"

definition DIMENSION_MAP :: "(jsstring \<times> jsstring) list" where
  "DIMENSION_MAP =
     [((ascii ''0''), ([0xD83C, 0xDF0D] @ ascii '' '' @ [0x4E3B, 0x4E16, 0x754C])),
      ((ascii ''1''), ([0xD83D, 0xDD25] @ ascii '' '' @ [0x4E0B, 0x754C])),
      ((ascii ''2''), ([0xD83C, 0xDF0C] @ ascii '' '' @ [0x672B, 0x5730]))]"

definition GAMEMODE_MAP :: "(jsstring \<times> jsstring) list" where
  "GAMEMODE_MAP =
     [((ascii ''0''), ([0xD83D, 0xDDE1, 0xFE0F] @ ascii '' '' @ [0x751F, 0x5B58])),
      ((ascii ''1''), ([0xD83C, 0xDFA8] @ ascii '' '' @ [0x521B, 0x9020])),
      ((ascii ''2''), ([0xD83C, 0xDFAF] @ ascii '' '' @ [0x5192, 0x9669])),
      ((ascii ''3''), ([0xD83D, 0xDC41, 0xFE0F] @ ascii '' '' @ [0x65C1, 0x89C2]))]"

definition PERM_LEVEL_MAP :: "(jsstring \<times> jsstring) list" where
  "PERM_LEVEL_MAP =
     [((ascii ''0''), ([0xD83D, 0xDC64] @ ascii '' '' @ [0x6210, 0x5458])),
      ((ascii ''1''), ([0x2B50] @ ascii '' '' @ [0x64CD, 0x4F5C, 0x5458])),
      ((ascii ''2''), ([0xD83D, 0xDC51] @ ascii '' '' @ [0x7BA1, 0x7406, 0x5458])),
      ((ascii ''3''), ([0xD83D, 0xDEE1, 0xFE0F] @ ascii '' '' @ [0x670D, 0x4E3B]))]"

text \<open>
  \<open>getDimension\<close> receives \<^verbatim>\<open>pos.dimId\<close>, which the interface declares optional, so its
  argument is an option.
\<close>

definition getDimension :: "('n, 'o) jsops \<Rightarrow> 'n option \<Rightarrow> jsstring" where
  "getDimension ops d =
     orElse (map_of DIMENSION_MAP (numOrUndefined ops d))
            (([0x2753] @ ascii '' '' @ [0x672A, 0x77E5] @ ascii '' ('') @ numOrUndefined ops d @ (ascii '')''))"

definition getGameMode :: "('n, 'o) jsops \<Rightarrow> 'n \<Rightarrow> jsstring" where
  "getGameMode ops m =
     orElse (map_of GAMEMODE_MAP (numToString ops m))
            (([0x2753] @ ascii '' '' @ [0x672A, 0x77E5] @ ascii '' ('') @ numToString ops m @ (ascii '')''))"

definition getPermLevel :: "('n, 'o) jsops \<Rightarrow> 'n \<Rightarrow> jsstring" where
  "getPermLevel ops l =
     orElse (map_of PERM_LEVEL_MAP (numToString ops l))
            (([0x2753] @ ascii '' '' @ [0x672A, 0x77E5] @ ascii '' ('') @ numToString ops l @ (ascii '')''))"

definition getInputMode :: "('n, 'o) jsops \<Rightarrow> 'n \<Rightarrow> jsstring" where
  "getInputMode ops m =
     orElse (map_of INPUT_MODE_MAP (numToString ops m))
            (([0x2753] @ ascii '' '' @ [0x672A, 0x77E5] @ ascii '' ('') @ numToString ops m @ (ascii '')''))"

section \<open>The text formatter\<close>

text \<open>
  \<open>formatTextOutput\<close> builds each section as an array of lines by conditional pushes;
  the arrays are the lists below, in push order.
\<close>

definition textBasicInfo :: "('n, 'o) jsops \<Rightarrow> 'n Config \<Rightarrow> ('n, 'o) PlayerInfo \<Rightarrow> jsstring list" where
  "textBasicInfo ops cfg p =
     (if isFieldEnabled cfg (ascii ''xuid'') then [(ascii ''  '' @ [0x2022] @ ascii '' XUID: '') @ xuid p] else []) @
     (if isFieldEnabled cfg (ascii ''uuid'') then [(ascii ''  '' @ [0x2022] @ ascii '' UUID: '') @ uuid p] else []) @
     (if isFieldEnabled cfg (ascii ''uniqueId'') then [(ascii ''  '' @ [0x2022] @ ascii '' UniqueId: '') @ uniqueId p] else []) @
     (if isFieldEnabled cfg (ascii ''permLevel'')
      then [(ascii ''  '' @ [0x2022] @ ascii '' '' @ [0x6743, 0x9650, 0x7B49, 0x7EA7] @ ascii '': '') @ getPermLevel ops (permLevel p)] else []) @
     (if isFieldEnabled cfg (ascii ''isOP'')
      then [(ascii ''  '' @ [0x2022] @ ascii '' OP: '') @ (if isOP p then ([0x2705] @ ascii '' '' @ [0x662F]) else ([0x274C] @ ascii '' '' @ [0x5426]))] else []) @
     (if isFieldEnabled cfg (ascii ''isSimulatedPlayer'')
      then [(ascii ''  '' @ [0x2022] @ ascii '' '' @ [0x6A21, 0x62DF, 0x73A9, 0x5BB6] @ ascii '': '') @ (if isSimulatedPlayer p then ([0x2705] @ ascii '' '' @ [0x662F]) else ([0x274C] @ ascii '' '' @ [0x5426]))] else []) @
     (if isFieldEnabled cfg (ascii ''langCode'') then [(ascii ''  '' @ [0x2022] @ ascii '' '' @ [0x8BED, 0x8A00] @ ascii '': '') @ langCode p] else [])"

definition textFlags :: "'n Config \<Rightarrow> ('n, 'o) PlayerInfo \<Rightarrow> jsstring list" where
  "textFlags cfg p =
     (if isFieldEnabled cfg (ascii ''isFlying'') \<and> isFlying p then [([0xD83E, 0xDD85] @ ascii '' '' @ [0x98DE, 0x884C])] else []) @
     (if isFieldEnabled cfg (ascii ''isSneaking'') \<and> isSneaking p then [([0xD83D, 0xDC0D] @ ascii '' '' @ [0x6F5C, 0x884C])] else []) @
     (if isFieldEnabled cfg (ascii ''isSprinting'') \<and> isSprinting p then [([0xD83C, 0xDFC3] @ ascii '' '' @ [0x75BE, 0x8DD1])] else []) @
     (if isFieldEnabled cfg (ascii ''isMoving'') \<and> isMoving p then [([0xD83D, 0xDEB6] @ ascii '' '' @ [0x79FB, 0x52A8, 0x4E2D])] else []) @
     (if isFieldEnabled cfg (ascii ''isInAir'') \<and> isInAir p then [([0x2601, 0xFE0F] @ ascii '' '' @ [0x7A7A, 0x4E2D])] else []) @
     (if isFieldEnabled cfg (ascii ''isInWater'') \<and> isInWater p then [([0xD83D, 0xDCA7] @ ascii '' '' @ [0x6C34, 0x4E2D])] else []) @
     (if isFieldEnabled cfg (ascii ''isInLava'') \<and> isInLava p then [([0xD83D, 0xDD25] @ ascii '' '' @ [0x5CA9, 0x6D46, 0x4E2D])] else []) @
     (if isFieldEnabled cfg (ascii ''isOnGround'') \<and> isOnGround p then [([0xD83E, 0xDDF1] @ ascii '' '' @ [0x5730, 0x9762])] else []) @
     (if isFieldEnabled cfg (ascii ''isOnFire'') \<and> isOnFire p then [([0xD83D, 0xDD25] @ ascii '' '' @ [0x7740, 0x706B])] else []) @
     (if isFieldEnabled cfg (ascii ''isSleeping'') \<and> isSleeping p then [([0xD83D, 0xDE34] @ ascii '' '' @ [0x7761, 0x89C9])] else []) @
     (if isFieldEnabled cfg (ascii ''isGliding'') \<and> isGliding p then [([0xD83E, 0xDE82] @ ascii '' '' @ [0x6ED1, 0x7FD4])] else []) @
     (if isFieldEnabled cfg (ascii ''isRiding'') \<and> isRiding p then [([0xD83D, 0xDC34] @ ascii '' '' @ [0x9A91, 0x4E58])] else []) @
     (if isFieldEnabled cfg (ascii ''isInvisible'') \<and> isInvisible p then [([0xD83D, 0xDC7B] @ ascii '' '' @ [0x9690, 0x8EAB])] else []) @
     (if isFieldEnabled cfg (ascii ''isHungry'') \<and> isHungry p then [([0xD83C, 0xDF56] @ ascii '' '' @ [0x9965, 0x997F])] else []) @
     (if isFieldEnabled cfg (ascii ''canFly'') \<and> canFly p then [([0x2708, 0xFE0F] @ ascii '' '' @ [0x53EF, 0x98DE, 0x884C])] else [])"

text \<open>The line that shows \<open>health\<close> and \<open>maxHealth\<close> together.\<close>

definition textHealthLine :: "('n, 'o) jsops \<Rightarrow> ('n, 'o) PlayerInfo \<Rightarrow> jsstring" where
  "textHealthLine ops p =
     (ascii ''  '' @ [0x2022] @ ascii '' '' @ [0x751F, 0x547D, 0x503C] @ ascii '': '') @ numToString ops (health p) @ (ascii ''/'') @ numToString ops (maxHealth p) @ (ascii '' '' @ [0x2764, 0xFE0F])"

definition textGameStatus :: "('n, 'o) jsops \<Rightarrow> 'n Config \<Rightarrow> ('n, 'o) PlayerInfo \<Rightarrow> jsstring list" where
  "textGameStatus ops cfg p =
     (if isFieldEnabled cfg (ascii ''gameMode'')
      then [(ascii ''  '' @ [0x2022] @ ascii '' '' @ [0x6E38, 0x620F, 0x6A21, 0x5F0F] @ ascii '': '') @ getGameMode ops (gameMode p)] else []) @
     (if isFieldEnabled cfg (ascii ''health'') \<and> isFieldEnabled cfg (ascii ''maxHealth'')
      then [textHealthLine ops p] else []) @
     (if isFieldEnabled cfg (ascii ''speed'')
      then [(ascii ''  '' @ [0x2022] @ ascii '' '' @ [0x79FB, 0x52A8, 0x901F, 0x5EA6] @ ascii '': '') @ (case speed p of None \<Rightarrow> (ascii ''N/A'') | Some v \<Rightarrow> toFixed2 ops v)]
      else []) @
     (let flags = textFlags cfg p
      in if flags \<noteq> [] then [(ascii ''  '' @ [0x2022] @ ascii '' '' @ [0x72B6, 0x6001] @ ascii '': '') @ join (ascii '' | '') flags] else [])"

definition textExpInfo :: "('n, 'o) jsops \<Rightarrow> 'n Config \<Rightarrow> ('n, 'o) PlayerInfo \<Rightarrow> jsstring list" where
  "textExpInfo ops cfg p =
     (if isFieldEnabled cfg (ascii ''level'') then [(ascii ''  '' @ [0x2022] @ ascii '' '' @ [0x7B49, 0x7EA7] @ ascii '': '') @ numToString ops (level p)] else []) @
     (if isFieldEnabled cfg (ascii ''currentExp'')
      then [(ascii ''  '' @ [0x2022] @ ascii '' '' @ [0x5F53, 0x524D, 0x7ECF, 0x9A8C] @ ascii '': '') @ numToString ops (currentExp p)] else []) @
     (if isFieldEnabled cfg (ascii ''totalExp'')
      then [(ascii ''  '' @ [0x2022] @ ascii '' '' @ [0x603B, 0x7ECF, 0x9A8C] @ ascii '': '') @ numToString ops (totalExp p)] else []) @
     (if isFieldEnabled cfg (ascii ''expNeededForNextLevel'')
      then [(ascii ''  '' @ [0x2022] @ ascii '' '' @ [0x5347, 0x7EA7, 0x6240, 0x9700] @ ascii '': '') @ numToString ops (expNeededForNextLevel p)] else [])"

definition textPosInfo :: "('n, 'o) jsops \<Rightarrow> 'n Config \<Rightarrow> ('n, 'o) PlayerInfo \<Rightarrow> jsstring list" where
  "textPosInfo ops cfg p =
     (if isFieldEnabled cfg (ascii ''pos.dimId'')
      then (case pos p of
              Some c \<Rightarrow> [(ascii ''  '' @ [0x2022] @ ascii '' '' @ [0x7EF4, 0x5EA6] @ ascii '': '') @ getDimension ops (dimId c)]
            | None \<Rightarrow> [])
      else []) @
     (if isFieldEnabled cfg (ascii ''pos'')
      then (case pos p of
              Some c \<Rightarrow> [(ascii ''  '' @ [0x2022] @ ascii '' '' @ [0x7CBE, 0x786E, 0x5750, 0x6807] @ ascii '': '') @ toFixed2 ops (x c) @ (ascii '', '') @ toFixed2 ops (y c) @ (ascii '', '') @
                         toFixed2 ops (z c)]
            | None \<Rightarrow> [])
      else []) @
     (if isFieldEnabled cfg (ascii ''blockPos'')
      then (case blockPos p of
              Some c \<Rightarrow> [(ascii ''  '' @ [0x2022] @ ascii '' '' @ [0x65B9, 0x5757, 0x5750, 0x6807] @ ascii '': '') @ numToString ops (x c) @ (ascii '', '') @ numToString ops (y c) @
                         (ascii '', '') @ numToString ops (z c)]
            | None \<Rightarrow> [])
      else []) @
     (if isFieldEnabled cfg (ascii ''feetPos'')
      then (case feetPos p of
              Some c \<Rightarrow> [(ascii ''  '' @ [0x2022] @ ascii '' '' @ [0x811A, 0x90E8, 0x5750, 0x6807] @ ascii '': '') @ toFixed2 ops (x c) @ (ascii '', '') @ toFixed2 ops (y c) @ (ascii '', '') @
                         toFixed2 ops (z c)]
            | None \<Rightarrow> [])
      else []) @
     (if isFieldEnabled cfg (ascii ''lastDeathPos'')
      then (case lastDeathPos p of
              Some c \<Rightarrow> [(ascii ''  '' @ [0x2022] @ ascii '' '' @ [0x4E0A, 0x6B21, 0x6B7B, 0x4EA1] @ ascii '': '') @ numToString ops (x c) @ (ascii '', '') @ numToString ops (y c) @
                         (ascii '', '') @ numToString ops (z c) @ (ascii '' ('') @ getDimension ops (dimId c) @ (ascii '')'')]
            | None \<Rightarrow> [])
      else []) @
     (if isFieldEnabled cfg (ascii ''respawnPos'')
      then (case respawnPos p of
              Some c \<Rightarrow> [(ascii ''  '' @ [0x2022] @ ascii '' '' @ [0x91CD, 0x751F, 0x70B9] @ ascii '': '') @ numToString ops (x c) @ (ascii '', '') @ numToString ops (y c) @
                         (ascii '', '') @ numToString ops (z c) @ (ascii '' ('') @ getDimension ops (dimId c) @ (ascii '')'')]
            | None \<Rightarrow> [])
      else [])"

definition textEnvInfo :: "('n, 'o) jsops \<Rightarrow> 'n Config \<Rightarrow> ('n, 'o) PlayerInfo \<Rightarrow> jsstring list" where
  "textEnvInfo ops cfg p =
     (if isFieldEnabled cfg (ascii ''biome'') \<or> isFieldEnabled cfg (ascii ''biome.name'')
      then (case biome p of
              Some b \<Rightarrow>
                (let biomeDisplay =
                       (if isFieldEnabled cfg (ascii ''biome.id'')
                        then Biome.name b @ (ascii '' (ID: '') @ numToString ops (id' b) @ (ascii '')'')
                        else Biome.name b)
                 in [(ascii ''  '' @ [0x2022] @ ascii '' '' @ [0x751F, 0x7269, 0x7FA4, 0x7CFB] @ ascii '': '') @ biomeDisplay])
            | None \<Rightarrow> [])
      else []) @
     (if isFieldEnabled cfg (ascii ''standingOn'') \<or> isFieldEnabled cfg (ascii ''standingOn.name'')
      then (case standingOn p of
              Some b \<Rightarrow>
                (let blockDisplay =
                       (if isFieldEnabled cfg (ascii ''standingOn.type'')
                        then BlockInfo.name b @ (ascii '' ('') @ type b @ (ascii '')'')
                        else BlockInfo.name b)
                 in [(ascii ''  '' @ [0x2022] @ ascii '' '' @ [0x811A, 0x4E0B, 0x65B9, 0x5757] @ ascii '': '') @ blockDisplay])
            | None \<Rightarrow> [])
      else [])"

definition textDeviceInfo :: "('n, 'o) jsops \<Rightarrow> 'n Config \<Rightarrow> 'n DeviceInfo \<Rightarrow> jsstring list" where
  "textDeviceInfo ops cfg d =
     (if isFieldEnabled cfg (ascii ''device.os'') then [(ascii ''  '' @ [0x2022] @ ascii '' '' @ [0x64CD, 0x4F5C, 0x7CFB, 0x7EDF] @ ascii '': '') @ os d] else []) @
     (if isFieldEnabled cfg (ascii ''device.inputMode'')
      then [(ascii ''  '' @ [0x2022] @ ascii '' '' @ [0x8F93, 0x5165, 0x65B9, 0x5F0F] @ ascii '': '') @ getInputMode ops (inputMode d)] else []) @
     (if isFieldEnabled cfg (ascii ''device.ip'') then [(ascii ''  '' @ [0x2022] @ ascii '' IP '' @ [0x5730, 0x5740] @ ascii '': '') @ ip d] else []) @
     (if isFieldEnabled cfg (ascii ''device.clientId'') then [(ascii ''  '' @ [0x2022] @ ascii '' '' @ [0x5BA2, 0x6237, 0x7AEF] @ ascii '' ID: '') @ clientId d] else []) @
     (if isFieldEnabled cfg (ascii ''device.serverAddress'')
      then [(ascii ''  '' @ [0x2022] @ ascii '' '' @ [0x670D, 0x52A1, 0x5668, 0x5730, 0x5740] @ ascii '': '') @ serverAddress d] else []) @
     (if isFieldEnabled cfg (ascii ''device.avgPing'')
      then [(ascii ''  '' @ [0x2022] @ ascii '' '' @ [0x5E73, 0x5747, 0x5EF6, 0x8FDF] @ ascii '': '') @ numToString ops (avgPing d) @ (ascii ''ms'')] else []) @
     (if isFieldEnabled cfg (ascii ''device.lastPing'')
      then [(ascii ''  '' @ [0x2022] @ ascii '' '' @ [0x6700, 0x8FD1, 0x5EF6, 0x8FDF] @ ascii '': '') @ numToString ops (lastPing d) @ (ascii ''ms'')] else []) @
     (if isFieldEnabled cfg (ascii ''device.avgPacketLoss'')
      then [(ascii ''  '' @ [0x2022] @ ascii '' '' @ [0x5E73, 0x5747, 0x4E22, 0x5305, 0x7387] @ ascii '': '') @ toFixed2 ops (times100 ops (avgPacketLoss d)) @ (ascii ''%'')] else []) @
     (if isFieldEnabled cfg (ascii ''device.lastPacketLoss'')
      then [(ascii ''  '' @ [0x2022] @ ascii '' '' @ [0x6700, 0x8FD1, 0x4E22, 0x5305, 0x7387] @ ascii '': '') @ toFixed2 ops (times100 ops (lastPacketLoss d)) @ (ascii ''%'')] else [])"

definition textItemInfo :: "('n, 'o) jsops \<Rightarrow> 'n Config \<Rightarrow> ('n, 'o) PlayerInfo \<Rightarrow> jsstring list" where
  "textItemInfo ops cfg p =
     (if isFieldEnabled cfg (ascii ''handItem'')
      then (case handItem p of
              Some v \<Rightarrow> [(ascii ''  '' @ [0x2022] @ ascii '' '' @ [0x4E3B, 0x624B, 0x7269, 0x54C1] @ ascii '': '') @ jsonStringify ops v]
            | None \<Rightarrow> [])
      else []) @
     (if isFieldEnabled cfg (ascii ''offHandItem'')
      then (case offHandItem p of
              Some v \<Rightarrow> [(ascii ''  '' @ [0x2022] @ ascii '' '' @ [0x526F, 0x624B, 0x7269, 0x54C1] @ ascii '': '') @ jsonStringify ops v]
            | None \<Rightarrow> [])
      else []) @
     (if isFieldEnabled cfg (ascii ''armor'')
      then (case armor p of
              Some vs \<Rightarrow> if vs \<noteq> [] then [(ascii ''  '' @ [0x2022] @ ascii '' '' @ [0x88C5, 0x5907] @ ascii '': '') @ stringifyArray ops vs] else []
            | None \<Rightarrow> [])
      else []) @
     (if isFieldEnabled cfg (ascii ''tags'')
      then (case tags p of
              Some ts \<Rightarrow> if ts \<noteq> [] then [(ascii ''  '' @ [0x2022] @ ascii '' '' @ [0x6807, 0x7B7E] @ ascii '': '') @ join (ascii '', '') ts] else []
            | None \<Rightarrow> [])
      else [])"

text \<open>
  The array \<open>lines\<close> at the final \<^verbatim>\<open>return\<close>: the title, an empty line, and for each
  section with at least one line its heading, its lines and an empty line (none after
  the items, the last section). The device section is built only when the path
  \<^verbatim>\<open>device\<close> is enabled and the record has a device.
\<close>

definition textLines ::
  "('n, 'o) jsops \<Rightarrow> 'n Config \<Rightarrow> ('n, 'o) PlayerInfo \<Rightarrow> jsstring \<Rightarrow> jsstring list" where
  "textLines ops cfg p lbl =
     [lbl @ (ascii '' '' @ [0xD83D, 0xDC64] @ ascii '' '' @ [0x73A9, 0x5BB6, 0x8BE6, 0x60C5] @ ascii '': '') @ strOrUndefined (PlayerInfo.name p), []] @
     (let basicInfo = textBasicInfo ops cfg p
      in if basicInfo \<noteq> [] then [([0xD83D, 0xDCCB] @ ascii '' '' @ [0x57FA, 0x672C, 0x4FE1, 0x606F] @ ascii '':'')] @ basicInfo @ [[]] else []) @
     (let gameStatus = textGameStatus ops cfg p
      in if gameStatus \<noteq> [] then [([0xD83C, 0xDFAE] @ ascii '' '' @ [0x6E38, 0x620F, 0x72B6, 0x6001] @ ascii '':'')] @ gameStatus @ [[]] else []) @
     (let expInfo = textExpInfo ops cfg p
      in if expInfo \<noteq> [] then [([0x2B50] @ ascii '' '' @ [0x7ECF, 0x9A8C, 0x4FE1, 0x606F] @ ascii '':'')] @ expInfo @ [[]] else []) @
     (let posInfo = textPosInfo ops cfg p
      in if posInfo \<noteq> [] then [([0xD83D, 0xDCCD] @ ascii '' '' @ [0x4F4D, 0x7F6E, 0x4FE1, 0x606F] @ ascii '':'')] @ posInfo @ [[]] else []) @
     (let envInfo = textEnvInfo ops cfg p
      in if envInfo \<noteq> [] then [([0xD83C, 0xDF0D] @ ascii '' '' @ [0x73AF, 0x5883, 0x4FE1, 0x606F] @ ascii '':'')] @ envInfo @ [[]] else []) @
     (if isFieldEnabled cfg (ascii ''device'')
      then (case device p of
              Some d \<Rightarrow>
                (let deviceInfo = textDeviceInfo ops cfg d
                 in if deviceInfo \<noteq> [] then [([0xD83D, 0xDCF1] @ ascii '' '' @ [0x8BBE, 0x5907, 0x4FE1, 0x606F] @ ascii '':'')] @ deviceInfo @ [[]] else [])
            | None \<Rightarrow> [])
      else []) @
     (let itemInfo = textItemInfo ops cfg p
      in if itemInfo \<noteq> [] then [([0xD83C, 0xDF92] @ ascii '' '' @ [0x7269, 0x54C1, 0x4FE1, 0x606F] @ ascii '':'')] @ itemInfo else [])"

text \<open>
  The record may be absent, and its name may be absent or empty: the test
  \<^verbatim>\<open>!player || !player.name\<close>.
\<close>

definition noPlayer :: "('n, 'o) PlayerInfo option \<Rightarrow> bool" where
  "noPlayer player =
     (case player of
        None \<Rightarrow> True
      | Some p \<Rightarrow> (case PlayerInfo.name p of None \<Rightarrow> True | Some s \<Rightarrow> s = []))"

text \<open>The message of the early return.\<close>

definition textNotFound :: "jsstring \<Rightarrow> jsstring \<Rightarrow> jsstring" where
  "textNotFound queryName lbl =
     lbl @ (ascii '' '' @ [0xD83D, 0xDC64] @ ascii '' '' @ [0x73A9, 0x5BB6, 0x67E5, 0x8BE2] @ ascii ''\<newline>'' @
            ascii ''\<newline>'' @
            [0x274C] @ ascii '' '' @ [0x672A, 0x627E, 0x5230, 0x73A9, 0x5BB6] @ ascii '': '') @ queryName"

definition formatTextOutput ::
  "('n, 'o) jsops \<Rightarrow> ('n, 'o) PlayerInfo option \<Rightarrow> jsstring \<Rightarrow> 'n Config \<Rightarrow> jsstring \<Rightarrow> jsstring" where
  "formatTextOutput ops player queryName cfg lbl =
     (case player of
        None \<Rightarrow> textNotFound queryName lbl
      | Some p \<Rightarrow>
          if noPlayer player then textNotFound queryName lbl
          else trimEnd (join (ascii ''\<newline>'') (textLines ops cfg p lbl)))"

section \<open>The markup formatter\<close>

text \<open>
  \<open>escapeTypstText\<close> is a chain of fourteen global replacements, each applied to the result
  of the one before. The code units are, in order: backslash, the two brackets, hash,
  dollar, backtick, star, underscore, less, greater and at-sign, each replaced by a
  backslash and itself; then LF by a space, CR by the empty string, TAB by a space.
\<close>

definition escapeTypstText :: "jsstring \<Rightarrow> jsstring" where
  "escapeTypstText str =
     (let s1 = replaceAll 0x5C [0x5C, 0x5C] str;
          s2 = replaceAll 0x5B [0x5C, 0x5B] s1;
          s3 = replaceAll 0x5D [0x5C, 0x5D] s2;
          s4 = replaceAll 0x23 [0x5C, 0x23] s3;
          s5 = replaceAll 0x24 [0x5C, 0x24] s4;
          s6 = replaceAll 0x60 [0x5C, 0x60] s5;
          s7 = replaceAll 0x2A [0x5C, 0x2A] s6;
          s8 = replaceAll 0x5F [0x5C, 0x5F] s7;
          s9 = replaceAll 0x3C [0x5C, 0x3C] s8;
          s10 = replaceAll 0x3E [0x5C, 0x3E] s9;
          s11 = replaceAll 0x40 [0x5C, 0x40] s10;
          s12 = replaceAll 0x0A [0x20] s11;
          s13 = replaceAll 0x0D [] s12;
          s14 = replaceAll 0x09 [0x20] s13
      in s14)"

text \<open>The arrays that \<open>generateTypstCode\<close> fills before it builds the panels.\<close>

definition typstFlags :: "'n Config \<Rightarrow> ('n, 'o) PlayerInfo \<Rightarrow> jsstring list" where
  "typstFlags cfg p =
     (if isFieldEnabled cfg (ascii ''isOP'') \<and> isOP p then [([0xD83D, 0xDC51] @ ascii '' OP'')] else []) @
     (if isFieldEnabled cfg (ascii ''isFlying'') \<and> isFlying p then [([0xD83E, 0xDD85] @ ascii '' '' @ [0x98DE, 0x884C])] else []) @
     (if isFieldEnabled cfg (ascii ''isSneaking'') \<and> isSneaking p then [([0xD83D, 0xDC0D] @ ascii '' '' @ [0x6F5C, 0x884C])] else []) @
     (if isFieldEnabled cfg (ascii ''isSprinting'') \<and> isSprinting p then [([0xD83C, 0xDFC3] @ ascii '' '' @ [0x75BE, 0x8DD1])] else []) @
     (if isFieldEnabled cfg (ascii ''isInWater'') \<and> isInWater p then [([0xD83D, 0xDCA7] @ ascii '' '' @ [0x6C34, 0x4E2D])] else []) @
     (if isFieldEnabled cfg (ascii ''isInLava'') \<and> isInLava p then [([0xD83D, 0xDD25] @ ascii '' '' @ [0x5CA9, 0x6D46])] else []) @
     (if isFieldEnabled cfg (ascii ''isOnFire'') \<and> isOnFire p then [([0xD83D, 0xDD25] @ ascii '' '' @ [0x7740, 0x706B])] else []) @
     (if isFieldEnabled cfg (ascii ''isGliding'') \<and> isGliding p then [([0xD83E, 0xDE82] @ ascii '' '' @ [0x6ED1, 0x7FD4])] else []) @
     (if isFieldEnabled cfg (ascii ''isRiding'') \<and> isRiding p then [([0xD83D, 0xDC34] @ ascii '' '' @ [0x9A91, 0x4E58])] else []) @
     (if isFieldEnabled cfg (ascii ''isInvisible'') \<and> isInvisible p then [([0xD83D, 0xDC7B] @ ascii '' '' @ [0x9690, 0x8EAB])] else [])"

definition typstBasicInfoRows ::
  "('n, 'o) jsops \<Rightarrow> 'n Config \<Rightarrow> ('n, 'o) PlayerInfo \<Rightarrow> jsstring list" where
  "typstBasicInfoRows ops cfg p =
     (if isFieldEnabled cfg (ascii ''xuid'')
      then [(ascii ''[XUID], [#text(size: 9pt)['') @ escapeTypstText (xuid p) @ (ascii '']],'')] else []) @
     (if isFieldEnabled cfg (ascii ''uuid'')
      then [(ascii ''[UUID], [#text(size: 9pt)['') @ escapeTypstText (uuid p) @ (ascii '']],'')] else []) @
     (if isFieldEnabled cfg (ascii ''uniqueId'')
      then [(ascii ''[UniqueId], [#text(size: 9pt)['') @ escapeTypstText (uniqueId p) @ (ascii '']],'')] else []) @
     (if isFieldEnabled cfg (ascii ''permLevel'')
      then [(ascii ''['' @ [0x6743, 0x9650, 0x7B49, 0x7EA7] @ ascii ''], ['') @ escapeTypstText (getPermLevel ops (permLevel p)) @ (ascii ''],'')] else []) @
     (if isFieldEnabled cfg (ascii ''isSimulatedPlayer'')
      then [(ascii ''['' @ [0x6A21, 0x62DF, 0x73A9, 0x5BB6] @ ascii ''], ['') @ (if isSimulatedPlayer p then ([0x2705] @ ascii '' '' @ [0x662F]) else ([0x274C] @ ascii '' '' @ [0x5426])) @ (ascii ''],'')] else []) @
     (if isFieldEnabled cfg (ascii ''langCode'')
      then [(ascii ''['' @ [0x8BED, 0x8A00] @ ascii ''], ['') @ escapeTypstText (langCode p) @ (ascii ''],'')] else [])"

text \<open>The grid item that shows \<open>health\<close> and \<open>maxHealth\<close> together.\<close>

definition typstHealthItem :: "('n, 'o) jsops \<Rightarrow> ('n, 'o) PlayerInfo \<Rightarrow> jsstring" where
  "typstHealthItem ops p =
     (ascii ''['' @ [0x751F, 0x547D, 0x503C] @ ascii '': '' @ [0x2764, 0xFE0F] @ ascii '' '') @ numToString ops (health p) @ (ascii ''/'') @ numToString ops (maxHealth p) @ (ascii '']'')"

definition typstGameStatusItems ::
  "('n, 'o) jsops \<Rightarrow> 'n Config \<Rightarrow> ('n, 'o) PlayerInfo \<Rightarrow> jsstring list" where
  "typstGameStatusItems ops cfg p =
     (if isFieldEnabled cfg (ascii ''gameMode'')
      then [(ascii ''['' @ [0x6E38, 0x620F, 0x6A21, 0x5F0F] @ ascii '': '') @ escapeTypstText (getGameMode ops (gameMode p)) @ (ascii '']'')] else []) @
     (if isFieldEnabled cfg (ascii ''health'') \<and> isFieldEnabled cfg (ascii ''maxHealth'')
      then [typstHealthItem ops p] else []) @
     (if isFieldEnabled cfg (ascii ''speed'')
      then [(ascii ''['' @ [0x79FB, 0x52A8, 0x901F, 0x5EA6] @ ascii '': '' @ [0xD83C, 0xDFC3] @ ascii '' '') @ (case speed p of None \<Rightarrow> (ascii ''N/A'') | Some v \<Rightarrow> toFixed2 ops v) @ (ascii '']'')]
      else []) @
     (if isFieldEnabled cfg (ascii ''isHungry'')
      then [(ascii ''['' @ [0x9965, 0x997F] @ ascii '': '') @ (if isHungry p then ([0xD83C, 0xDF56] @ ascii '' '' @ [0x662F]) else ([0xD83C, 0xDF57] @ ascii '' '' @ [0x5426])) @ (ascii '']'')] else [])"

definition typstExpItems ::
  "('n, 'o) jsops \<Rightarrow> 'n Config \<Rightarrow> ('n, 'o) PlayerInfo \<Rightarrow> jsstring list" where
  "typstExpItems ops cfg p =
     (if isFieldEnabled cfg (ascii ''level'')
      then [(ascii ''['' @ [0x7B49, 0x7EA7] @ ascii '': '' @ [0x2B50] @ ascii '' '') @ numToString ops (level p) @ (ascii '']'')] else []) @
     (if isFieldEnabled cfg (ascii ''currentExp'')
      then [(ascii ''['' @ [0x5F53, 0x524D, 0x7ECF, 0x9A8C] @ ascii '': '') @ numToString ops (currentExp p) @ (ascii '']'')] else []) @
     (if isFieldEnabled cfg (ascii ''totalExp'')
      then [(ascii ''['' @ [0x603B, 0x7ECF, 0x9A8C] @ ascii '': '') @ numToString ops (totalExp p) @ (ascii '']'')] else []) @
     (if isFieldEnabled cfg (ascii ''expNeededForNextLevel'')
      then [(ascii ''['' @ [0x5347, 0x7EA7, 0x6240, 0x9700] @ ascii '': '') @ numToString ops (expNeededForNextLevel p) @ (ascii '']'')] else [])"

definition typstPosInfoRows ::
  "('n, 'o) jsops \<Rightarrow> 'n Config \<Rightarrow> ('n, 'o) PlayerInfo \<Rightarrow> jsstring list" where
  "typstPosInfoRows ops cfg p =
     (if isFieldEnabled cfg (ascii ''pos.dimId'')
      then (case pos p of
              Some c \<Rightarrow> [(ascii ''['' @ [0x7EF4, 0x5EA6] @ ascii ''], ['') @ escapeTypstText (getDimension ops (dimId c)) @ (ascii ''],'')]
            | None \<Rightarrow> [])
      else []) @
     (if isFieldEnabled cfg (ascii ''pos'')
      then (case pos p of
              Some c \<Rightarrow> [(ascii ''['' @ [0x7CBE, 0x786E, 0x5750, 0x6807] @ ascii ''], ['') @ toFixed2 ops (x c) @ (ascii '', '') @ toFixed2 ops (y c) @ (ascii '', '') @
                         toFixed2 ops (z c) @ (ascii ''],'')]
            | None \<Rightarrow> [])
      else []) @
     (if isFieldEnabled cfg (ascii ''blockPos'')
      then (case blockPos p of
              Some c \<Rightarrow> [(ascii ''['' @ [0x65B9, 0x5757, 0x5750, 0x6807] @ ascii ''], ['') @ numToString ops (x c) @ (ascii '', '') @ numToString ops (y c) @
                         (ascii '', '') @ numToString ops (z c) @ (ascii ''],'')]
            | None \<Rightarrow> [])
      else []) @
     (if isFieldEnabled cfg (ascii ''lastDeathPos'')
      then (case lastDeathPos p of
              Some c \<Rightarrow> [(ascii ''['' @ [0x4E0A, 0x6B21, 0x6B7B, 0x4EA1] @ ascii ''], ['') @ numToString ops (x c) @ (ascii '', '') @ numToString ops (y c) @
                         (ascii '', '') @ numToString ops (z c) @ (ascii ''],'')]
            | None \<Rightarrow> [])
      else []) @
     (if isFieldEnabled cfg (ascii ''respawnPos'')
      then (case respawnPos p of
              Some c \<Rightarrow> [(ascii ''['' @ [0x91CD, 0x751F, 0x70B9] @ ascii ''], ['') @ numToString ops (x c) @ (ascii '', '') @ numToString ops (y c) @
                         (ascii '', '') @ numToString ops (z c) @ (ascii ''],'')]
            | None \<Rightarrow> [])
      else [])"

definition typstEnvInfoRows ::
  "('n, 'o) jsops \<Rightarrow> 'n Config \<Rightarrow> ('n, 'o) PlayerInfo \<Rightarrow> jsstring list" where
  "typstEnvInfoRows ops cfg p =
     (if isFieldEnabled cfg (ascii ''biome'') \<or> isFieldEnabled cfg (ascii ''biome.name'')
      then (case biome p of
              Some b \<Rightarrow>
                (let biomeDisplay =
                       (if isFieldEnabled cfg (ascii ''biome.id'')
                        then Biome.name b @ (ascii '' (ID: '') @ numToString ops (id' b) @ (ascii '')'')
                        else Biome.name b)
                 in [(ascii ''['' @ [0x751F, 0x7269, 0x7FA4, 0x7CFB] @ ascii ''], ['') @ escapeTypstText biomeDisplay @ (ascii ''],'')])
            | None \<Rightarrow> [])
      else []) @
     (if isFieldEnabled cfg (ascii ''standingOn'') \<or> isFieldEnabled cfg (ascii ''standingOn.name'')
      then (case standingOn p of
              Some b \<Rightarrow> [(ascii ''['' @ [0x811A, 0x4E0B, 0x65B9, 0x5757] @ ascii ''], ['') @ escapeTypstText (BlockInfo.name b) @ (ascii ''],'')]
            | None \<Rightarrow> [])
      else [])"

definition typstDeviceInfoRows ::
  "('n, 'o) jsops \<Rightarrow> 'n Config \<Rightarrow> ('n, 'o) PlayerInfo \<Rightarrow> jsstring list" where
  "typstDeviceInfoRows ops cfg p =
     (if isFieldEnabled cfg (ascii ''device'')
      then (case device p of
              Some d \<Rightarrow>
                (if isFieldEnabled cfg (ascii ''device.os'')
                 then [(ascii ''['' @ [0x64CD, 0x4F5C, 0x7CFB, 0x7EDF] @ ascii ''], ['') @ escapeTypstText (os d) @ (ascii ''],'')] else []) @
                (if isFieldEnabled cfg (ascii ''device.inputMode'')
                 then [(ascii ''['' @ [0x8F93, 0x5165, 0x65B9, 0x5F0F] @ ascii ''], ['') @ escapeTypstText (getInputMode ops (inputMode d)) @ (ascii ''],'')]
                 else []) @
                (if isFieldEnabled cfg (ascii ''device.ip'')
                 then [(ascii ''[IP '' @ [0x5730, 0x5740] @ ascii ''], [#text(size: 9pt)['') @ escapeTypstText (ip d) @ (ascii '']],'')] else []) @
                (if isFieldEnabled cfg (ascii ''device.serverAddress'')
                 then [(ascii ''['' @ [0x670D, 0x52A1, 0x5668, 0x5730, 0x5740] @ ascii ''], [#text(size: 9pt)['') @ escapeTypstText (serverAddress d) @ (ascii '']],'')]
                 else []) @
                (if isFieldEnabled cfg (ascii ''device.avgPing'')
                 then [(ascii ''['' @ [0x5E73, 0x5747, 0x5EF6, 0x8FDF] @ ascii ''], ['') @ numToString ops (avgPing d) @ (ascii ''ms],'')] else []) @
                (if isFieldEnabled cfg (ascii ''device.lastPing'')
                 then [(ascii ''['' @ [0x6700, 0x8FD1, 0x5EF6, 0x8FDF] @ ascii ''], ['') @ numToString ops (lastPing d) @ (ascii ''ms],'')] else []) @
                (if isFieldEnabled cfg (ascii ''device.avgPacketLoss'')
                 then [(ascii ''['' @ [0x5E73, 0x5747, 0x4E22, 0x5305] @ ascii ''], ['') @ toFixed2 ops (times100 ops (avgPacketLoss d)) @ (ascii ''%],'')]
                 else [])
            | None \<Rightarrow> [])
      else [])"

text \<open>The six panels, each the template literal that is pushed onto \<open>panels\<close>.\<close>

definition basicInfoPanel :: "TypstTheme \<Rightarrow> jsstring list \<Rightarrow> jsstring" where
  "basicInfoPanel theme basicInfoRows =
     (ascii ''#block(\<newline>'' @
      ascii ''  fill: '') @
     panelFill theme @
     (ascii '',\<newline>'' @
      ascii ''  stroke: 1pt + '') @
     panelStroke theme @
     (ascii '',\<newline>'' @
      ascii ''  radius: 4pt,\<newline>'' @
      ascii ''  inset: 12pt,\<newline>'' @
      ascii ''  width: 100%\<newline>'' @
      ascii '')[\<newline>'' @
      ascii ''  #text(weight: '' @ [0x0022] @ ascii ''bold'' @ [0x0022] @ ascii '', fill: '') @
     sectionTitle theme @
     (ascii '')['' @ [0xD83D, 0xDCCB] @ ascii '' '' @ [0x57FA, 0x672C, 0x4FE1, 0x606F] @ ascii '']\<newline>'' @
      ascii ''  #v(6pt)\<newline>'' @
      ascii ''  #table(\<newline>'' @
      ascii ''    columns: (auto, 1fr),\<newline>'' @
      ascii ''    stroke: none,\<newline>'' @
      ascii ''    row-gutter: 4pt,\<newline>'' @
      ascii ''    '') @
     join (ascii ''\<newline>'' @
           ascii ''    '') basicInfoRows @
     (ascii ''\<newline>'' @
      ascii ''  )\<newline>'' @
      ascii '']'')"

definition gameStatusPanel :: "TypstTheme \<Rightarrow> jsstring list \<Rightarrow> jsstring" where
  "gameStatusPanel theme gameStatusItems =
     (ascii ''#block(\<newline>'' @
      ascii ''  fill: '') @
     panelFill theme @
     (ascii '',\<newline>'' @
      ascii ''  stroke: 1pt + '') @
     panelStroke theme @
     (ascii '',\<newline>'' @
      ascii ''  radius: 4pt,\<newline>'' @
      ascii ''  inset: 12pt,\<newline>'' @
      ascii ''  width: 100%\<newline>'' @
      ascii '')[\<newline>'' @
      ascii ''  #text(weight: '' @ [0x0022] @ ascii ''bold'' @ [0x0022] @ ascii '', fill: '') @
     sectionTitle theme @
     (ascii '')['' @ [0xD83C, 0xDFAE] @ ascii '' '' @ [0x6E38, 0x620F, 0x72B6, 0x6001] @ ascii '']\<newline>'' @
      ascii ''  #v(6pt)\<newline>'' @
      ascii ''  #grid(\<newline>'' @
      ascii ''    columns: (1fr, 1fr),\<newline>'' @
      ascii ''    gutter: 8pt,\<newline>'' @
      ascii ''    '') @
     join (ascii '',\<newline>'' @
           ascii ''    '') gameStatusItems @
     (ascii '',\<newline>'' @
      ascii ''  )\<newline>'' @
      ascii '']'')"

definition expPanel :: "TypstTheme \<Rightarrow> jsstring list \<Rightarrow> jsstring" where
  "expPanel theme expItems =
     (ascii ''#block(\<newline>'' @
      ascii ''  fill: '') @
     panelFill theme @
     (ascii '',\<newline>'' @
      ascii ''  stroke: 1pt + '') @
     panelStroke theme @
     (ascii '',\<newline>'' @
      ascii ''  radius: 4pt,\<newline>'' @
      ascii ''  inset: 12pt,\<newline>'' @
      ascii ''  width: 100%\<newline>'' @
      ascii '')[\<newline>'' @
      ascii ''  #text(weight: '' @ [0x0022] @ ascii ''bold'' @ [0x0022] @ ascii '', fill: '') @
     sectionTitle theme @
     (ascii '')['' @ [0x2B50] @ ascii '' '' @ [0x7ECF, 0x9A8C, 0x4FE1, 0x606F] @ ascii '']\<newline>'' @
      ascii ''  #v(6pt)\<newline>'' @
      ascii ''  #grid(\<newline>'' @
      ascii ''    columns: (1fr, 1fr),\<newline>'' @
      ascii ''    gutter: 8pt,\<newline>'' @
      ascii ''    '') @
     join (ascii '',\<newline>'' @
           ascii ''    '') expItems @
     (ascii '',\<newline>'' @
      ascii ''  )\<newline>'' @
      ascii '']'')"

definition posInfoPanel :: "TypstTheme \<Rightarrow> jsstring list \<Rightarrow> jsstring" where
  "posInfoPanel theme posInfoRows =
     (ascii ''#block(\<newline>'' @
      ascii ''  fill: '') @
     panelFill theme @
     (ascii '',\<newline>'' @
      ascii ''  stroke: 1pt + '') @
     panelStroke theme @
     (ascii '',\<newline>'' @
      ascii ''  radius: 4pt,\<newline>'' @
      ascii ''  inset: 12pt,\<newline>'' @
      ascii ''  width: 100%\<newline>'' @
      ascii '')[\<newline>'' @
      ascii ''  #text(weight: '' @ [0x0022] @ ascii ''bold'' @ [0x0022] @ ascii '', fill: '') @
     sectionTitle theme @
     (ascii '')['' @ [0xD83D, 0xDCCD] @ ascii '' '' @ [0x4F4D, 0x7F6E, 0x4FE1, 0x606F] @ ascii '']\<newline>'' @
      ascii ''  #v(6pt)\<newline>'' @
      ascii ''  #table(\<newline>'' @
      ascii ''    columns: (auto, 1fr),\<newline>'' @
      ascii ''    stroke: none,\<newline>'' @
      ascii ''    row-gutter: 4pt,\<newline>'' @
      ascii ''    '') @
     join (ascii ''\<newline>'' @
           ascii ''    '') posInfoRows @
     (ascii ''\<newline>'' @
      ascii ''  )\<newline>'' @
      ascii '']'')"

definition envInfoPanel :: "TypstTheme \<Rightarrow> jsstring list \<Rightarrow> jsstring" where
  "envInfoPanel theme envInfoRows =
     (ascii ''#block(\<newline>'' @
      ascii ''  fill: '') @
     panelFill theme @
     (ascii '',\<newline>'' @
      ascii ''  stroke: 1pt + '') @
     panelStroke theme @
     (ascii '',\<newline>'' @
      ascii ''  radius: 4pt,\<newline>'' @
      ascii ''  inset: 12pt,\<newline>'' @
      ascii ''  width: 100%\<newline>'' @
      ascii '')[\<newline>'' @
      ascii ''  #text(weight: '' @ [0x0022] @ ascii ''bold'' @ [0x0022] @ ascii '', fill: '') @
     sectionTitle theme @
     (ascii '')['' @ [0xD83C, 0xDF0D] @ ascii '' '' @ [0x73AF, 0x5883, 0x4FE1, 0x606F] @ ascii '']\<newline>'' @
      ascii ''  #v(6pt)\<newline>'' @
      ascii ''  #table(\<newline>'' @
      ascii ''    columns: (auto, 1fr),\<newline>'' @
      ascii ''    stroke: none,\<newline>'' @
      ascii ''    row-gutter: 4pt,\<newline>'' @
      ascii ''    '') @
     join (ascii ''\<newline>'' @
           ascii ''    '') envInfoRows @
     (ascii ''\<newline>'' @
      ascii ''  )\<newline>'' @
      ascii '']'')"

definition deviceInfoPanel :: "TypstTheme \<Rightarrow> jsstring list \<Rightarrow> jsstring" where
  "deviceInfoPanel theme deviceInfoRows =
     (ascii ''#block(\<newline>'' @
      ascii ''  fill: '') @
     panelFill theme @
     (ascii '',\<newline>'' @
      ascii ''  stroke: 1pt + '') @
     panelStroke theme @
     (ascii '',\<newline>'' @
      ascii ''  radius: 4pt,\<newline>'' @
      ascii ''  inset: 12pt,\<newline>'' @
      ascii ''  width: 100%\<newline>'' @
      ascii '')[\<newline>'' @
      ascii ''  #text(weight: '' @ [0x0022] @ ascii ''bold'' @ [0x0022] @ ascii '', fill: '') @
     sectionTitle theme @
     (ascii '')['' @ [0xD83D, 0xDCF1] @ ascii '' '' @ [0x8BBE, 0x5907, 0x4FE1, 0x606F] @ ascii '']\<newline>'' @
      ascii ''  #v(6pt)\<newline>'' @
      ascii ''  #table(\<newline>'' @
      ascii ''    columns: (auto, 1fr),\<newline>'' @
      ascii ''    stroke: none,\<newline>'' @
      ascii ''    row-gutter: 4pt,\<newline>'' @
      ascii ''    '') @
     join (ascii ''\<newline>'' @
           ascii ''    '') deviceInfoRows @
     (ascii ''\<newline>'' @
      ascii ''  )\<newline>'' @
      ascii '']'')"

definition typstPanels ::
  "('n, 'o) jsops \<Rightarrow> TypstTheme \<Rightarrow> 'n Config \<Rightarrow> ('n, 'o) PlayerInfo \<Rightarrow> jsstring list" where
  "typstPanels ops theme cfg p =
     (let basicInfoRows = typstBasicInfoRows ops cfg p
      in if basicInfoRows \<noteq> [] then [basicInfoPanel theme basicInfoRows] else []) @
     (let gameStatusItems = typstGameStatusItems ops cfg p
      in if gameStatusItems \<noteq> [] then [gameStatusPanel theme gameStatusItems] else []) @
     (let expItems = typstExpItems ops cfg p
      in if expItems \<noteq> [] then [expPanel theme expItems] else []) @
     (let posInfoRows = typstPosInfoRows ops cfg p
      in if posInfoRows \<noteq> [] then [posInfoPanel theme posInfoRows] else []) @
     (let envInfoRows = typstEnvInfoRows ops cfg p
      in if envInfoRows \<noteq> [] then [envInfoPanel theme envInfoRows] else []) @
     (let deviceInfoRows = typstDeviceInfoRows ops cfg p
      in if deviceInfoRows \<noteq> [] then [deviceInfoPanel theme deviceInfoRows] else [])"

text \<open>The document of the early return, for a record that is absent or has no name.\<close>

definition typstNotFound :: "jsstring \<Rightarrow> jsstring \<Rightarrow> TypstTheme \<Rightarrow> jsstring \<Rightarrow> jsstring" where
  "typstNotFound timestamp queryName theme lbl =
     (ascii ''#set page(\<newline>'' @
      ascii ''  width: 400pt,\<newline>'' @
      ascii ''  height: auto,\<newline>'' @
      ascii ''  margin: (x: 14pt, y: 14pt),\<newline>'' @
      ascii ''  fill: '') @
     pageBg theme @
     (ascii ''\<newline>'' @
      ascii '')\<newline>'' @
      ascii ''\<newline>'' @
      ascii ''#set text(\<newline>'' @
      ascii ''  font: ('' @ [0x0022]) @
     fontFamily theme @
     ([0x0022] @ ascii '', '' @ [0x0022] @ ascii ''Noto Sans CJK SC'' @ [0x0022] @ ascii '', '' @ [0x0022] @ ascii ''Microsoft YaHei'' @ [0x0022] @ ascii ''),\<newline>'' @
      ascii ''  size: 11pt,\<newline>'' @
      ascii ''  fill: '') @
     textColor theme @
     (ascii '',\<newline>'' @
      ascii ''  lang: '' @ [0x0022] @ ascii ''zh'' @ [0x0022] @ ascii ''\<newline>'' @
      ascii '')\<newline>'' @
      ascii ''\<newline>'' @
      ascii ''#align(center)[\<newline>'' @
      ascii ''  #block(\<newline>'' @
      ascii ''    fill: '') @
     headerFill theme @
     (ascii '',\<newline>'' @
      ascii ''    stroke: 2pt + '') @
     headerStroke theme @
     (ascii '',\<newline>'' @
      ascii ''    radius: 6pt,\<newline>'' @
      ascii ''    inset: 10pt,\<newline>'' @
      ascii ''    width: 100%\<newline>'' @
      ascii ''  )[\<newline>'' @
      ascii ''    #text(size: 16pt, weight: '' @ [0x0022] @ ascii ''bold'' @ [0x0022] @ ascii '', fill: '') @
     headerText theme @
     (ascii '')[\<newline>'' @
      ascii ''      '') @
     escapeTypstText lbl @
     (ascii '' '' @ [0xD83D, 0xDC64] @ ascii '' '' @ [0x73A9, 0x5BB6, 0x67E5, 0x8BE2] @ ascii ''\<newline>'' @
      ascii ''    ]\<newline>'' @
      ascii ''  ]\<newline>'' @
      ascii '']\<newline>'' @
      ascii ''\<newline>'' @
      ascii ''#v(8pt)\<newline>'' @
      ascii ''\<newline>'' @
      ascii ''#block(\<newline>'' @
      ascii ''  fill: '') @
     panelFill theme @
     (ascii '',\<newline>'' @
      ascii ''  stroke: 1pt + '') @
     panelStroke theme @
     (ascii '',\<newline>'' @
      ascii ''  radius: 4pt,\<newline>'' @
      ascii ''  inset: 12pt,\<newline>'' @
      ascii ''  width: 100%\<newline>'' @
      ascii '')[\<newline>'' @
      ascii ''  #align(center)[\<newline>'' @
      ascii ''    #text(size: 12pt)['' @ [0x274C] @ ascii '' '' @ [0x672A, 0x627E, 0x5230, 0x73A9, 0x5BB6] @ ascii '': '') @
     escapeTypstText queryName @
     (ascii '']\<newline>'' @
      ascii ''  ]\<newline>'' @
      ascii '']\<newline>'' @
      ascii ''\<newline>'' @
      ascii ''#v(8pt)\<newline>'' @
      ascii ''\<newline>'' @
      ascii ''#align(center)[\<newline>'' @
      ascii ''  #text(size: 8pt, fill: '') @
     statsText theme @
     (ascii '')[\<newline>'' @
      ascii ''    Generated by serverinfo-rest-client '' @ [0x00B7] @ ascii '' '') @
     escapeTypstText timestamp @
     (ascii ''\<newline>'' @
      ascii ''  ]\<newline>'' @
      ascii '']\<newline>'')"

text \<open>The document of the final \<^verbatim>\<open>return\<close>.\<close>

definition typstDocument ::
  "jsstring \<Rightarrow> ('n, 'o) PlayerInfo \<Rightarrow> TypstTheme \<Rightarrow> jsstring \<Rightarrow> jsstring list \<Rightarrow> jsstring list \<Rightarrow> jsstring" where
  "typstDocument timestamp p theme lbl flags panels =
     (ascii ''#set page(\<newline>'' @
      ascii ''  width: 450pt,\<newline>'' @
      ascii ''  height: auto,\<newline>'' @
      ascii ''  margin: (x: 14pt, y: 14pt),\<newline>'' @
      ascii ''  fill: '') @
     pageBg theme @
     (ascii ''\<newline>'' @
      ascii '')\<newline>'' @
      ascii ''\<newline>'' @
      ascii ''#set text(\<newline>'' @
      ascii ''  font: ('' @ [0x0022]) @
     fontFamily theme @
     ([0x0022] @ ascii '', '' @ [0x0022] @ ascii ''Noto Sans CJK SC'' @ [0x0022] @ ascii '', '' @ [0x0022] @ ascii ''Microsoft YaHei'' @ [0x0022] @ ascii ''),\<newline>'' @
      ascii ''  size: 11pt,\<newline>'' @
      ascii ''  fill: '') @
     textColor theme @
     (ascii '',\<newline>'' @
      ascii ''  lang: '' @ [0x0022] @ ascii ''zh'' @ [0x0022] @ ascii ''\<newline>'' @
      ascii '')\<newline>'' @
      ascii ''\<newline>'' @
      ascii ''#align(center)[\<newline>'' @
      ascii ''  #block(\<newline>'' @
      ascii ''    fill: '') @
     headerFill theme @
     (ascii '',\<newline>'' @
      ascii ''    stroke: 2pt + '') @
     headerStroke theme @
     (ascii '',\<newline>'' @
      ascii ''    radius: 6pt,\<newline>'' @
      ascii ''    inset: 10pt,\<newline>'' @
      ascii ''    width: 100%\<newline>'' @
      ascii ''  )[\<newline>'' @
      ascii ''    #text(size: 16pt, weight: '' @ [0x0022] @ ascii ''bold'' @ [0x0022] @ ascii '', fill: '') @
     headerText theme @
     (ascii '')[\<newline>'' @
      ascii ''      '') @
     escapeTypstText lbl @
     (ascii '' '' @ [0xD83D, 0xDC64] @ ascii '' '') @
     escapeTypstText (strOrUndefined (PlayerInfo.name p)) @
     (ascii ''\<newline>'' @
      ascii ''    ]\<newline>'' @
      ascii ''    '') @
     (if flags \<noteq> [] then (ascii ''#h(8pt) #text(size: 11pt, fill: '') @ headerText theme @ (ascii '')['') @ join (ascii '' '') flags @ (ascii '']'') else []) @
     (ascii ''\<newline>'' @
      ascii ''  ]\<newline>'' @
      ascii '']\<newline>'' @
      ascii ''\<newline>'' @
      ascii ''#v(8pt)\<newline>'' @
      ascii ''\<newline>'') @
     join (ascii ''\<newline>'' @
           ascii ''\<newline>'' @
           ascii ''#v(6pt)\<newline>'' @
           ascii ''\<newline>'') panels @
     (ascii ''\<newline>'' @
      ascii ''\<newline>'' @
      ascii ''#v(8pt)\<newline>'' @
      ascii ''\<newline>'' @
      ascii ''#align(center)[\<newline>'' @
      ascii ''  #text(size: 8pt, fill: '') @
     statsText theme @
     (ascii '')[\<newline>'' @
      ascii ''    Generated by serverinfo-rest-client '' @ [0x00B7] @ ascii '' '') @
     escapeTypstText timestamp @
     (ascii ''\<newline>'' @
      ascii ''  ]\<newline>'' @
      ascii '']\<newline>'')"

text \<open>
  \<open>generateTypstCode\<close> first reads the clock: \<open>timestamp\<close> is the value of
  \<^verbatim>\<open>new Date().toLocaleString('zh-CN')\<close> at the call, an input beside the five
  arguments of the source.
\<close>

definition generateTypstCode ::
  "('n, 'o) jsops \<Rightarrow> jsstring \<Rightarrow> ('n, 'o) PlayerInfo option \<Rightarrow> jsstring \<Rightarrow> TypstTheme \<Rightarrow> 'n Config \<Rightarrow>
   jsstring \<Rightarrow> jsstring" where
  "generateTypstCode ops timestamp player queryName theme cfg lbl =
     (case player of
        None \<Rightarrow> typstNotFound timestamp queryName theme lbl
      | Some p \<Rightarrow>
          if noPlayer player then typstNotFound timestamp queryName theme lbl
          else typstDocument timestamp p theme lbl (typstFlags cfg p) (typstPanels ops theme cfg p))"

section \<open>The command\<close>



datatype 'png h = h_text jsstring | h_image 'png | h_quote jsstring








section \<open>Notions of the specification\<close>

text \<open>
  The definitions of this section are not translations of the source: they are the
  notions in which the properties of the formatters are stated.
\<close>

subsection \<open>The escaping contract\<close>

text \<open>
  The escaping contract, character by character: each of the eleven special characters
  is prefixed by a backslash, a line feed or a tab becomes one space, a carriage return
  is dropped, and any other code unit is kept.
\<close>

definition typstSpecials :: "16 word list" where
  "typstSpecials = [0x5C, 0x5B, 0x5D, 0x23, 0x24, 0x60, 0x2A, 0x5F, 0x3C, 0x3E, 0x40]"

definition escapeChar :: "16 word \<Rightarrow> jsstring" where
  "escapeChar u =
     (if u \<in> set typstSpecials then [0x5C, u]
      else if u = 0x0A \<or> u = 0x09 then [0x20]
      else if u = 0x0D then []
      else [u])"

text \<open>
  The inverse of the escaping rules: a backslash followed by a special character stands
  for that character. A text is well escaped when every special character in it follows
  a backslash that escapes it. The escaping does not keep line feeds, tabs and carriage
  returns, so what the inverse recovers has them collapsed.
\<close>

fun unescapeTypstText :: "jsstring \<Rightarrow> jsstring" where
  "unescapeTypstText [] = []"
| "unescapeTypstText [u] = [u]"
| "unescapeTypstText (u # v # s) =
     (if u = 0x5C \<and> v \<in> set typstSpecials then v # unescapeTypstText s
      else u # unescapeTypstText (v # s))"

fun wellEscaped :: "jsstring \<Rightarrow> bool" where
  "wellEscaped [] = True"
| "wellEscaped [u] = (u \<notin> set typstSpecials)"
| "wellEscaped (u # v # s) =
     (if u = 0x5C then v \<in> set typstSpecials \<and> wellEscaped s
      else u \<notin> set typstSpecials \<and> wellEscaped (v # s))"

definition collapseWhiteSpace :: "jsstring \<Rightarrow> jsstring" where
  "collapseWhiteSpace s =
     concat (map (\<lambda>u. if u = 0x0A \<or> u = 0x09 then [0x20] else if u = 0x0D then [] else [u]) s)"

text \<open>
  A document embeds a string in escaped form when it is a fixed text before, the
  escaped string, and a fixed text after: the string itself occurs nowhere else. An
  array of rows embeds a string in escaped form when one of its rows does and the other
  rows are fixed. A document uses a string in escaped form only when it embeds it in
  escaped form or does not depend on it.
\<close>

definition embedsEscaped :: "(jsstring \<Rightarrow> jsstring) \<Rightarrow> bool" where
  "embedsEscaped f \<longleftrightarrow> (\<exists>pre post. \<forall>s. f s = pre @ escapeTypstText s @ post)"

definition embedsEscapedRow :: "(jsstring \<Rightarrow> jsstring list) \<Rightarrow> bool" where
  "embedsEscapedRow F \<longleftrightarrow>
     (\<exists>before g after. embedsEscaped g \<and> (\<forall>s. F s = before @ [g s] @ after))"

definition escapedOnly :: "(jsstring \<Rightarrow> jsstring) \<Rightarrow> bool" where
  "escapedOnly f \<longleftrightarrow> embedsEscaped f \<or> (\<exists>c. \<forall>s. f s = c)"

subsection \<open>Sections\<close>

text \<open>
  The headings of the text report, and the blocks of \<open>lines\<close>: a section with at least
  one line contributes its heading, its lines and an empty line; the device section is
  built only for an enabled, present device; the items come last, with no empty line.
\<close>

definition textHeadings :: "jsstring list" where
  "textHeadings =
     [([0xD83D, 0xDCCB] @ ascii '' '' @ [0x57FA, 0x672C, 0x4FE1, 0x606F] @ ascii '':''), ([0xD83C, 0xDFAE] @ ascii '' '' @ [0x6E38, 0x620F, 0x72B6, 0x6001] @ ascii '':''), ([0x2B50] @ ascii '' '' @ [0x7ECF, 0x9A8C, 0x4FE1, 0x606F] @ ascii '':''), ([0xD83D, 0xDCCD] @ ascii '' '' @ [0x4F4D, 0x7F6E, 0x4FE1, 0x606F] @ ascii '':''), ([0xD83C, 0xDF0D] @ ascii '' '' @ [0x73AF, 0x5883, 0x4FE1, 0x606F] @ ascii '':''), ([0xD83D, 0xDCF1] @ ascii '' '' @ [0x8BBE, 0x5907, 0x4FE1, 0x606F] @ ascii '':''),
      ([0xD83C, 0xDF92] @ ascii '' '' @ [0x7269, 0x54C1, 0x4FE1, 0x606F] @ ascii '':'')]"

definition textBlock :: "jsstring \<Rightarrow> jsstring list \<Rightarrow> jsstring list" where
  "textBlock h ls = (if ls \<noteq> [] then [h] @ ls @ [[]] else [])"

definition textDeviceBlock ::
  "('n, 'o) jsops \<Rightarrow> 'n Config \<Rightarrow> ('n, 'o) PlayerInfo \<Rightarrow> jsstring list" where
  "textDeviceBlock ops cfg p =
     (if isFieldEnabled cfg (ascii ''device'')
      then (case device p of
              Some d \<Rightarrow> textBlock ([0xD83D, 0xDCF1] @ ascii '' '' @ [0x8BBE, 0x5907, 0x4FE1, 0x606F] @ ascii '':'') (textDeviceInfo ops cfg d)
            | None \<Rightarrow> [])
      else [])"

definition textItemBlock ::
  "('n, 'o) jsops \<Rightarrow> 'n Config \<Rightarrow> ('n, 'o) PlayerInfo \<Rightarrow> jsstring list" where
  "textItemBlock ops cfg p =
     (let itemInfo = textItemInfo ops cfg p
      in if itemInfo \<noteq> [] then [([0xD83C, 0xDF92] @ ascii '' '' @ [0x7269, 0x54C1, 0x4FE1, 0x606F] @ ascii '':'')] @ itemInfo else [])"

text \<open>The field paths that enable the lines of each section, in either formatter.\<close>

definition basicInfoKeys :: "jsstring list" where
  "basicInfoKeys =
     [(ascii ''xuid''), (ascii ''uuid''), (ascii ''uniqueId''), (ascii ''permLevel''), (ascii ''isOP''), (ascii ''isSimulatedPlayer''), (ascii ''langCode'')]"

definition gameStatusKeys :: "jsstring list" where
  "gameStatusKeys =
     [(ascii ''gameMode''), (ascii ''health''), (ascii ''maxHealth''), (ascii ''speed''), (ascii ''isFlying''), (ascii ''isSneaking''), (ascii ''isSprinting''),
      (ascii ''isMoving''), (ascii ''isInAir''), (ascii ''isInWater''), (ascii ''isInLava''), (ascii ''isOnGround''), (ascii ''isOnFire''), (ascii ''isSleeping''),
      (ascii ''isGliding''), (ascii ''isRiding''), (ascii ''isInvisible''), (ascii ''isHungry''), (ascii ''canFly'')]"

definition expKeys :: "jsstring list" where
  "expKeys = [(ascii ''level''), (ascii ''currentExp''), (ascii ''totalExp''), (ascii ''expNeededForNextLevel'')]"

definition posKeys :: "jsstring list" where
  "posKeys = [(ascii ''pos.dimId''), (ascii ''pos''), (ascii ''blockPos''), (ascii ''feetPos''), (ascii ''lastDeathPos''), (ascii ''respawnPos'')]"

definition envKeys :: "jsstring list" where
  "envKeys = [(ascii ''biome''), (ascii ''biome.name''), (ascii ''standingOn''), (ascii ''standingOn.name'')]"

definition deviceKeys :: "jsstring list" where
  "deviceKeys =
     [(ascii ''device''), (ascii ''device.os''), (ascii ''device.inputMode''), (ascii ''device.ip''), (ascii ''device.clientId''),
      (ascii ''device.serverAddress''), (ascii ''device.avgPing''), (ascii ''device.lastPing''), (ascii ''device.avgPacketLoss''),
      (ascii ''device.lastPacketLoss'')]"

definition itemKeys :: "jsstring list" where
  "itemKeys = [(ascii ''handItem''), (ascii ''offHandItem''), (ascii ''armor''), (ascii ''tags'')]"

definition allDisabled :: "'n Config \<Rightarrow> jsstring list \<Rightarrow> bool" where
  "allDisabled cfg ks \<longleftrightarrow> (\<forall>k \<in> set ks. \<not> isFieldEnabled cfg k)"

subsection \<open>The parts of a document\<close>

text \<open>
  The parts that the not-found document and the document of a record have in common:
  the page and text setup after the line of the page width, the header block up to the
  title, and the footer with the time stamp; and what remains of each document, the end
  of the header and the panels.
\<close>

definition docSetup :: "TypstTheme \<Rightarrow> jsstring" where
  "docSetup theme =
     (ascii ''  height: auto,\<newline>'' @
      ascii ''  margin: (x: 14pt, y: 14pt),\<newline>'' @
      ascii ''  fill: '') @
     pageBg theme @
     (ascii ''\<newline>'' @
      ascii '')\<newline>'' @
      ascii ''\<newline>'' @
      ascii ''#set text(\<newline>'' @
      ascii ''  font: ('' @ [0x0022]) @
     fontFamily theme @
     ([0x0022] @ ascii '', '' @ [0x0022] @ ascii ''Noto Sans CJK SC'' @ [0x0022] @ ascii '', '' @ [0x0022] @ ascii ''Microsoft YaHei'' @ [0x0022] @ ascii ''),\<newline>'' @
      ascii ''  size: 11pt,\<newline>'' @
      ascii ''  fill: '') @
     textColor theme @
     (ascii '',\<newline>'' @
      ascii ''  lang: '' @ [0x0022] @ ascii ''zh'' @ [0x0022] @ ascii ''\<newline>'' @
      ascii '')\<newline>'' @
      ascii ''\<newline>'')"

definition docHeader :: "TypstTheme \<Rightarrow> jsstring \<Rightarrow> jsstring" where
  "docHeader theme lbl =
     (ascii ''#align(center)[\<newline>'' @
      ascii ''  #block(\<newline>'' @
      ascii ''    fill: '') @
     headerFill theme @
     (ascii '',\<newline>'' @
      ascii ''    stroke: 2pt + '') @
     headerStroke theme @
     (ascii '',\<newline>'' @
      ascii ''    radius: 6pt,\<newline>'' @
      ascii ''    inset: 10pt,\<newline>'' @
      ascii ''    width: 100%\<newline>'' @
      ascii ''  )[\<newline>'' @
      ascii ''    #text(size: 16pt, weight: '' @ [0x0022] @ ascii ''bold'' @ [0x0022] @ ascii '', fill: '') @
     headerText theme @
     (ascii '')[\<newline>'' @
      ascii ''      '') @
     escapeTypstText lbl @
     (ascii '' '' @ [0xD83D, 0xDC64] @ ascii '' '')"

definition docFooter :: "TypstTheme \<Rightarrow> jsstring \<Rightarrow> jsstring" where
  "docFooter theme timestamp =
     (ascii ''\<newline>'' @
      ascii ''#v(8pt)\<newline>'' @
      ascii ''\<newline>'' @
      ascii ''#align(center)[\<newline>'' @
      ascii ''  #text(size: 8pt, fill: '') @
     statsText theme @
     (ascii '')[\<newline>'' @
      ascii ''    Generated by serverinfo-rest-client '' @ [0x00B7] @ ascii '' '') @
     escapeTypstText timestamp @
     (ascii ''\<newline>'' @
      ascii ''  ]\<newline>'' @
      ascii '']\<newline>'')"

definition notFoundBody :: "TypstTheme \<Rightarrow> jsstring \<Rightarrow> jsstring" where
  "notFoundBody theme queryName =
     ([0x73A9, 0x5BB6, 0x67E5, 0x8BE2] @ ascii ''\<newline>'' @
      ascii ''    ]\<newline>'' @
      ascii ''  ]\<newline>'' @
      ascii '']\<newline>'' @
      ascii ''\<newline>'' @
      ascii ''#v(8pt)\<newline>'' @
      ascii ''\<newline>'' @
      ascii ''#block(\<newline>'' @
      ascii ''  fill: '') @
     panelFill theme @
     (ascii '',\<newline>'' @
      ascii ''  stroke: 1pt + '') @
     panelStroke theme @
     (ascii '',\<newline>'' @
      ascii ''  radius: 4pt,\<newline>'' @
      ascii ''  inset: 12pt,\<newline>'' @
      ascii ''  width: 100%\<newline>'' @
      ascii '')[\<newline>'' @
      ascii ''  #align(center)[\<newline>'' @
      ascii ''    #text(size: 12pt)['' @ [0x274C] @ ascii '' '' @ [0x672A, 0x627E, 0x5230, 0x73A9, 0x5BB6] @ ascii '': '') @
     escapeTypstText queryName @
     (ascii '']\<newline>'' @
      ascii ''  ]\<newline>'' @
      ascii '']\<newline>'')"

definition recordBody ::
  "TypstTheme \<Rightarrow> ('n, 'o) PlayerInfo \<Rightarrow> jsstring list \<Rightarrow> jsstring list \<Rightarrow> jsstring" where
  "recordBody theme p flags panels =
     escapeTypstText (strOrUndefined (PlayerInfo.name p)) @
     (ascii ''\<newline>'' @
      ascii ''    ]\<newline>'' @
      ascii ''    '') @
     (if flags \<noteq> [] then (ascii ''#h(8pt) #text(size: 11pt, fill: '') @ headerText theme @ (ascii '')['') @ join (ascii '' '') flags @ (ascii '']'') else []) @
     (ascii ''\<newline>'' @
      ascii ''  ]\<newline>'' @
      ascii '']\<newline>'' @
      ascii ''\<newline>'' @
      ascii ''#v(8pt)\<newline>'' @
      ascii ''\<newline>'') @
     join (ascii ''\<newline>'' @
           ascii ''\<newline>'' @
           ascii ''#v(6pt)\<newline>'' @
           ascii ''\<newline>'') panels @
     (ascii ''\<newline>'')"

subsection \<open>The element of a mode\<close>


section \<open>Example data\<close>

text \<open>
  A record with the fields \<^verbatim>\<open>name: "Steve", xuid: "123", health: 18, maxHealth: 20,
  isFlying: true\<close> over the integer instance, with no nested object, a theme with the
  default colours, and a configuration with two filter entries.
\<close>

definition steve :: "(int, jsstring) PlayerInfo" where
  "steve = \<lparr> PlayerInfo.name = Some (ascii ''Steve''), xuid = (ascii ''123''), uuid = [], uniqueId = [],
       permLevel = 0, gameMode = 0, isOP = False, isSimulatedPlayer = False,
       health = 18, maxHealth = 20, pos = None, blockPos = None, feetPos = None,
       lastDeathPos = None, respawnPos = None, direction = [], speed = None,
       biome = None, standingOn = None, isFlying = True, isSneaking = False,
       isSprinting = False, isMoving = False, isInAir = False, isInWater = False,
       isInLava = False, isOnGround = False, isOnFire = False, isSleeping = False,
       isGliding = False, isRiding = False, isInvisible = False, isHungry = False,
       canFly = False, canSleep = False, canPickupItems = False, level = 0,
       currentExp = 0, totalExp = 0, expNeededForNextLevel = 0, handItem = None,
       offHandItem = None, armor = None, tags = None, device = None, langCode = (ascii ''zh_CN'') \<rparr>"

definition lxgwTheme :: TypstTheme where
  "lxgwTheme = \<lparr> fontFamily = (ascii ''LXGW WenKai Mono''), pageBg = (ascii ''rgb('' @ [0x0022] @ ascii ''#f9efe2'' @ [0x0022] @ ascii '')''),
       textColor = (ascii ''rgb('' @ [0x0022] @ ascii ''#2f2f35'' @ [0x0022] @ ascii '')''), headerFill = (ascii ''rgb('' @ [0x0022] @ ascii ''#5dade2'' @ [0x0022] @ ascii '')''),
       headerStroke = (ascii ''rgb('' @ [0x0022] @ ascii ''#3498db'' @ [0x0022] @ ascii '')''), headerText = (ascii ''rgb('' @ [0x0022] @ ascii ''#ffffff'' @ [0x0022] @ ascii '')''),
       panelFill = (ascii ''rgb('' @ [0x0022] @ ascii ''#fffbf8'' @ [0x0022] @ ascii '')''), panelStroke = (ascii ''rgb('' @ [0x0022] @ ascii ''#f3efe5'' @ [0x0022] @ ascii '')''),
       sectionTitle = (ascii ''rgb('' @ [0x0022] @ ascii ''#2980b9'' @ [0x0022] @ ascii '')''), statsText = (ascii ''rgb('' @ [0x0022] @ ascii ''#8788a5'' @ [0x0022] @ ascii '')'') \<rparr>"

definition twoFilters :: "int Config" where
  "twoFilters = \<lparr> playerFieldFilters =
         Some [\<lparr> key = (ascii ''uniqueId''), enabled = False \<rparr>, \<lparr> key = (ascii ''xuid''), enabled = True \<rparr>],
       defaultOutputModes = [mode_text, mode_typst_image],
       quoteCommandReplies = False,
       typstRenderScale = 2 \<rparr>"


text \<open>A configuration that disables every field path of every section.\<close>

definition allHidden :: "int Config" where
  "allHidden =
     \<lparr> playerFieldFilters =
         Some (map (\<lambda>k. \<lparr> key = k, enabled = False \<rparr>)
                (basicInfoKeys @ gameStatusKeys @ expKeys @ posKeys @ envKeys @ deviceKeys @
                 itemKeys)),
       defaultOutputModes = [mode_text],
       quoteCommandReplies = True,
       typstRenderScale = 2 \<rparr>"

section \<open>Basic facts about strings\<close>

text \<open>
  The arrays of lines are conditionals whose other branch is the empty list. The
  simplification procedure that reads the set of such a list as a set comprehension does
  not apply to them and is switched off.
\<close>

declare TrueI [simproc del: list_to_set_comprehension]

lemma ascii_Nil: "ascii [] = []"
  by (simp add: ascii_def)

lemma ascii_Cons: "ascii (c # cs) = of_char c # ascii cs"
  by (simp add: ascii_def)

lemmas ascii_simps = ascii_Nil ascii_Cons

lemma replaceAll_Nil [simp]: "replaceAll c r [] = []"
  by (simp add: replaceAll_def)

lemma replaceAll_Cons: "replaceAll c r (u # s) = (if u = c then r else [u]) @ replaceAll c r s"
  by (simp add: replaceAll_def)

lemma replaceAll_append: "replaceAll c r (s @ t) = replaceAll c r s @ replaceAll c r t"
  by (simp add: replaceAll_def)

section \<open>The visibility resolver\<close>

lemma find_first_match:
  "\<forall>g \<in> set fs1. key g \<noteq> k \<Longrightarrow> key f = k \<Longrightarrow> find (\<lambda>f. key f = k) (fs1 @ f # fs2) = Some f"
  by (induction fs1) auto

lemma find_no_match: "\<forall>g \<in> set fs. key g \<noteq> k \<Longrightarrow> find (\<lambda>f. key f = k) fs = None"
  by (induction fs) auto

text \<open>
  Claim C3. \<open>isFieldEnabled\<close> returns the \<open>enabled\<close> value of the first entry of the filter
  set whose key is the path: an entry \<open>f\<close> with that key, with no entry of that key before
  it, decides the answer, whatever follows it. When no entry has the key (or the
  configuration has no filter set) the answer is true.
\<close>

theorem isFieldEnabled_first_match:
  "(playerFieldFilters cfg = Some (fs1 @ f # fs2) \<and> key f = k \<and> (\<forall>g \<in> set fs1. key g \<noteq> k)
      \<longrightarrow> isFieldEnabled cfg k = enabled f) \<and>
   ((\<forall>fs. playerFieldFilters cfg = Some fs \<longrightarrow> (\<forall>g \<in> set fs. key g \<noteq> k))
      \<longrightarrow> isFieldEnabled cfg k)"
proof (intro conjI impI)
  assume h: "playerFieldFilters cfg = Some (fs1 @ f # fs2) \<and> key f = k \<and> (\<forall>g \<in> set fs1. key g \<noteq> k)"
  then have "find (\<lambda>f. key f = k) (fs1 @ f # fs2) = Some f"
    using find_first_match [of fs1 k f fs2] by simp
  with h show "isFieldEnabled cfg k = enabled f"
    by (simp add: isFieldEnabled_def)
next
  assume h: "\<forall>fs. playerFieldFilters cfg = Some fs \<longrightarrow> (\<forall>g \<in> set fs. key g \<noteq> k)"
  show "isFieldEnabled cfg k"
  proof (cases "playerFieldFilters cfg")
    case None
    then show ?thesis by (simp add: isFieldEnabled_def)
  next
    case (Some fs)
    with h have "find (\<lambda>f. key f = k) fs = None"
      using find_no_match [of fs k] by simp
    with Some show ?thesis by (simp add: isFieldEnabled_def)
  qed
qed

theorem isFieldEnabled_first_match_witness:
  "isFieldEnabled
     (twoFilters\<lparr>playerFieldFilters :=
        Some ([\<lparr>key = (ascii ''xuid''), enabled = True\<rparr>] @ \<lparr>key = (ascii ''uniqueId''), enabled = False\<rparr> #
              [\<lparr>key = (ascii ''uniqueId''), enabled = True\<rparr>])\<rparr>) (ascii ''uniqueId'')
     = False \<and>
   isFieldEnabled twoFilters (ascii ''speed'')"
  using
    isFieldEnabled_first_match
      [of "twoFilters\<lparr>playerFieldFilters :=
             Some ([\<lparr>key = (ascii ''xuid''), enabled = True\<rparr>] @ \<lparr>key = (ascii ''uniqueId''), enabled = False\<rparr> #
                   [\<lparr>key = (ascii ''uniqueId''), enabled = True\<rparr>])\<rparr>"
          "[\<lparr>key = (ascii ''xuid''), enabled = True\<rparr>]" "\<lparr>key = (ascii ''uniqueId''), enabled = False\<rparr>"
          "[\<lparr>key = (ascii ''uniqueId''), enabled = True\<rparr>]" "(ascii ''uniqueId'')"]
    isFieldEnabled_first_match [of twoFilters "[]" "\<lparr>key = (ascii ''xuid''), enabled = True\<rparr>" "[]" "(ascii ''speed'')"]
  by (simp add: twoFilters_def ascii_simps)

section \<open>The escaping routine\<close>

lemma escapeTypstText_Nil [simp]: "escapeTypstText [] = []"
  by (simp add: escapeTypstText_def)

lemma escapeTypstText_Cons: "escapeTypstText (u # s) = escapeChar u @ escapeTypstText s"
  by (simp add: escapeTypstText_def escapeChar_def typstSpecials_def replaceAll_Cons
      replaceAll_append)

text \<open>
  Claim C2, as the code has it. The chain of replacements escapes each character on its
  own: the result is the concatenation of the escapes of the characters, so the
  backslash a later replacement inserts is never escaped again. A line feed and a tab
  each give one space; a carriage return gives nothing.
\<close>

theorem escapeTypstText_chars: "escapeTypstText s = concat (map escapeChar s)"
  by (induction s) (simp_all add: escapeTypstText_Cons)

text \<open>The claim as stated fails on a carriage return: it leaves no space behind.\<close>

theorem escapeTypstText_cr_counterexample:
  "escapeTypstText ((ascii ''a'') @ [0x0D] @ (ascii ''b'')) = (ascii ''ab'')"
  by (simp add: escapeTypstText_Cons escapeChar_def typstSpecials_def ascii_simps)

section \<open>The lookup tables\<close>

lemma digitChar_eq_iff:
  "d < 10 \<Longrightarrow> e < 10 \<Longrightarrow> digitChar d = digitChar e \<longleftrightarrow> d = e"
  by (simp add: digitChar_def) arith

lemma showNat_small: "n < 10 \<Longrightarrow> showNat n = [digitChar n]"
  by (simp add: showNat.simps)

lemma showNat_not_Nil: "showNat n \<noteq> []"
  by (subst showNat.simps) simp

lemma showNat_large: "10 \<le> n \<Longrightarrow> 2 \<le> length (showNat n)"
proof -
  assume "10 \<le> n"
  then have "showNat n = showNat (n div 10) @ [digitChar (n mod 10)]"
    by (subst showNat.simps) simp
  moreover have "1 \<le> length (showNat (n div 10))"
    using showNat_not_Nil [of "n div 10"] by (cases "showNat (n div 10)") simp_all
  ultimately show ?thesis by simp
qed

lemma showNat_eq_digit: "e < 10 \<Longrightarrow> showNat n = [digitChar e] \<longleftrightarrow> n = e"
proof (cases "n < 10")
  case True
  assume "e < 10"
  with True show ?thesis by (simp add: showNat_small digitChar_eq_iff)
next
  case False
  assume "e < 10"
  from False have "2 \<le> length (showNat n)" by (simp add: showNat_large)
  with False \<open>e < 10\<close> show ?thesis by auto
qed

lemma showInt_eq_digit: "e < 10 \<Longrightarrow> showInt c = [digitChar e] \<longleftrightarrow> c = int e"
proof (cases "c < 0")
  case True
  assume "e < 10"
  have "showNat (nat (- c)) \<noteq> []" by (rule showNat_not_Nil)
  with True \<open>e < 10\<close> show ?thesis by (auto simp add: showInt_def ascii_simps)
next
  case False
  assume "e < 10"
  with False show ?thesis by (auto simp add: showInt_def showNat_eq_digit)
qed

lemma showInt_eq_0 [simp]: "showInt c = [0x30] \<longleftrightarrow> c = 0"
  using showInt_eq_digit [of 0 c] by (simp add: digitChar_def ascii_simps)

lemma showInt_eq_1 [simp]: "showInt c = [0x31] \<longleftrightarrow> c = 1"
  using showInt_eq_digit [of 1 c] by (simp add: digitChar_def ascii_simps)

lemma showInt_eq_2 [simp]: "showInt c = [0x32] \<longleftrightarrow> c = 2"
  using showInt_eq_digit [of 2 c] by (simp add: digitChar_def ascii_simps)

lemma showInt_eq_3 [simp]: "showInt c = [0x33] \<longleftrightarrow> c = 3"
  using showInt_eq_digit [of 3 c] by (simp add: digitChar_def ascii_simps)

lemma showInt_not_undefined [simp]: "showInt c \<noteq> (ascii ''undefined'')"
proof (cases "c < 0")
  case True
  then show ?thesis by (simp add: showInt_def ascii_simps)
next
  case False
  then show ?thesis
    by (subst showInt_def, subst showNat.simps) (auto simp add: digitChar_def ascii_simps)
qed


section \<open>Render failures\<close>





section \<open>Sections and their headings\<close>

lemma heading_not_bulleted: "h \<in> set textHeadings \<Longrightarrow> take 1 h \<noteq> [0x20]"
  by (auto simp add: textHeadings_def ascii_simps)

lemma heading_not_empty: "h \<in> set textHeadings \<Longrightarrow> h \<noteq> []"
  by (auto simp add: textHeadings_def ascii_simps)

lemma heading_short: "h \<in> set textHeadings \<Longrightarrow> length h < 9"
  by (auto simp add: textHeadings_def ascii_def)

lemma title_not_heading:
  "h \<in> set textHeadings \<Longrightarrow> lbl @ (ascii '' '' @ [0xD83D, 0xDC64] @ ascii '' '' @ [0x73A9, 0x5BB6, 0x8BE6, 0x60C5] @ ascii '': '') @ s \<noteq> h"
proof
  assume h: "h \<in> set textHeadings" and eq: "lbl @ (ascii '' '' @ [0xD83D, 0xDC64] @ ascii '' '' @ [0x73A9, 0x5BB6, 0x8BE6, 0x60C5] @ ascii '': '') @ s = h"
  have "9 \<le> length (lbl @ (ascii '' '' @ [0xD83D, 0xDC64] @ ascii '' '' @ [0x73A9, 0x5BB6, 0x8BE6, 0x60C5] @ ascii '': '') @ s)"
    by (simp add: ascii_def)
  with eq heading_short [OF h] show False by simp
qed

lemma in_set_if: "l \<in> set (if c then ls else []) \<longleftrightarrow> c \<and> l \<in> set ls"
  by simp

lemma in_set_case_option:
  "l \<in> set (case v of Some u \<Rightarrow> g u | None \<Rightarrow> []) \<longleftrightarrow> (\<exists>u. v = Some u \<and> l \<in> set (g u))"
  by (cases v) simp_all

lemma textBasicInfo_bulleted: "l \<in> set (textBasicInfo ops cfg p) \<Longrightarrow> take 1 l = [0x20]"
  by (auto simp add: textBasicInfo_def in_set_if in_set_case_option ascii_simps)

lemma textGameStatus_bulleted: "l \<in> set (textGameStatus ops cfg p) \<Longrightarrow> take 1 l = [0x20]"
  by (auto simp add: textGameStatus_def textHealthLine_def Let_def in_set_if in_set_case_option ascii_simps)

lemma textExpInfo_bulleted: "l \<in> set (textExpInfo ops cfg p) \<Longrightarrow> take 1 l = [0x20]"
  by (auto simp add: textExpInfo_def in_set_if in_set_case_option ascii_simps)

lemma textPosInfo_bulleted: "l \<in> set (textPosInfo ops cfg p) \<Longrightarrow> take 1 l = [0x20]"
  by (auto simp add: textPosInfo_def in_set_if in_set_case_option ascii_simps)

lemma textEnvInfo_bulleted: "l \<in> set (textEnvInfo ops cfg p) \<Longrightarrow> take 1 l = [0x20]"
  by (auto simp add: textEnvInfo_def Let_def in_set_if in_set_case_option ascii_simps)

lemma textDeviceInfo_bulleted: "l \<in> set (textDeviceInfo ops cfg d) \<Longrightarrow> take 1 l = [0x20]"
  by (auto simp add: textDeviceInfo_def in_set_if in_set_case_option ascii_simps)

lemma textItemInfo_bulleted: "l \<in> set (textItemInfo ops cfg p) \<Longrightarrow> take 1 l = [0x20]"
  by (auto simp add: textItemInfo_def in_set_if in_set_case_option ascii_simps)

lemma heading_not_in_section:
  assumes "h \<in> set textHeadings"
  shows "h \<notin> set (textBasicInfo ops cfg p)" "h \<notin> set (textGameStatus ops cfg p)"
    "h \<notin> set (textExpInfo ops cfg p)" "h \<notin> set (textPosInfo ops cfg p)"
    "h \<notin> set (textEnvInfo ops cfg p)" "h \<notin> set (textDeviceInfo ops cfg d)"
    "h \<notin> set (textItemInfo ops cfg p)"
  using heading_not_bulleted [OF assms] textBasicInfo_bulleted [of h ops cfg p]
    textGameStatus_bulleted [of h ops cfg p] textExpInfo_bulleted [of h ops cfg p]
    textPosInfo_bulleted [of h ops cfg p] textEnvInfo_bulleted [of h ops cfg p]
    textDeviceInfo_bulleted [of h ops cfg d] textItemInfo_bulleted [of h ops cfg p]
  by blast+

lemma textLines_blocks:
  "textLines ops cfg p lbl =
     [lbl @ (ascii '' '' @ [0xD83D, 0xDC64] @ ascii '' '' @ [0x73A9, 0x5BB6, 0x8BE6, 0x60C5] @ ascii '': '') @ strOrUndefined (PlayerInfo.name p), []] @
     textBlock ([0xD83D, 0xDCCB] @ ascii '' '' @ [0x57FA, 0x672C, 0x4FE1, 0x606F] @ ascii '':'') (textBasicInfo ops cfg p) @
     textBlock ([0xD83C, 0xDFAE] @ ascii '' '' @ [0x6E38, 0x620F, 0x72B6, 0x6001] @ ascii '':'') (textGameStatus ops cfg p) @
     textBlock ([0x2B50] @ ascii '' '' @ [0x7ECF, 0x9A8C, 0x4FE1, 0x606F] @ ascii '':'') (textExpInfo ops cfg p) @
     textBlock ([0xD83D, 0xDCCD] @ ascii '' '' @ [0x4F4D, 0x7F6E, 0x4FE1, 0x606F] @ ascii '':'') (textPosInfo ops cfg p) @
     textBlock ([0xD83C, 0xDF0D] @ ascii '' '' @ [0x73AF, 0x5883, 0x4FE1, 0x606F] @ ascii '':'') (textEnvInfo ops cfg p) @
     textDeviceBlock ops cfg p @
     textItemBlock ops cfg p"
  by (simp add: textLines_def textBlock_def textDeviceBlock_def textItemBlock_def Let_def
      cong: if_cong option.case_cong split del: if_split)

lemma heading_in_block:
  "h \<in> set textHeadings \<Longrightarrow> h \<notin> set ls \<Longrightarrow> h \<in> set (textBlock g ls) \<longleftrightarrow> h = g \<and> ls \<noteq> []"
  using heading_not_empty [of h] by (auto simp add: textBlock_def)

lemma heading_in_textLines:
  assumes "h \<in> set textHeadings"
  shows "h \<in> set (textLines ops cfg p lbl) \<longleftrightarrow>
     h = ([0xD83D, 0xDCCB] @ ascii '' '' @ [0x57FA, 0x672C, 0x4FE1, 0x606F] @ ascii '':'') \<and> textBasicInfo ops cfg p \<noteq> [] \<or>
     h = ([0xD83C, 0xDFAE] @ ascii '' '' @ [0x6E38, 0x620F, 0x72B6, 0x6001] @ ascii '':'') \<and> textGameStatus ops cfg p \<noteq> [] \<or>
     h = ([0x2B50] @ ascii '' '' @ [0x7ECF, 0x9A8C, 0x4FE1, 0x606F] @ ascii '':'') \<and> textExpInfo ops cfg p \<noteq> [] \<or>
     h = ([0xD83D, 0xDCCD] @ ascii '' '' @ [0x4F4D, 0x7F6E, 0x4FE1, 0x606F] @ ascii '':'') \<and> textPosInfo ops cfg p \<noteq> [] \<or>
     h = ([0xD83C, 0xDF0D] @ ascii '' '' @ [0x73AF, 0x5883, 0x4FE1, 0x606F] @ ascii '':'') \<and> textEnvInfo ops cfg p \<noteq> [] \<or>
     h = ([0xD83D, 0xDCF1] @ ascii '' '' @ [0x8BBE, 0x5907, 0x4FE1, 0x606F] @ ascii '':'') \<and> isFieldEnabled cfg (ascii ''device'') \<and>
       (\<exists>d. device p = Some d \<and> textDeviceInfo ops cfg d \<noteq> []) \<or>
     h = ([0xD83C, 0xDF92] @ ascii '' '' @ [0x7269, 0x54C1, 0x4FE1, 0x606F] @ ascii '':'') \<and> textItemInfo ops cfg p \<noteq> []"
proof -
  note n = heading_not_in_section [OF assms]
  have t: "h \<noteq> lbl @ (ascii '' '' @ [0xD83D, 0xDC64] @ ascii '' '' @ [0x73A9, 0x5BB6, 0x8BE6, 0x60C5] @ ascii '': '') @ strOrUndefined (PlayerInfo.name p)"
    using title_not_heading [OF assms, of lbl "strOrUndefined (PlayerInfo.name p)"] by blast
  have e: "h \<noteq> []"
    by (rule heading_not_empty [OF assms])
  have i: "h \<in> set (textItemBlock ops cfg p) \<longleftrightarrow>
           h = ([0xD83C, 0xDF92] @ ascii '' '' @ [0x7269, 0x54C1, 0x4FE1, 0x606F] @ ascii '':'') \<and> textItemInfo ops cfg p \<noteq> []"
    using n(7) [of ops cfg p] by (simp add: textItemBlock_def Let_def)
  have d: "h \<in> set (textDeviceBlock ops cfg p) \<longleftrightarrow>
           h = ([0xD83D, 0xDCF1] @ ascii '' '' @ [0x8BBE, 0x5907, 0x4FE1, 0x606F] @ ascii '':'') \<and> isFieldEnabled cfg (ascii ''device'') \<and>
             (\<exists>d. device p = Some d \<and> textDeviceInfo ops cfg d \<noteq> [])"
    by (simp only: textDeviceBlock_def in_set_if in_set_case_option
        heading_in_block [OF assms n(6)]) blast
  have "h \<in> set (textLines ops cfg p lbl) \<longleftrightarrow>
      h \<in> set (textBlock ([0xD83D, 0xDCCB] @ ascii '' '' @ [0x57FA, 0x672C, 0x4FE1, 0x606F] @ ascii '':'') (textBasicInfo ops cfg p)) \<or>
      h \<in> set (textBlock ([0xD83C, 0xDFAE] @ ascii '' '' @ [0x6E38, 0x620F, 0x72B6, 0x6001] @ ascii '':'') (textGameStatus ops cfg p)) \<or>
      h \<in> set (textBlock ([0x2B50] @ ascii '' '' @ [0x7ECF, 0x9A8C, 0x4FE1, 0x606F] @ ascii '':'') (textExpInfo ops cfg p)) \<or>
      h \<in> set (textBlock ([0xD83D, 0xDCCD] @ ascii '' '' @ [0x4F4D, 0x7F6E, 0x4FE1, 0x606F] @ ascii '':'') (textPosInfo ops cfg p)) \<or>
      h \<in> set (textBlock ([0xD83C, 0xDF0D] @ ascii '' '' @ [0x73AF, 0x5883, 0x4FE1, 0x606F] @ ascii '':'') (textEnvInfo ops cfg p)) \<or>
      h \<in> set (textDeviceBlock ops cfg p) \<or>
      h \<in> set (textItemBlock ops cfg p)"
    using t e by (simp add: textLines_blocks)
  then show ?thesis
    by (simp only: i d heading_in_block [OF assms n(1)] heading_in_block [OF assms n(2)]
        heading_in_block [OF assms n(3)] heading_in_block [OF assms n(4)]
        heading_in_block [OF assms n(5)])
qed

text \<open>The panels differ from one another in their titles, whatever their rows.\<close>

lemma panels_distinct:
  "basicInfoPanel theme r \<noteq> gameStatusPanel theme s"
  "basicInfoPanel theme r \<noteq> expPanel theme s"
  "basicInfoPanel theme r \<noteq> posInfoPanel theme s"
  "basicInfoPanel theme r \<noteq> envInfoPanel theme s"
  "basicInfoPanel theme r \<noteq> deviceInfoPanel theme s"
  "gameStatusPanel theme r \<noteq> expPanel theme s"
  "gameStatusPanel theme r \<noteq> posInfoPanel theme s"
  "gameStatusPanel theme r \<noteq> envInfoPanel theme s"
  "gameStatusPanel theme r \<noteq> deviceInfoPanel theme s"
  "expPanel theme r \<noteq> posInfoPanel theme s"
  "expPanel theme r \<noteq> envInfoPanel theme s"
  "expPanel theme r \<noteq> deviceInfoPanel theme s"
  "posInfoPanel theme r \<noteq> envInfoPanel theme s"
  "posInfoPanel theme r \<noteq> deviceInfoPanel theme s"
  "envInfoPanel theme r \<noteq> deviceInfoPanel theme s"
  by (simp_all add: basicInfoPanel_def gameStatusPanel_def expPanel_def posInfoPanel_def
      envInfoPanel_def deviceInfoPanel_def)

lemmas panels_distinct' = panels_distinct panels_distinct [symmetric]

lemma panel_in_typstPanels:
  "(\<exists>rows. basicInfoPanel theme rows \<in> set (typstPanels ops theme cfg p)) \<longleftrightarrow>
     typstBasicInfoRows ops cfg p \<noteq> []"
  "(\<exists>rows. gameStatusPanel theme rows \<in> set (typstPanels ops theme cfg p)) \<longleftrightarrow>
     typstGameStatusItems ops cfg p \<noteq> []"
  "(\<exists>rows. expPanel theme rows \<in> set (typstPanels ops theme cfg p)) \<longleftrightarrow>
     typstExpItems ops cfg p \<noteq> []"
  "(\<exists>rows. posInfoPanel theme rows \<in> set (typstPanels ops theme cfg p)) \<longleftrightarrow>
     typstPosInfoRows ops cfg p \<noteq> []"
  "(\<exists>rows. envInfoPanel theme rows \<in> set (typstPanels ops theme cfg p)) \<longleftrightarrow>
     typstEnvInfoRows ops cfg p \<noteq> []"
  "(\<exists>rows. deviceInfoPanel theme rows \<in> set (typstPanels ops theme cfg p)) \<longleftrightarrow>
     typstDeviceInfoRows ops cfg p \<noteq> []"
  by (auto simp add: typstPanels_def Let_def panels_distinct')

lemma panel_of_rows_in_typstPanels:
  "typstBasicInfoRows ops cfg p \<noteq> [] \<longrightarrow>
     basicInfoPanel theme (typstBasicInfoRows ops cfg p) \<in> set (typstPanels ops theme cfg p)"
  "typstGameStatusItems ops cfg p \<noteq> [] \<longrightarrow>
     gameStatusPanel theme (typstGameStatusItems ops cfg p) \<in> set (typstPanels ops theme cfg p)"
  "typstExpItems ops cfg p \<noteq> [] \<longrightarrow>
     expPanel theme (typstExpItems ops cfg p) \<in> set (typstPanels ops theme cfg p)"
  "typstPosInfoRows ops cfg p \<noteq> [] \<longrightarrow>
     posInfoPanel theme (typstPosInfoRows ops cfg p) \<in> set (typstPanels ops theme cfg p)"
  "typstEnvInfoRows ops cfg p \<noteq> [] \<longrightarrow>
     envInfoPanel theme (typstEnvInfoRows ops cfg p) \<in> set (typstPanels ops theme cfg p)"
  "typstDeviceInfoRows ops cfg p \<noteq> [] \<longrightarrow>
     deviceInfoPanel theme (typstDeviceInfoRows ops cfg p) \<in> set (typstPanels ops theme cfg p)"
  by (simp_all add: typstPanels_def Let_def)

lemma disabled_sections:
  "allDisabled cfg basicInfoKeys \<Longrightarrow>
     textBasicInfo ops cfg p = [] \<and> typstBasicInfoRows ops cfg p = []"
  "allDisabled cfg gameStatusKeys \<Longrightarrow>
     textGameStatus ops cfg p = [] \<and> typstGameStatusItems ops cfg p = []"
  "allDisabled cfg expKeys \<Longrightarrow> textExpInfo ops cfg p = [] \<and> typstExpItems ops cfg p = []"
  "allDisabled cfg posKeys \<Longrightarrow> textPosInfo ops cfg p = [] \<and> typstPosInfoRows ops cfg p = []"
  "allDisabled cfg envKeys \<Longrightarrow> textEnvInfo ops cfg p = [] \<and> typstEnvInfoRows ops cfg p = []"
  "allDisabled cfg deviceKeys \<Longrightarrow>
     \<not> isFieldEnabled cfg (ascii ''device'') \<and> typstDeviceInfoRows ops cfg p = []"
  "allDisabled cfg itemKeys \<Longrightarrow> textItemInfo ops cfg p = []"
  by (simp_all add: allDisabled_def basicInfoKeys_def gameStatusKeys_def expKeys_def posKeys_def
      envKeys_def deviceKeys_def itemKeys_def textBasicInfo_def typstBasicInfoRows_def
      textGameStatus_def textFlags_def typstGameStatusItems_def textExpInfo_def typstExpItems_def
      textPosInfo_def typstPosInfoRows_def textEnvInfo_def typstEnvInfoRows_def
      typstDeviceInfoRows_def textItemInfo_def)

text \<open>
  Claim C6. A section is in the output exactly when it produced a line or a row. In the
  text report the heading of a section is one of the lines if and only if the section
  has at least one line (for the device section: the path \<^verbatim>\<open>device\<close> is enabled, the
  record has a device and one of its lines is enabled); the lines are the title, an
  empty line and then the blocks of the sections in order, each its heading and its
  lines or nothing. In the markup a panel of a section, with whatever rows, is among the
  panels if and only if the section has at least one row, and then the panel with those
  rows is among them. In particular, when every field path of a section is disabled, neither
  its heading nor its panel is in the output.
\<close>

theorem empty_sections_are_omitted:
  "(([0xD83D, 0xDCCB] @ ascii '' '' @ [0x57FA, 0x672C, 0x4FE1, 0x606F] @ ascii '':'') \<in> set (textLines ops cfg p lbl) \<longleftrightarrow> textBasicInfo ops cfg p \<noteq> []) \<and>
   (([0xD83C, 0xDFAE] @ ascii '' '' @ [0x6E38, 0x620F, 0x72B6, 0x6001] @ ascii '':'') \<in> set (textLines ops cfg p lbl) \<longleftrightarrow> textGameStatus ops cfg p \<noteq> []) \<and>
   (([0x2B50] @ ascii '' '' @ [0x7ECF, 0x9A8C, 0x4FE1, 0x606F] @ ascii '':'') \<in> set (textLines ops cfg p lbl) \<longleftrightarrow> textExpInfo ops cfg p \<noteq> []) \<and>
   (([0xD83D, 0xDCCD] @ ascii '' '' @ [0x4F4D, 0x7F6E, 0x4FE1, 0x606F] @ ascii '':'') \<in> set (textLines ops cfg p lbl) \<longleftrightarrow> textPosInfo ops cfg p \<noteq> []) \<and>
   (([0xD83C, 0xDF0D] @ ascii '' '' @ [0x73AF, 0x5883, 0x4FE1, 0x606F] @ ascii '':'') \<in> set (textLines ops cfg p lbl) \<longleftrightarrow> textEnvInfo ops cfg p \<noteq> []) \<and>
   (([0xD83D, 0xDCF1] @ ascii '' '' @ [0x8BBE, 0x5907, 0x4FE1, 0x606F] @ ascii '':'') \<in> set (textLines ops cfg p lbl) \<longleftrightarrow>
      isFieldEnabled cfg (ascii ''device'') \<and> (\<exists>d. device p = Some d \<and> textDeviceInfo ops cfg d \<noteq> [])) \<and>
   (([0xD83C, 0xDF92] @ ascii '' '' @ [0x7269, 0x54C1, 0x4FE1, 0x606F] @ ascii '':'') \<in> set (textLines ops cfg p lbl) \<longleftrightarrow> textItemInfo ops cfg p \<noteq> []) \<and>
   textLines ops cfg p lbl =
     [lbl @ (ascii '' '' @ [0xD83D, 0xDC64] @ ascii '' '' @ [0x73A9, 0x5BB6, 0x8BE6, 0x60C5] @ ascii '': '') @ strOrUndefined (PlayerInfo.name p), []] @
     textBlock ([0xD83D, 0xDCCB] @ ascii '' '' @ [0x57FA, 0x672C, 0x4FE1, 0x606F] @ ascii '':'') (textBasicInfo ops cfg p) @
     textBlock ([0xD83C, 0xDFAE] @ ascii '' '' @ [0x6E38, 0x620F, 0x72B6, 0x6001] @ ascii '':'') (textGameStatus ops cfg p) @
     textBlock ([0x2B50] @ ascii '' '' @ [0x7ECF, 0x9A8C, 0x4FE1, 0x606F] @ ascii '':'') (textExpInfo ops cfg p) @
     textBlock ([0xD83D, 0xDCCD] @ ascii '' '' @ [0x4F4D, 0x7F6E, 0x4FE1, 0x606F] @ ascii '':'') (textPosInfo ops cfg p) @
     textBlock ([0xD83C, 0xDF0D] @ ascii '' '' @ [0x73AF, 0x5883, 0x4FE1, 0x606F] @ ascii '':'') (textEnvInfo ops cfg p) @
     textDeviceBlock ops cfg p @
     textItemBlock ops cfg p \<and>
   ((\<exists>rows. basicInfoPanel theme rows \<in> set (typstPanels ops theme cfg p)) \<longleftrightarrow>
      typstBasicInfoRows ops cfg p \<noteq> []) \<and>
   ((\<exists>rows. gameStatusPanel theme rows \<in> set (typstPanels ops theme cfg p)) \<longleftrightarrow>
      typstGameStatusItems ops cfg p \<noteq> []) \<and>
   ((\<exists>rows. expPanel theme rows \<in> set (typstPanels ops theme cfg p)) \<longleftrightarrow>
      typstExpItems ops cfg p \<noteq> []) \<and>
   ((\<exists>rows. posInfoPanel theme rows \<in> set (typstPanels ops theme cfg p)) \<longleftrightarrow>
      typstPosInfoRows ops cfg p \<noteq> []) \<and>
   ((\<exists>rows. envInfoPanel theme rows \<in> set (typstPanels ops theme cfg p)) \<longleftrightarrow>
      typstEnvInfoRows ops cfg p \<noteq> []) \<and>
   ((\<exists>rows. deviceInfoPanel theme rows \<in> set (typstPanels ops theme cfg p)) \<longleftrightarrow>
      typstDeviceInfoRows ops cfg p \<noteq> []) \<and>
   (typstBasicInfoRows ops cfg p \<noteq> [] \<longrightarrow>
      basicInfoPanel theme (typstBasicInfoRows ops cfg p) \<in> set (typstPanels ops theme cfg p)) \<and>
   (typstGameStatusItems ops cfg p \<noteq> [] \<longrightarrow>
      gameStatusPanel theme (typstGameStatusItems ops cfg p) \<in> set (typstPanels ops theme cfg p)) \<and>
   (typstExpItems ops cfg p \<noteq> [] \<longrightarrow>
      expPanel theme (typstExpItems ops cfg p) \<in> set (typstPanels ops theme cfg p)) \<and>
   (typstPosInfoRows ops cfg p \<noteq> [] \<longrightarrow>
      posInfoPanel theme (typstPosInfoRows ops cfg p) \<in> set (typstPanels ops theme cfg p)) \<and>
   (typstEnvInfoRows ops cfg p \<noteq> [] \<longrightarrow>
      envInfoPanel theme (typstEnvInfoRows ops cfg p) \<in> set (typstPanels ops theme cfg p)) \<and>
   (typstDeviceInfoRows ops cfg p \<noteq> [] \<longrightarrow>
      deviceInfoPanel theme (typstDeviceInfoRows ops cfg p) \<in> set (typstPanels ops theme cfg p)) \<and>
   (allDisabled cfg basicInfoKeys \<longrightarrow>
      ([0xD83D, 0xDCCB] @ ascii '' '' @ [0x57FA, 0x672C, 0x4FE1, 0x606F] @ ascii '':'') \<notin> set (textLines ops cfg p lbl) \<and>
      (\<forall>rows. basicInfoPanel theme rows \<notin> set (typstPanels ops theme cfg p))) \<and>
   (allDisabled cfg gameStatusKeys \<longrightarrow>
      ([0xD83C, 0xDFAE] @ ascii '' '' @ [0x6E38, 0x620F, 0x72B6, 0x6001] @ ascii '':'') \<notin> set (textLines ops cfg p lbl) \<and>
      (\<forall>rows. gameStatusPanel theme rows \<notin> set (typstPanels ops theme cfg p))) \<and>
   (allDisabled cfg expKeys \<longrightarrow>
      ([0x2B50] @ ascii '' '' @ [0x7ECF, 0x9A8C, 0x4FE1, 0x606F] @ ascii '':'') \<notin> set (textLines ops cfg p lbl) \<and>
      (\<forall>rows. expPanel theme rows \<notin> set (typstPanels ops theme cfg p))) \<and>
   (allDisabled cfg posKeys \<longrightarrow>
      ([0xD83D, 0xDCCD] @ ascii '' '' @ [0x4F4D, 0x7F6E, 0x4FE1, 0x606F] @ ascii '':'') \<notin> set (textLines ops cfg p lbl) \<and>
      (\<forall>rows. posInfoPanel theme rows \<notin> set (typstPanels ops theme cfg p))) \<and>
   (allDisabled cfg envKeys \<longrightarrow>
      ([0xD83C, 0xDF0D] @ ascii '' '' @ [0x73AF, 0x5883, 0x4FE1, 0x606F] @ ascii '':'') \<notin> set (textLines ops cfg p lbl) \<and>
      (\<forall>rows. envInfoPanel theme rows \<notin> set (typstPanels ops theme cfg p))) \<and>
   (allDisabled cfg deviceKeys \<longrightarrow>
      ([0xD83D, 0xDCF1] @ ascii '' '' @ [0x8BBE, 0x5907, 0x4FE1, 0x606F] @ ascii '':'') \<notin> set (textLines ops cfg p lbl) \<and>
      (\<forall>rows. deviceInfoPanel theme rows \<notin> set (typstPanels ops theme cfg p))) \<and>
   (allDisabled cfg itemKeys \<longrightarrow> ([0xD83C, 0xDF92] @ ascii '' '' @ [0x7269, 0x54C1, 0x4FE1, 0x606F] @ ascii '':'') \<notin> set (textLines ops cfg p lbl))"
proof -
  have t1: "([0xD83D, 0xDCCB] @ ascii '' '' @ [0x57FA, 0x672C, 0x4FE1, 0x606F] @ ascii '':'') \<in> set (textLines ops cfg p lbl) \<longleftrightarrow> textBasicInfo ops cfg p \<noteq> []"
    using heading_in_textLines [of "([0xD83D, 0xDCCB] @ ascii '' '' @ [0x57FA, 0x672C, 0x4FE1, 0x606F] @ ascii '':'')" ops cfg p lbl] by (simp add: textHeadings_def)
  have t2: "([0xD83C, 0xDFAE] @ ascii '' '' @ [0x6E38, 0x620F, 0x72B6, 0x6001] @ ascii '':'') \<in> set (textLines ops cfg p lbl) \<longleftrightarrow> textGameStatus ops cfg p \<noteq> []"
    using heading_in_textLines [of "([0xD83C, 0xDFAE] @ ascii '' '' @ [0x6E38, 0x620F, 0x72B6, 0x6001] @ ascii '':'')" ops cfg p lbl] by (simp add: textHeadings_def)
  have t3: "([0x2B50] @ ascii '' '' @ [0x7ECF, 0x9A8C, 0x4FE1, 0x606F] @ ascii '':'') \<in> set (textLines ops cfg p lbl) \<longleftrightarrow> textExpInfo ops cfg p \<noteq> []"
    using heading_in_textLines [of "([0x2B50] @ ascii '' '' @ [0x7ECF, 0x9A8C, 0x4FE1, 0x606F] @ ascii '':'')" ops cfg p lbl] by (simp add: textHeadings_def)
  have t4: "([0xD83D, 0xDCCD] @ ascii '' '' @ [0x4F4D, 0x7F6E, 0x4FE1, 0x606F] @ ascii '':'') \<in> set (textLines ops cfg p lbl) \<longleftrightarrow> textPosInfo ops cfg p \<noteq> []"
    using heading_in_textLines [of "([0xD83D, 0xDCCD] @ ascii '' '' @ [0x4F4D, 0x7F6E, 0x4FE1, 0x606F] @ ascii '':'')" ops cfg p lbl] by (simp add: textHeadings_def)
  have t5: "([0xD83C, 0xDF0D] @ ascii '' '' @ [0x73AF, 0x5883, 0x4FE1, 0x606F] @ ascii '':'') \<in> set (textLines ops cfg p lbl) \<longleftrightarrow> textEnvInfo ops cfg p \<noteq> []"
    using heading_in_textLines [of "([0xD83C, 0xDF0D] @ ascii '' '' @ [0x73AF, 0x5883, 0x4FE1, 0x606F] @ ascii '':'')" ops cfg p lbl] by (simp add: textHeadings_def)
  have t6: "([0xD83D, 0xDCF1] @ ascii '' '' @ [0x8BBE, 0x5907, 0x4FE1, 0x606F] @ ascii '':'') \<in> set (textLines ops cfg p lbl) \<longleftrightarrow>
      isFieldEnabled cfg (ascii ''device'') \<and> (\<exists>d. device p = Some d \<and> textDeviceInfo ops cfg d \<noteq> [])"
    using heading_in_textLines [of "([0xD83D, 0xDCF1] @ ascii '' '' @ [0x8BBE, 0x5907, 0x4FE1, 0x606F] @ ascii '':'')" ops cfg p lbl] by (simp add: textHeadings_def)
  have t7: "([0xD83C, 0xDF92] @ ascii '' '' @ [0x7269, 0x54C1, 0x4FE1, 0x606F] @ ascii '':'') \<in> set (textLines ops cfg p lbl) \<longleftrightarrow> textItemInfo ops cfg p \<noteq> []"
    using heading_in_textLines [of "([0xD83C, 0xDF92] @ ascii '' '' @ [0x7269, 0x54C1, 0x4FE1, 0x606F] @ ascii '':'')" ops cfg p lbl] by (simp add: textHeadings_def)
  note b = textLines_blocks [of ops cfg p lbl]
  note m = panel_in_typstPanels [of theme ops cfg p]
  note r = panel_of_rows_in_typstPanels [of ops cfg p theme]
  note d = disabled_sections [of cfg ops p]
  have s1: "allDisabled cfg basicInfoKeys \<longrightarrow>
      ([0xD83D, 0xDCCB] @ ascii '' '' @ [0x57FA, 0x672C, 0x4FE1, 0x606F] @ ascii '':'') \<notin> set (textLines ops cfg p lbl) \<and>
      (\<forall>rows. basicInfoPanel theme rows \<notin> set (typstPanels ops theme cfg p))"
    using t1 m(1) d(1) by blast
  have s2: "allDisabled cfg gameStatusKeys \<longrightarrow>
      ([0xD83C, 0xDFAE] @ ascii '' '' @ [0x6E38, 0x620F, 0x72B6, 0x6001] @ ascii '':'') \<notin> set (textLines ops cfg p lbl) \<and>
      (\<forall>rows. gameStatusPanel theme rows \<notin> set (typstPanels ops theme cfg p))"
    using t2 m(2) d(2) by blast
  have s3: "allDisabled cfg expKeys \<longrightarrow>
      ([0x2B50] @ ascii '' '' @ [0x7ECF, 0x9A8C, 0x4FE1, 0x606F] @ ascii '':'') \<notin> set (textLines ops cfg p lbl) \<and>
      (\<forall>rows. expPanel theme rows \<notin> set (typstPanels ops theme cfg p))"
    using t3 m(3) d(3) by blast
  have s4: "allDisabled cfg posKeys \<longrightarrow>
      ([0xD83D, 0xDCCD] @ ascii '' '' @ [0x4F4D, 0x7F6E, 0x4FE1, 0x606F] @ ascii '':'') \<notin> set (textLines ops cfg p lbl) \<and>
      (\<forall>rows. posInfoPanel theme rows \<notin> set (typstPanels ops theme cfg p))"
    using t4 m(4) d(4) by blast
  have s5: "allDisabled cfg envKeys \<longrightarrow>
      ([0xD83C, 0xDF0D] @ ascii '' '' @ [0x73AF, 0x5883, 0x4FE1, 0x606F] @ ascii '':'') \<notin> set (textLines ops cfg p lbl) \<and>
      (\<forall>rows. envInfoPanel theme rows \<notin> set (typstPanels ops theme cfg p))"
    using t5 m(5) d(5) by blast
  have s6: "allDisabled cfg deviceKeys \<longrightarrow>
      ([0xD83D, 0xDCF1] @ ascii '' '' @ [0x8BBE, 0x5907, 0x4FE1, 0x606F] @ ascii '':'') \<notin> set (textLines ops cfg p lbl) \<and>
      (\<forall>rows. deviceInfoPanel theme rows \<notin> set (typstPanels ops theme cfg p))"
    using t6 m(6) d(6) by blast
  have s7: "allDisabled cfg itemKeys \<longrightarrow> ([0xD83C, 0xDF92] @ ascii '' '' @ [0x7269, 0x54C1, 0x4FE1, 0x606F] @ ascii '':'') \<notin> set (textLines ops cfg p lbl)"
    using t7 d(7) by blast
  show ?thesis
    by (intro conjI t1 t2 t3 t4 t5 t6 t7 b m r s1 s2 s3 s4 s5 s6 s7)
qed

lemma isFieldEnabled_hidden:
  "k \<in> set ks \<Longrightarrow>
   \<not> isFieldEnabled (cfg\<lparr>playerFieldFilters := Some (map (\<lambda>k. \<lparr> key = k, enabled = False \<rparr>) ks)\<rparr>) k"
proof -
  assume "k \<in> set ks"
  then have "\<exists>f. find (\<lambda>f. key f = k) (map (\<lambda>k. \<lparr> key = k, enabled = False \<rparr>) ks) = Some f \<and>
      \<not> enabled f"
    by (induction ks) auto
  then show ?thesis
    by (auto simp add: isFieldEnabled_def)
qed

lemma allHidden_disabled:
  "allDisabled allHidden basicInfoKeys" "allDisabled allHidden gameStatusKeys"
  "allDisabled allHidden expKeys" "allDisabled allHidden posKeys"
  "allDisabled allHidden envKeys" "allDisabled allHidden deviceKeys"
  "allDisabled allHidden itemKeys"
  using isFieldEnabled_hidden
    [of _ "basicInfoKeys @ gameStatusKeys @ expKeys @ posKeys @ envKeys @ deviceKeys @ itemKeys"
        allHidden]
  by (simp_all add: allDisabled_def allHidden_def)

text \<open>With that configuration no heading and no panel is left for the record of the example.\<close>

theorem empty_sections_are_omitted_witness:
  "(([0xD83D, 0xDCCB] @ ascii '' '' @ [0x57FA, 0x672C, 0x4FE1, 0x606F] @ ascii '':'') \<notin> set (textLines intOps allHidden steve (ascii ''[MC]'')) \<and>
    (\<forall>rows. basicInfoPanel lxgwTheme rows \<notin> set (typstPanels intOps lxgwTheme allHidden steve))) \<and>
   (([0xD83C, 0xDFAE] @ ascii '' '' @ [0x6E38, 0x620F, 0x72B6, 0x6001] @ ascii '':'') \<notin> set (textLines intOps allHidden steve (ascii ''[MC]'')) \<and>
    (\<forall>rows. gameStatusPanel lxgwTheme rows \<notin> set (typstPanels intOps lxgwTheme allHidden steve))) \<and>
   (([0x2B50] @ ascii '' '' @ [0x7ECF, 0x9A8C, 0x4FE1, 0x606F] @ ascii '':'') \<notin> set (textLines intOps allHidden steve (ascii ''[MC]'')) \<and>
    (\<forall>rows. expPanel lxgwTheme rows \<notin> set (typstPanels intOps lxgwTheme allHidden steve))) \<and>
   (([0xD83D, 0xDCCD] @ ascii '' '' @ [0x4F4D, 0x7F6E, 0x4FE1, 0x606F] @ ascii '':'') \<notin> set (textLines intOps allHidden steve (ascii ''[MC]'')) \<and>
    (\<forall>rows. posInfoPanel lxgwTheme rows \<notin> set (typstPanels intOps lxgwTheme allHidden steve))) \<and>
   (([0xD83C, 0xDF0D] @ ascii '' '' @ [0x73AF, 0x5883, 0x4FE1, 0x606F] @ ascii '':'') \<notin> set (textLines intOps allHidden steve (ascii ''[MC]'')) \<and>
    (\<forall>rows. envInfoPanel lxgwTheme rows \<notin> set (typstPanels intOps lxgwTheme allHidden steve))) \<and>
   (([0xD83D, 0xDCF1] @ ascii '' '' @ [0x8BBE, 0x5907, 0x4FE1, 0x606F] @ ascii '':'') \<notin> set (textLines intOps allHidden steve (ascii ''[MC]'')) \<and>
    (\<forall>rows. deviceInfoPanel lxgwTheme rows \<notin> set (typstPanels intOps lxgwTheme allHidden steve))) \<and>
   ([0xD83C, 0xDF92] @ ascii '' '' @ [0x7269, 0x54C1, 0x4FE1, 0x606F] @ ascii '':'') \<notin> set (textLines intOps allHidden steve (ascii ''[MC]''))"
proof -
  note t = empty_sections_are_omitted
    [where ops = intOps and cfg = allHidden and p = steve and lbl = "(ascii ''[MC]'')" and theme = lxgwTheme]
  note s1 = t [THEN conjunct2, THEN conjunct2, THEN conjunct2, THEN conjunct2, THEN conjunct2,
    THEN conjunct2, THEN conjunct2, THEN conjunct2, THEN conjunct2, THEN conjunct2,
    THEN conjunct2, THEN conjunct2, THEN conjunct2, THEN conjunct2, THEN conjunct2,
    THEN conjunct2, THEN conjunct2, THEN conjunct2, THEN conjunct2, THEN conjunct2]
  note s2 = s1 [THEN conjunct2]
  note s3 = s2 [THEN conjunct2]
  note s4 = s3 [THEN conjunct2]
  note s5 = s4 [THEN conjunct2]
  note s6 = s5 [THEN conjunct2]
  note s7 = s6 [THEN conjunct2]
  have w1: "([0xD83D, 0xDCCB] @ ascii '' '' @ [0x57FA, 0x672C, 0x4FE1, 0x606F] @ ascii '':'') \<notin> set (textLines intOps allHidden steve (ascii ''[MC]'')) \<and>
    (\<forall>rows. basicInfoPanel lxgwTheme rows \<notin> set (typstPanels intOps lxgwTheme allHidden steve))"
    by (rule mp [OF s1 [THEN conjunct1] allHidden_disabled(1)])
  have w2: "([0xD83C, 0xDFAE] @ ascii '' '' @ [0x6E38, 0x620F, 0x72B6, 0x6001] @ ascii '':'') \<notin> set (textLines intOps allHidden steve (ascii ''[MC]'')) \<and>
    (\<forall>rows. gameStatusPanel lxgwTheme rows \<notin> set (typstPanels intOps lxgwTheme allHidden steve))"
    by (rule mp [OF s2 [THEN conjunct1] allHidden_disabled(2)])
  have w3: "([0x2B50] @ ascii '' '' @ [0x7ECF, 0x9A8C, 0x4FE1, 0x606F] @ ascii '':'') \<notin> set (textLines intOps allHidden steve (ascii ''[MC]'')) \<and>
    (\<forall>rows. expPanel lxgwTheme rows \<notin> set (typstPanels intOps lxgwTheme allHidden steve))"
    by (rule mp [OF s3 [THEN conjunct1] allHidden_disabled(3)])
  have w4: "([0xD83D, 0xDCCD] @ ascii '' '' @ [0x4F4D, 0x7F6E, 0x4FE1, 0x606F] @ ascii '':'') \<notin> set (textLines intOps allHidden steve (ascii ''[MC]'')) \<and>
    (\<forall>rows. posInfoPanel lxgwTheme rows \<notin> set (typstPanels intOps lxgwTheme allHidden steve))"
    by (rule mp [OF s4 [THEN conjunct1] allHidden_disabled(4)])
  have w5: "([0xD83C, 0xDF0D] @ ascii '' '' @ [0x73AF, 0x5883, 0x4FE1, 0x606F] @ ascii '':'') \<notin> set (textLines intOps allHidden steve (ascii ''[MC]'')) \<and>
    (\<forall>rows. envInfoPanel lxgwTheme rows \<notin> set (typstPanels intOps lxgwTheme allHidden steve))"
    by (rule mp [OF s5 [THEN conjunct1] allHidden_disabled(5)])
  have w6: "([0xD83D, 0xDCF1] @ ascii '' '' @ [0x8BBE, 0x5907, 0x4FE1, 0x606F] @ ascii '':'') \<notin> set (textLines intOps allHidden steve (ascii ''[MC]'')) \<and>
    (\<forall>rows. deviceInfoPanel lxgwTheme rows \<notin> set (typstPanels intOps lxgwTheme allHidden steve))"
    by (rule mp [OF s6 [THEN conjunct1] allHidden_disabled(6)])
  have w7: "([0xD83C, 0xDF92] @ ascii '' '' @ [0x7269, 0x54C1, 0x4FE1, 0x606F] @ ascii '':'') \<notin> set (textLines intOps allHidden steve (ascii ''[MC]''))"
    by (rule mp [OF s7 allHidden_disabled(7)])
  show ?thesis
    by (intro conjI w1 w2 w3 w4 w5 w6 w7)
qed

section \<open>The health line\<close>





section \<open>The parts of a document\<close>

lemma typstNotFound_parts:
  "typstNotFound timestamp queryName theme lbl =
     (ascii ''#set page(\<newline>'' @
      ascii ''  width: 400pt,\<newline>'') @ docSetup theme @ docHeader theme lbl @ notFoundBody theme queryName @ docFooter theme timestamp"
  by (simp add: typstNotFound_def docSetup_def docHeader_def notFoundBody_def docFooter_def)

lemma typstDocument_parts:
  "typstDocument timestamp p theme lbl flags panels =
     (ascii ''#set page(\<newline>'' @
      ascii ''  width: 450pt,\<newline>'') @ docSetup theme @ docHeader theme lbl @ recordBody theme p flags panels @ docFooter theme timestamp"
  by (simp add: typstDocument_def docSetup_def docHeader_def recordBody_def docFooter_def)

lemma generateTypstCode_parts:
  "generateTypstCode ops timestamp player queryName theme cfg lbl =
     (if noPlayer player
      then (ascii ''#set page(\<newline>'' @
            ascii ''  width: 400pt,\<newline>'') @ docSetup theme @ docHeader theme lbl @ notFoundBody theme queryName @ docFooter theme timestamp
      else (ascii ''#set page(\<newline>'' @
            ascii ''  width: 450pt,\<newline>'') @ docSetup theme @ docHeader theme lbl @
           (case player of
              Some p \<Rightarrow> recordBody theme p (typstFlags cfg p) (typstPanels ops theme cfg p)
            | None \<Rightarrow> []) @
           docFooter theme timestamp)"
proof (cases player)
  case None
  then show ?thesis
    by (simp add: generateTypstCode_def noPlayer_def typstNotFound_parts)
next
  case (Some p)
  then show ?thesis
    by (simp add: generateTypstCode_def typstNotFound_parts typstDocument_parts)
qed

text \<open>
  Claim C5, as the code has it. The not-found document and the document of a record
  begin with the same page and text setup, except for the width of the page (400pt
  against 450pt), continue with the same header block up to the title, all with the
  values of the same theme, and end with the same footer. They differ in what lies
  between: the title, the flags and the panels.
\<close>

theorem not_found_document_layout:
  "(noPlayer player \<longrightarrow>
      (\<exists>body. generateTypstCode ops timestamp player queryName theme cfg lbl =
         (ascii ''#set page(\<newline>'' @
          ascii ''  width: 400pt,\<newline>'') @ docSetup theme @ docHeader theme lbl @ body @ docFooter theme timestamp)) \<and>
   (\<not> noPlayer player \<longrightarrow>
      (\<exists>body. generateTypstCode ops timestamp player queryName theme cfg lbl =
         (ascii ''#set page(\<newline>'' @
          ascii ''  width: 450pt,\<newline>'') @ docSetup theme @ docHeader theme lbl @ body @ docFooter theme timestamp))"
  by (simp add: generateTypstCode_parts)

theorem not_found_document_layout_witness:
  "(\<exists>body. generateTypstCode intOps (ascii ''2026/11/2 10:00:00'') None (ascii ''Steve'') lxgwTheme twoFilters (ascii ''[MC]'') =
      (ascii ''#set page(\<newline>'' @
       ascii ''  width: 400pt,\<newline>'') @ docSetup lxgwTheme @ docHeader lxgwTheme (ascii ''[MC]'') @ body @ docFooter lxgwTheme (ascii ''2026/11/2 10:00:00'')) \<and>
   (\<exists>body. generateTypstCode intOps (ascii ''2026/11/2 10:00:00'') (Some steve) (ascii ''Steve'') lxgwTheme twoFilters (ascii ''[MC]'') =
      (ascii ''#set page(\<newline>'' @
       ascii ''  width: 450pt,\<newline>'') @ docSetup lxgwTheme @ docHeader lxgwTheme (ascii ''[MC]'') @ body @ docFooter lxgwTheme (ascii ''2026/11/2 10:00:00''))"
proof -
  have n: "noPlayer (None :: (int, jsstring) PlayerInfo option)"
    by (simp add: noPlayer_def)
  have s: "\<not> noPlayer (Some steve)"
    by (simp add: noPlayer_def steve_def ascii_simps)
  note t = not_found_document_layout
    [where ops = intOps and timestamp = "(ascii ''2026/11/2 10:00:00'')" and queryName = "(ascii ''Steve'')"
       and theme = lxgwTheme and cfg = twoFilters and lbl = "(ascii ''[MC]'')"]
  from mp [OF t [where player = None, THEN conjunct1] n]
    mp [OF t [where player = "Some steve", THEN conjunct2] s]
  show ?thesis
    by (rule conjI)
qed

text \<open>The claim as stated fails on the page setup: the widths differ.\<close>

theorem page_width_counterexample:
  "take 27 (generateTypstCode intOps (ascii ''2026/11/2 10:00:00'') None (ascii ''Steve'') lxgwTheme twoFilters (ascii ''[MC]'')) =
     (ascii ''#set page(\<newline>'' @
      ascii ''  width: 400pt,\<newline>'') \<and>
   take 27 (generateTypstCode intOps (ascii ''2026/11/2 10:00:00'') (Some steve) (ascii ''Steve'') lxgwTheme twoFilters (ascii ''[MC]'')) =
     (ascii ''#set page(\<newline>'' @
      ascii ''  width: 450pt,\<newline>'')"
proof -
  have n: "noPlayer (None :: (int, jsstring) PlayerInfo option)"
    by (simp add: noPlayer_def)
  have s: "\<not> noPlayer (Some steve)"
    by (simp add: noPlayer_def steve_def ascii_simps)
  show ?thesis
    by (simp add: generateTypstCode_parts n s ascii_def)
qed

section \<open>The time stamp\<close>

lemma generateTypstCode_timestamp:
  "generateTypstCode ops t1 player queryName theme cfg lbl =
     generateTypstCode ops t2 player queryName theme cfg lbl \<longleftrightarrow>
   escapeTypstText t1 = escapeTypstText t2"
  by (simp add: generateTypstCode_parts docFooter_def)

text \<open>
  Claim C1, as the code has it. The text formatter is a function of its arguments. The
  markup formatter also reads the clock, for the time stamp of the footer: two calls
  with the same arguments give the same document exactly when the escaped time stamps
  of the two calls are the same.
\<close>

theorem markup_depends_on_clock:
  "generateTypstCode ops t1 player queryName theme cfg lbl =
     generateTypstCode ops t2 player queryName theme cfg lbl \<longleftrightarrow>
   escapeTypstText t1 = escapeTypstText t2"
  by (rule generateTypstCode_timestamp)

text \<open>Two calls with the same arguments, one second apart, give different documents.\<close>

theorem markup_clock_counterexample:
  "generateTypstCode intOps (ascii ''2026/11/2 10:00:00'') (Some steve) (ascii ''Steve'') lxgwTheme twoFilters (ascii ''[MC]'') \<noteq>
   generateTypstCode intOps (ascii ''2026/11/2 10:00:01'') (Some steve) (ascii ''Steve'') lxgwTheme twoFilters (ascii ''[MC]'')"
  by (simp add: generateTypstCode_timestamp escapeTypstText_Cons escapeChar_def typstSpecials_def
      ascii_simps)

section \<open>Escaped embedding\<close>

lemma embedsEscaped_here: "embedsEscaped escapeTypstText"
proof -
  have "\<forall>s. escapeTypstText s = [] @ escapeTypstText s @ []" by simp
  then show ?thesis unfolding embedsEscaped_def by blast
qed

lemma embedsEscaped_left: "embedsEscaped f \<Longrightarrow> embedsEscaped (\<lambda>s. a @ f s)"
proof -
  assume "embedsEscaped f"
  then obtain pre post where "\<forall>s. f s = pre @ escapeTypstText s @ post"
    unfolding embedsEscaped_def by blast
  then have "\<forall>s. a @ f s = (a @ pre) @ escapeTypstText s @ post" by simp
  then show ?thesis unfolding embedsEscaped_def by blast
qed

lemma embedsEscaped_right: "embedsEscaped f \<Longrightarrow> embedsEscaped (\<lambda>s. f s @ b)"
proof -
  assume "embedsEscaped f"
  then obtain pre post where "\<forall>s. f s = pre @ escapeTypstText s @ post"
    unfolding embedsEscaped_def by blast
  then have "\<forall>s. f s @ b = pre @ escapeTypstText s @ (post @ b)" by simp
  then show ?thesis unfolding embedsEscaped_def by blast
qed

lemma embedsEscaped_sublist: "embedsEscaped f \<Longrightarrow> sublist (escapeTypstText s) (f s)"
  unfolding embedsEscaped_def by (auto simp add: sublist_def)

lemmas embedsEscaped_intros = embedsEscaped_left embedsEscaped_right embedsEscaped_here

lemma typstNotFound_embeds:
  "embedsEscaped (\<lambda>s. typstNotFound timestamp s theme lbl)"
  "embedsEscaped (\<lambda>s. typstNotFound timestamp queryName theme s)"
  "embedsEscaped (\<lambda>s. typstNotFound s queryName theme lbl)"
  unfolding typstNotFound_def by (intro embedsEscaped_intros)+

lemma typstDocument_embeds:
  "embedsEscaped (\<lambda>s. typstDocument timestamp p theme s flags panels)"
  "embedsEscaped (\<lambda>s. typstDocument s p theme lbl flags panels)"
  unfolding typstDocument_def by (intro embedsEscaped_intros)+

lemma embedsEscapedRow_here: "embedsEscaped g \<Longrightarrow> embedsEscapedRow (\<lambda>s. g s # ys)"
proof -
  assume "embedsEscaped g"
  moreover have "\<forall>s. g s # ys = [] @ [g s] @ ys" by simp
  ultimately show ?thesis unfolding embedsEscapedRow_def by blast
qed

lemma embedsEscapedRow_Cons: "embedsEscapedRow F \<Longrightarrow> embedsEscapedRow (\<lambda>s. a # F s)"
proof -
  assume "embedsEscapedRow F"
  then obtain before g after where g: "embedsEscaped g" and "\<forall>s. F s = before @ [g s] @ after"
    unfolding embedsEscapedRow_def by blast
  then have "\<forall>s. a # F s = (a # before) @ [g s] @ after" by simp
  with g show ?thesis unfolding embedsEscapedRow_def by blast
qed

lemma embedsEscapedRow_left: "embedsEscapedRow F \<Longrightarrow> embedsEscapedRow (\<lambda>s. xs @ F s)"
proof -
  assume "embedsEscapedRow F"
  then obtain before g after where g: "embedsEscaped g" and "\<forall>s. F s = before @ [g s] @ after"
    unfolding embedsEscapedRow_def by blast
  then have "\<forall>s. xs @ F s = (xs @ before) @ [g s] @ after" by simp
  with g show ?thesis unfolding embedsEscapedRow_def by blast
qed

lemma embedsEscapedRow_right: "embedsEscapedRow F \<Longrightarrow> embedsEscapedRow (\<lambda>s. F s @ ys)"
proof -
  assume "embedsEscapedRow F"
  then obtain before g after where g: "embedsEscaped g" and "\<forall>s. F s = before @ [g s] @ after"
    unfolding embedsEscapedRow_def by blast
  then have "\<forall>s. F s @ ys = before @ [g s] @ (after @ ys)" by simp
  with g show ?thesis unfolding embedsEscapedRow_def by blast
qed

lemma embedsEscapedRow_not_Nil: "embedsEscapedRow F \<Longrightarrow> F s \<noteq> []"
  unfolding embedsEscapedRow_def by auto

lemma join_Cons: "join sep (a # as) = (if as = [] then a else a @ sep @ join sep as)"
  by (cases as) simp_all

lemma join_middle:
  "join sep (before @ m # after) =
     (if before = [] then [] else join sep before @ sep) @ m @
     (if after = [] then [] else sep @ join sep after)"
  by (induction before) (simp_all add: join_Cons)

lemma embedsEscaped_join: "embedsEscapedRow F \<Longrightarrow> embedsEscaped (\<lambda>s. join sep (F s))"
proof -
  assume "embedsEscapedRow F"
  then obtain before g after where g: "embedsEscaped g" and F: "\<forall>s. F s = before @ [g s] @ after"
    unfolding embedsEscapedRow_def by blast
  from g have "embedsEscaped (\<lambda>s. (if before = [] then [] else join sep before @ sep) @ g s @
      (if after = [] then [] else sep @ join sep after))"
    by (intro embedsEscaped_left embedsEscaped_right)
  with F show ?thesis by (simp add: join_middle)
qed

lemma embedsEscaped_Cons: "embedsEscaped f \<Longrightarrow> embedsEscaped (\<lambda>s. a # f s)"
  using embedsEscaped_left [of f "[a]"] by simp

lemmas embeds_intros =
  embedsEscaped_left embedsEscaped_right embedsEscaped_Cons embedsEscaped_here embedsEscaped_join
  embedsEscapedRow_here embedsEscapedRow_Cons embedsEscapedRow_left embedsEscapedRow_right

lemma panel_embeds:
  "embedsEscapedRow R \<Longrightarrow> embedsEscaped (\<lambda>s. basicInfoPanel theme (R s))"
  "embedsEscapedRow R \<Longrightarrow> embedsEscaped (\<lambda>s. envInfoPanel theme (R s))"
  "embedsEscapedRow R \<Longrightarrow> embedsEscaped (\<lambda>s. deviceInfoPanel theme (R s))"
  unfolding basicInfoPanel_def envInfoPanel_def deviceInfoPanel_def
  by (intro embeds_intros; assumption)+

lemma document_embeds_panels:
  "embedsEscapedRow P \<Longrightarrow> embedsEscaped (\<lambda>s. typstDocument timestamp p theme lbl flags (P s))"
  unfolding typstDocument_def by (intro embeds_intros; assumption)

lemma document_embeds_name:
  "embedsEscaped (\<lambda>s. typstDocument timestamp (p\<lparr>PlayerInfo.name := Some s\<rparr>) theme lbl flags panels)"
  unfolding typstDocument_def
  by (simp add: strOrUndefined_def split del: if_split) (intro embeds_intros)

lemma escapeTypstText_append:
  "escapeTypstText (s @ t) = escapeTypstText s @ escapeTypstText t"
  by (induction s) (simp_all add: escapeTypstText_Cons)

text \<open>
  The string fields of the record that the markup shows, one after the other. Each is
  a field of the record or of its biome, its block or its device.
\<close>

lemma xuid_frames:
  "typstFlags cfg (p\<lparr>xuid := s\<rparr>) = typstFlags cfg p"
  "typstGameStatusItems ops cfg (p\<lparr>xuid := s\<rparr>) = typstGameStatusItems ops cfg p"
  "typstExpItems ops cfg (p\<lparr>xuid := s\<rparr>) = typstExpItems ops cfg p"
  "typstPosInfoRows ops cfg (p\<lparr>xuid := s\<rparr>) = typstPosInfoRows ops cfg p"
  "typstEnvInfoRows ops cfg (p\<lparr>xuid := s\<rparr>) = typstEnvInfoRows ops cfg p"
  "typstDeviceInfoRows ops cfg (p\<lparr>xuid := s\<rparr>) = typstDeviceInfoRows ops cfg p"
  "noPlayer (Some (p\<lparr>xuid := s\<rparr>)) = noPlayer (Some p)"
  "typstDocument timestamp (p\<lparr>xuid := s\<rparr>) theme lbl flags panels =
     typstDocument timestamp p theme lbl flags panels"
  by (simp_all add: typstFlags_def typstBasicInfoRows_def typstGameStatusItems_def typstExpItems_def
      typstPosInfoRows_def typstEnvInfoRows_def typstDeviceInfoRows_def noPlayer_def
      typstDocument_def typstHealthItem_def
      cong: if_cong option.case_cong split del: if_split)

lemma xuid_rows_embed:
  assumes "isFieldEnabled cfg (ascii ''xuid'')"
  shows "embedsEscapedRow (\<lambda>s. typstBasicInfoRows ops cfg (p\<lparr>xuid := s\<rparr>))"
  using assms
  by (cases "isFieldEnabled cfg (ascii ''xuid'')";
      simp add: typstBasicInfoRows_def Let_def escapeTypstText_append cong: if_cong split del: if_split;
      intro embeds_intros)

lemma xuid_rows_unused:
  assumes "\<not> (isFieldEnabled cfg (ascii ''xuid''))"
  shows "typstBasicInfoRows ops cfg (p\<lparr>xuid := s\<rparr>) = typstBasicInfoRows ops cfg p"
  using assms
  by (cases "isFieldEnabled cfg (ascii ''xuid'')";
      simp add: typstBasicInfoRows_def Let_def cong: if_cong split del: if_split)

lemma xuid_escapedOnly:
  shows "escapedOnly (\<lambda>s. generateTypstCode ops timestamp (Some (p\<lparr>xuid := s\<rparr>)) queryName theme cfg lbl)"
proof (cases "isFieldEnabled cfg (ascii ''xuid'')")
  case c: True
  note r = xuid_rows_embed [OF c, where ops = ops]
  have "embedsEscapedRow (\<lambda>s. typstPanels ops theme cfg (p\<lparr>xuid := s\<rparr>))"
    by (simp add: typstPanels_def Let_def xuid_frames embedsEscapedRow_not_Nil [OF r]
        split del: if_split)
       (intro embeds_intros panel_embeds r)
  then have "embedsEscaped (\<lambda>s. typstDocument timestamp p theme lbl (typstFlags cfg p)
      (typstPanels ops theme cfg (p\<lparr>xuid := s\<rparr>)))"
    by (rule document_embeds_panels)
  then show ?thesis
    by (cases "noPlayer (Some p)")
       (simp_all add: escapedOnly_def generateTypstCode_def xuid_frames)
next
  case c: False
  have u: "typstPanels ops theme cfg (p\<lparr>xuid := s\<rparr>) = typstPanels ops theme cfg p" for s
    by (simp add: typstPanels_def xuid_frames xuid_rows_unused [OF c])
  show ?thesis
    by (cases "noPlayer (Some p)")
       (simp_all add: escapedOnly_def generateTypstCode_def xuid_frames u)
qed

lemma uuid_frames:
  "typstFlags cfg (p\<lparr>uuid := s\<rparr>) = typstFlags cfg p"
  "typstGameStatusItems ops cfg (p\<lparr>uuid := s\<rparr>) = typstGameStatusItems ops cfg p"
  "typstExpItems ops cfg (p\<lparr>uuid := s\<rparr>) = typstExpItems ops cfg p"
  "typstPosInfoRows ops cfg (p\<lparr>uuid := s\<rparr>) = typstPosInfoRows ops cfg p"
  "typstEnvInfoRows ops cfg (p\<lparr>uuid := s\<rparr>) = typstEnvInfoRows ops cfg p"
  "typstDeviceInfoRows ops cfg (p\<lparr>uuid := s\<rparr>) = typstDeviceInfoRows ops cfg p"
  "noPlayer (Some (p\<lparr>uuid := s\<rparr>)) = noPlayer (Some p)"
  "typstDocument timestamp (p\<lparr>uuid := s\<rparr>) theme lbl flags panels =
     typstDocument timestamp p theme lbl flags panels"
  by (simp_all add: typstFlags_def typstBasicInfoRows_def typstGameStatusItems_def typstExpItems_def
      typstPosInfoRows_def typstEnvInfoRows_def typstDeviceInfoRows_def noPlayer_def
      typstDocument_def typstHealthItem_def
      cong: if_cong option.case_cong split del: if_split)

lemma uuid_rows_embed:
  assumes "isFieldEnabled cfg (ascii ''uuid'')"
  shows "embedsEscapedRow (\<lambda>s. typstBasicInfoRows ops cfg (p\<lparr>uuid := s\<rparr>))"
  using assms
  by (cases "isFieldEnabled cfg (ascii ''uuid'')";
      simp add: typstBasicInfoRows_def Let_def escapeTypstText_append cong: if_cong split del: if_split;
      intro embeds_intros)

lemma uuid_rows_unused:
  assumes "\<not> (isFieldEnabled cfg (ascii ''uuid''))"
  shows "typstBasicInfoRows ops cfg (p\<lparr>uuid := s\<rparr>) = typstBasicInfoRows ops cfg p"
  using assms
  by (cases "isFieldEnabled cfg (ascii ''uuid'')";
      simp add: typstBasicInfoRows_def Let_def cong: if_cong split del: if_split)

lemma uuid_escapedOnly:
  shows "escapedOnly (\<lambda>s. generateTypstCode ops timestamp (Some (p\<lparr>uuid := s\<rparr>)) queryName theme cfg lbl)"
proof (cases "isFieldEnabled cfg (ascii ''uuid'')")
  case c: True
  note r = uuid_rows_embed [OF c, where ops = ops]
  have "embedsEscapedRow (\<lambda>s. typstPanels ops theme cfg (p\<lparr>uuid := s\<rparr>))"
    by (simp add: typstPanels_def Let_def uuid_frames embedsEscapedRow_not_Nil [OF r]
        split del: if_split)
       (intro embeds_intros panel_embeds r)
  then have "embedsEscaped (\<lambda>s. typstDocument timestamp p theme lbl (typstFlags cfg p)
      (typstPanels ops theme cfg (p\<lparr>uuid := s\<rparr>)))"
    by (rule document_embeds_panels)
  then show ?thesis
    by (cases "noPlayer (Some p)")
       (simp_all add: escapedOnly_def generateTypstCode_def uuid_frames)
next
  case c: False
  have u: "typstPanels ops theme cfg (p\<lparr>uuid := s\<rparr>) = typstPanels ops theme cfg p" for s
    by (simp add: typstPanels_def uuid_frames uuid_rows_unused [OF c])
  show ?thesis
    by (cases "noPlayer (Some p)")
       (simp_all add: escapedOnly_def generateTypstCode_def uuid_frames u)
qed

lemma uniqueId_frames:
  "typstFlags cfg (p\<lparr>uniqueId := s\<rparr>) = typstFlags cfg p"
  "typstGameStatusItems ops cfg (p\<lparr>uniqueId := s\<rparr>) = typstGameStatusItems ops cfg p"
  "typstExpItems ops cfg (p\<lparr>uniqueId := s\<rparr>) = typstExpItems ops cfg p"
  "typstPosInfoRows ops cfg (p\<lparr>uniqueId := s\<rparr>) = typstPosInfoRows ops cfg p"
  "typstEnvInfoRows ops cfg (p\<lparr>uniqueId := s\<rparr>) = typstEnvInfoRows ops cfg p"
  "typstDeviceInfoRows ops cfg (p\<lparr>uniqueId := s\<rparr>) = typstDeviceInfoRows ops cfg p"
  "noPlayer (Some (p\<lparr>uniqueId := s\<rparr>)) = noPlayer (Some p)"
  "typstDocument timestamp (p\<lparr>uniqueId := s\<rparr>) theme lbl flags panels =
     typstDocument timestamp p theme lbl flags panels"
  by (simp_all add: typstFlags_def typstBasicInfoRows_def typstGameStatusItems_def typstExpItems_def
      typstPosInfoRows_def typstEnvInfoRows_def typstDeviceInfoRows_def noPlayer_def
      typstDocument_def typstHealthItem_def
      cong: if_cong option.case_cong split del: if_split)

lemma uniqueId_rows_embed:
  assumes "isFieldEnabled cfg (ascii ''uniqueId'')"
  shows "embedsEscapedRow (\<lambda>s. typstBasicInfoRows ops cfg (p\<lparr>uniqueId := s\<rparr>))"
  using assms
  by (cases "isFieldEnabled cfg (ascii ''uniqueId'')";
      simp add: typstBasicInfoRows_def Let_def escapeTypstText_append cong: if_cong split del: if_split;
      intro embeds_intros)

lemma uniqueId_rows_unused:
  assumes "\<not> (isFieldEnabled cfg (ascii ''uniqueId''))"
  shows "typstBasicInfoRows ops cfg (p\<lparr>uniqueId := s\<rparr>) = typstBasicInfoRows ops cfg p"
  using assms
  by (cases "isFieldEnabled cfg (ascii ''uniqueId'')";
      simp add: typstBasicInfoRows_def Let_def cong: if_cong split del: if_split)

lemma uniqueId_escapedOnly:
  shows "escapedOnly (\<lambda>s. generateTypstCode ops timestamp (Some (p\<lparr>uniqueId := s\<rparr>)) queryName theme cfg lbl)"
proof (cases "isFieldEnabled cfg (ascii ''uniqueId'')")
  case c: True
  note r = uniqueId_rows_embed [OF c, where ops = ops]
  have "embedsEscapedRow (\<lambda>s. typstPanels ops theme cfg (p\<lparr>uniqueId := s\<rparr>))"
    by (simp add: typstPanels_def Let_def uniqueId_frames embedsEscapedRow_not_Nil [OF r]
        split del: if_split)
       (intro embeds_intros panel_embeds r)
  then have "embedsEscaped (\<lambda>s. typstDocument timestamp p theme lbl (typstFlags cfg p)
      (typstPanels ops theme cfg (p\<lparr>uniqueId := s\<rparr>)))"
    by (rule document_embeds_panels)
  then show ?thesis
    by (cases "noPlayer (Some p)")
       (simp_all add: escapedOnly_def generateTypstCode_def uniqueId_frames)
next
  case c: False
  have u: "typstPanels ops theme cfg (p\<lparr>uniqueId := s\<rparr>) = typstPanels ops theme cfg p" for s
    by (simp add: typstPanels_def uniqueId_frames uniqueId_rows_unused [OF c])
  show ?thesis
    by (cases "noPlayer (Some p)")
       (simp_all add: escapedOnly_def generateTypstCode_def uniqueId_frames u)
qed

lemma langCode_frames:
  "typstFlags cfg (p\<lparr>langCode := s\<rparr>) = typstFlags cfg p"
  "typstGameStatusItems ops cfg (p\<lparr>langCode := s\<rparr>) = typstGameStatusItems ops cfg p"
  "typstExpItems ops cfg (p\<lparr>langCode := s\<rparr>) = typstExpItems ops cfg p"
  "typstPosInfoRows ops cfg (p\<lparr>langCode := s\<rparr>) = typstPosInfoRows ops cfg p"
  "typstEnvInfoRows ops cfg (p\<lparr>langCode := s\<rparr>) = typstEnvInfoRows ops cfg p"
  "typstDeviceInfoRows ops cfg (p\<lparr>langCode := s\<rparr>) = typstDeviceInfoRows ops cfg p"
  "noPlayer (Some (p\<lparr>langCode := s\<rparr>)) = noPlayer (Some p)"
  "typstDocument timestamp (p\<lparr>langCode := s\<rparr>) theme lbl flags panels =
     typstDocument timestamp p theme lbl flags panels"
  by (simp_all add: typstFlags_def typstBasicInfoRows_def typstGameStatusItems_def typstExpItems_def
      typstPosInfoRows_def typstEnvInfoRows_def typstDeviceInfoRows_def noPlayer_def
      typstDocument_def typstHealthItem_def
      cong: if_cong option.case_cong split del: if_split)

lemma langCode_rows_embed:
  assumes "isFieldEnabled cfg (ascii ''langCode'')"
  shows "embedsEscapedRow (\<lambda>s. typstBasicInfoRows ops cfg (p\<lparr>langCode := s\<rparr>))"
  using assms
  by (cases "isFieldEnabled cfg (ascii ''langCode'')";
      simp add: typstBasicInfoRows_def Let_def escapeTypstText_append cong: if_cong split del: if_split;
      intro embeds_intros)

lemma langCode_rows_unused:
  assumes "\<not> (isFieldEnabled cfg (ascii ''langCode''))"
  shows "typstBasicInfoRows ops cfg (p\<lparr>langCode := s\<rparr>) = typstBasicInfoRows ops cfg p"
  using assms
  by (cases "isFieldEnabled cfg (ascii ''langCode'')";
      simp add: typstBasicInfoRows_def Let_def cong: if_cong split del: if_split)

lemma langCode_escapedOnly:
  shows "escapedOnly (\<lambda>s. generateTypstCode ops timestamp (Some (p\<lparr>langCode := s\<rparr>)) queryName theme cfg lbl)"
proof (cases "isFieldEnabled cfg (ascii ''langCode'')")
  case c: True
  note r = langCode_rows_embed [OF c, where ops = ops]
  have "embedsEscapedRow (\<lambda>s. typstPanels ops theme cfg (p\<lparr>langCode := s\<rparr>))"
    by (simp add: typstPanels_def Let_def langCode_frames embedsEscapedRow_not_Nil [OF r]
        split del: if_split)
       (intro embeds_intros panel_embeds r)
  then have "embedsEscaped (\<lambda>s. typstDocument timestamp p theme lbl (typstFlags cfg p)
      (typstPanels ops theme cfg (p\<lparr>langCode := s\<rparr>)))"
    by (rule document_embeds_panels)
  then show ?thesis
    by (cases "noPlayer (Some p)")
       (simp_all add: escapedOnly_def generateTypstCode_def langCode_frames)
next
  case c: False
  have u: "typstPanels ops theme cfg (p\<lparr>langCode := s\<rparr>) = typstPanels ops theme cfg p" for s
    by (simp add: typstPanels_def langCode_frames langCode_rows_unused [OF c])
  show ?thesis
    by (cases "noPlayer (Some p)")
       (simp_all add: escapedOnly_def generateTypstCode_def langCode_frames u)
qed

lemma biome_name_frames:
  "biome p = Some b \<Longrightarrow>
     typstFlags cfg (p\<lparr>biome := Some (b\<lparr>Biome.name := s\<rparr>)\<rparr>) = typstFlags cfg p"
  "biome p = Some b \<Longrightarrow>
     typstBasicInfoRows ops cfg (p\<lparr>biome := Some (b\<lparr>Biome.name := s\<rparr>)\<rparr>) = typstBasicInfoRows ops cfg p"
  "biome p = Some b \<Longrightarrow>
     typstGameStatusItems ops cfg (p\<lparr>biome := Some (b\<lparr>Biome.name := s\<rparr>)\<rparr>) = typstGameStatusItems ops cfg p"
  "biome p = Some b \<Longrightarrow>
     typstExpItems ops cfg (p\<lparr>biome := Some (b\<lparr>Biome.name := s\<rparr>)\<rparr>) = typstExpItems ops cfg p"
  "biome p = Some b \<Longrightarrow>
     typstPosInfoRows ops cfg (p\<lparr>biome := Some (b\<lparr>Biome.name := s\<rparr>)\<rparr>) = typstPosInfoRows ops cfg p"
  "biome p = Some b \<Longrightarrow>
     typstDeviceInfoRows ops cfg (p\<lparr>biome := Some (b\<lparr>Biome.name := s\<rparr>)\<rparr>) = typstDeviceInfoRows ops cfg p"
  "biome p = Some b \<Longrightarrow>
     noPlayer (Some (p\<lparr>biome := Some (b\<lparr>Biome.name := s\<rparr>)\<rparr>)) = noPlayer (Some p)"
  "biome p = Some b \<Longrightarrow>
     typstDocument timestamp (p\<lparr>biome := Some (b\<lparr>Biome.name := s\<rparr>)\<rparr>) theme lbl flags panels =
     typstDocument timestamp p theme lbl flags panels"
  by (simp_all add: typstFlags_def typstBasicInfoRows_def typstGameStatusItems_def typstExpItems_def
      typstPosInfoRows_def typstEnvInfoRows_def typstDeviceInfoRows_def noPlayer_def
      typstDocument_def typstHealthItem_def
      cong: if_cong option.case_cong split del: if_split)

lemma biome_name_rows_embed:
  assumes "biome p = Some b" and "isFieldEnabled cfg (ascii ''biome'') \<or> isFieldEnabled cfg (ascii ''biome.name'')"
  shows "embedsEscapedRow (\<lambda>s. typstEnvInfoRows ops cfg (p\<lparr>biome := Some (b\<lparr>Biome.name := s\<rparr>)\<rparr>))"
  using assms
  by (cases "isFieldEnabled cfg (ascii ''biome'')"; cases "isFieldEnabled cfg (ascii ''biome.name'')"; cases "isFieldEnabled cfg (ascii ''biome.id'')";
      simp add: typstEnvInfoRows_def Let_def escapeTypstText_append cong: if_cong split del: if_split;
      intro embeds_intros)

lemma biome_name_rows_unused:
  assumes "biome p = Some b" and "\<not> (isFieldEnabled cfg (ascii ''biome'') \<or> isFieldEnabled cfg (ascii ''biome.name''))"
  shows "typstEnvInfoRows ops cfg (p\<lparr>biome := Some (b\<lparr>Biome.name := s\<rparr>)\<rparr>) = typstEnvInfoRows ops cfg p"
  using assms
  by (cases "isFieldEnabled cfg (ascii ''biome'')"; cases "isFieldEnabled cfg (ascii ''biome.name'')"; cases "isFieldEnabled cfg (ascii ''biome.id'')";
      simp add: typstEnvInfoRows_def Let_def cong: if_cong split del: if_split)

lemma biome_name_escapedOnly':
  assumes h: "biome p = Some b"
  shows "escapedOnly (\<lambda>s. generateTypstCode ops timestamp (Some (p\<lparr>biome := Some (b\<lparr>Biome.name := s\<rparr>)\<rparr>)) queryName theme cfg lbl)"
proof (cases "isFieldEnabled cfg (ascii ''biome'') \<or> isFieldEnabled cfg (ascii ''biome.name'')")
  case c: True
  note r = biome_name_rows_embed [OF h c, where ops = ops]
  have "embedsEscapedRow (\<lambda>s. typstPanels ops theme cfg (p\<lparr>biome := Some (b\<lparr>Biome.name := s\<rparr>)\<rparr>))"
    by (simp add: typstPanels_def Let_def biome_name_frames [OF h] embedsEscapedRow_not_Nil [OF r]
        split del: if_split)
       (intro embeds_intros panel_embeds r)
  then have "embedsEscaped (\<lambda>s. typstDocument timestamp p theme lbl (typstFlags cfg p)
      (typstPanels ops theme cfg (p\<lparr>biome := Some (b\<lparr>Biome.name := s\<rparr>)\<rparr>)))"
    by (rule document_embeds_panels)
  then show ?thesis
    by (cases "noPlayer (Some p)")
       (simp_all add: escapedOnly_def generateTypstCode_def biome_name_frames [OF h])
next
  case c: False
  have u: "typstPanels ops theme cfg (p\<lparr>biome := Some (b\<lparr>Biome.name := s\<rparr>)\<rparr>) = typstPanels ops theme cfg p" for s
    by (simp add: typstPanels_def biome_name_frames [OF h] biome_name_rows_unused [OF h c])
  show ?thesis
    by (cases "noPlayer (Some p)")
       (simp_all add: escapedOnly_def generateTypstCode_def biome_name_frames [OF h] u)
qed

lemma biome_name_escapedOnly:
  "escapedOnly (\<lambda>s. generateTypstCode ops timestamp (Some (p\<lparr>biome := Some (b\<lparr>Biome.name := s\<rparr>)\<rparr>)) queryName theme cfg lbl)"
  using biome_name_escapedOnly' [where p = "p\<lparr>biome := Some b\<rparr>" and b = b]
  by simp

lemma standingOn_name_frames:
  "standingOn p = Some b \<Longrightarrow>
     typstFlags cfg (p\<lparr>standingOn := Some (b\<lparr>BlockInfo.name := s\<rparr>)\<rparr>) = typstFlags cfg p"
  "standingOn p = Some b \<Longrightarrow>
     typstBasicInfoRows ops cfg (p\<lparr>standingOn := Some (b\<lparr>BlockInfo.name := s\<rparr>)\<rparr>) = typstBasicInfoRows ops cfg p"
  "standingOn p = Some b \<Longrightarrow>
     typstGameStatusItems ops cfg (p\<lparr>standingOn := Some (b\<lparr>BlockInfo.name := s\<rparr>)\<rparr>) = typstGameStatusItems ops cfg p"
  "standingOn p = Some b \<Longrightarrow>
     typstExpItems ops cfg (p\<lparr>standingOn := Some (b\<lparr>BlockInfo.name := s\<rparr>)\<rparr>) = typstExpItems ops cfg p"
  "standingOn p = Some b \<Longrightarrow>
     typstPosInfoRows ops cfg (p\<lparr>standingOn := Some (b\<lparr>BlockInfo.name := s\<rparr>)\<rparr>) = typstPosInfoRows ops cfg p"
  "standingOn p = Some b \<Longrightarrow>
     typstDeviceInfoRows ops cfg (p\<lparr>standingOn := Some (b\<lparr>BlockInfo.name := s\<rparr>)\<rparr>) = typstDeviceInfoRows ops cfg p"
  "standingOn p = Some b \<Longrightarrow>
     noPlayer (Some (p\<lparr>standingOn := Some (b\<lparr>BlockInfo.name := s\<rparr>)\<rparr>)) = noPlayer (Some p)"
  "standingOn p = Some b \<Longrightarrow>
     typstDocument timestamp (p\<lparr>standingOn := Some (b\<lparr>BlockInfo.name := s\<rparr>)\<rparr>) theme lbl flags panels =
     typstDocument timestamp p theme lbl flags panels"
  by (simp_all add: typstFlags_def typstBasicInfoRows_def typstGameStatusItems_def typstExpItems_def
      typstPosInfoRows_def typstEnvInfoRows_def typstDeviceInfoRows_def noPlayer_def
      typstDocument_def typstHealthItem_def
      cong: if_cong option.case_cong split del: if_split)

lemma standingOn_name_rows_embed:
  assumes "standingOn p = Some b" and "isFieldEnabled cfg (ascii ''standingOn'') \<or> isFieldEnabled cfg (ascii ''standingOn.name'')"
  shows "embedsEscapedRow (\<lambda>s. typstEnvInfoRows ops cfg (p\<lparr>standingOn := Some (b\<lparr>BlockInfo.name := s\<rparr>)\<rparr>))"
  using assms
  by (cases "isFieldEnabled cfg (ascii ''standingOn'')"; cases "isFieldEnabled cfg (ascii ''standingOn.name'')";
      simp add: typstEnvInfoRows_def Let_def escapeTypstText_append cong: if_cong split del: if_split;
      intro embeds_intros)

lemma standingOn_name_rows_unused:
  assumes "standingOn p = Some b" and "\<not> (isFieldEnabled cfg (ascii ''standingOn'') \<or> isFieldEnabled cfg (ascii ''standingOn.name''))"
  shows "typstEnvInfoRows ops cfg (p\<lparr>standingOn := Some (b\<lparr>BlockInfo.name := s\<rparr>)\<rparr>) = typstEnvInfoRows ops cfg p"
  using assms
  by (cases "isFieldEnabled cfg (ascii ''standingOn'')"; cases "isFieldEnabled cfg (ascii ''standingOn.name'')";
      simp add: typstEnvInfoRows_def Let_def cong: if_cong split del: if_split)

lemma standingOn_name_escapedOnly':
  assumes h: "standingOn p = Some b"
  shows "escapedOnly (\<lambda>s. generateTypstCode ops timestamp (Some (p\<lparr>standingOn := Some (b\<lparr>BlockInfo.name := s\<rparr>)\<rparr>)) queryName theme cfg lbl)"
proof (cases "isFieldEnabled cfg (ascii ''standingOn'') \<or> isFieldEnabled cfg (ascii ''standingOn.name'')")
  case c: True
  note r = standingOn_name_rows_embed [OF h c, where ops = ops]
  have "embedsEscapedRow (\<lambda>s. typstPanels ops theme cfg (p\<lparr>standingOn := Some (b\<lparr>BlockInfo.name := s\<rparr>)\<rparr>))"
    by (simp add: typstPanels_def Let_def standingOn_name_frames [OF h] embedsEscapedRow_not_Nil [OF r]
        split del: if_split)
       (intro embeds_intros panel_embeds r)
  then have "embedsEscaped (\<lambda>s. typstDocument timestamp p theme lbl (typstFlags cfg p)
      (typstPanels ops theme cfg (p\<lparr>standingOn := Some (b\<lparr>BlockInfo.name := s\<rparr>)\<rparr>)))"
    by (rule document_embeds_panels)
  then show ?thesis
    by (cases "noPlayer (Some p)")
       (simp_all add: escapedOnly_def generateTypstCode_def standingOn_name_frames [OF h])
next
  case c: False
  have u: "typstPanels ops theme cfg (p\<lparr>standingOn := Some (b\<lparr>BlockInfo.name := s\<rparr>)\<rparr>) = typstPanels ops theme cfg p" for s
    by (simp add: typstPanels_def standingOn_name_frames [OF h] standingOn_name_rows_unused [OF h c])
  show ?thesis
    by (cases "noPlayer (Some p)")
       (simp_all add: escapedOnly_def generateTypstCode_def standingOn_name_frames [OF h] u)
qed

lemma standingOn_name_escapedOnly:
  "escapedOnly (\<lambda>s. generateTypstCode ops timestamp (Some (p\<lparr>standingOn := Some (b\<lparr>BlockInfo.name := s\<rparr>)\<rparr>)) queryName theme cfg lbl)"
  using standingOn_name_escapedOnly' [where p = "p\<lparr>standingOn := Some b\<rparr>" and b = b]
  by simp

lemma device_os_frames:
  "device p = Some d \<Longrightarrow>
     typstFlags cfg (p\<lparr>device := Some (d\<lparr>os := s\<rparr>)\<rparr>) = typstFlags cfg p"
  "device p = Some d \<Longrightarrow>
     typstBasicInfoRows ops cfg (p\<lparr>device := Some (d\<lparr>os := s\<rparr>)\<rparr>) = typstBasicInfoRows ops cfg p"
  "device p = Some d \<Longrightarrow>
     typstGameStatusItems ops cfg (p\<lparr>device := Some (d\<lparr>os := s\<rparr>)\<rparr>) = typstGameStatusItems ops cfg p"
  "device p = Some d \<Longrightarrow>
     typstExpItems ops cfg (p\<lparr>device := Some (d\<lparr>os := s\<rparr>)\<rparr>) = typstExpItems ops cfg p"
  "device p = Some d \<Longrightarrow>
     typstPosInfoRows ops cfg (p\<lparr>device := Some (d\<lparr>os := s\<rparr>)\<rparr>) = typstPosInfoRows ops cfg p"
  "device p = Some d \<Longrightarrow>
     typstEnvInfoRows ops cfg (p\<lparr>device := Some (d\<lparr>os := s\<rparr>)\<rparr>) = typstEnvInfoRows ops cfg p"
  "device p = Some d \<Longrightarrow>
     noPlayer (Some (p\<lparr>device := Some (d\<lparr>os := s\<rparr>)\<rparr>)) = noPlayer (Some p)"
  "device p = Some d \<Longrightarrow>
     typstDocument timestamp (p\<lparr>device := Some (d\<lparr>os := s\<rparr>)\<rparr>) theme lbl flags panels =
     typstDocument timestamp p theme lbl flags panels"
  by (simp_all add: typstFlags_def typstBasicInfoRows_def typstGameStatusItems_def typstExpItems_def
      typstPosInfoRows_def typstEnvInfoRows_def typstDeviceInfoRows_def noPlayer_def
      typstDocument_def typstHealthItem_def
      cong: if_cong option.case_cong split del: if_split)

lemma device_os_rows_embed:
  assumes "device p = Some d" and "isFieldEnabled cfg (ascii ''device'') \<and> isFieldEnabled cfg (ascii ''device.os'')"
  shows "embedsEscapedRow (\<lambda>s. typstDeviceInfoRows ops cfg (p\<lparr>device := Some (d\<lparr>os := s\<rparr>)\<rparr>))"
  using assms
  by (cases "isFieldEnabled cfg (ascii ''device'')"; cases "isFieldEnabled cfg (ascii ''device.os'')";
      simp add: typstDeviceInfoRows_def Let_def escapeTypstText_append cong: if_cong split del: if_split;
      intro embeds_intros)

lemma device_os_rows_unused:
  assumes "device p = Some d" and "\<not> (isFieldEnabled cfg (ascii ''device'') \<and> isFieldEnabled cfg (ascii ''device.os''))"
  shows "typstDeviceInfoRows ops cfg (p\<lparr>device := Some (d\<lparr>os := s\<rparr>)\<rparr>) = typstDeviceInfoRows ops cfg p"
  using assms
  by (cases "isFieldEnabled cfg (ascii ''device'')"; cases "isFieldEnabled cfg (ascii ''device.os'')";
      simp add: typstDeviceInfoRows_def Let_def cong: if_cong split del: if_split)

lemma device_os_escapedOnly':
  assumes h: "device p = Some d"
  shows "escapedOnly (\<lambda>s. generateTypstCode ops timestamp (Some (p\<lparr>device := Some (d\<lparr>os := s\<rparr>)\<rparr>)) queryName theme cfg lbl)"
proof (cases "isFieldEnabled cfg (ascii ''device'') \<and> isFieldEnabled cfg (ascii ''device.os'')")
  case c: True
  note r = device_os_rows_embed [OF h c, where ops = ops]
  have "embedsEscapedRow (\<lambda>s. typstPanels ops theme cfg (p\<lparr>device := Some (d\<lparr>os := s\<rparr>)\<rparr>))"
    by (simp add: typstPanels_def Let_def device_os_frames [OF h] embedsEscapedRow_not_Nil [OF r]
        split del: if_split)
       (intro embeds_intros panel_embeds r)
  then have "embedsEscaped (\<lambda>s. typstDocument timestamp p theme lbl (typstFlags cfg p)
      (typstPanels ops theme cfg (p\<lparr>device := Some (d\<lparr>os := s\<rparr>)\<rparr>)))"
    by (rule document_embeds_panels)
  then show ?thesis
    by (cases "noPlayer (Some p)")
       (simp_all add: escapedOnly_def generateTypstCode_def device_os_frames [OF h])
next
  case c: False
  have u: "typstPanels ops theme cfg (p\<lparr>device := Some (d\<lparr>os := s\<rparr>)\<rparr>) = typstPanels ops theme cfg p" for s
    by (simp add: typstPanels_def device_os_frames [OF h] device_os_rows_unused [OF h c])
  show ?thesis
    by (cases "noPlayer (Some p)")
       (simp_all add: escapedOnly_def generateTypstCode_def device_os_frames [OF h] u)
qed

lemma device_os_escapedOnly:
  "escapedOnly (\<lambda>s. generateTypstCode ops timestamp (Some (p\<lparr>device := Some (d\<lparr>os := s\<rparr>)\<rparr>)) queryName theme cfg lbl)"
  using device_os_escapedOnly' [where p = "p\<lparr>device := Some d\<rparr>" and d = d]
  by simp

lemma device_ip_frames:
  "device p = Some d \<Longrightarrow>
     typstFlags cfg (p\<lparr>device := Some (d\<lparr>ip := s\<rparr>)\<rparr>) = typstFlags cfg p"
  "device p = Some d \<Longrightarrow>
     typstBasicInfoRows ops cfg (p\<lparr>device := Some (d\<lparr>ip := s\<rparr>)\<rparr>) = typstBasicInfoRows ops cfg p"
  "device p = Some d \<Longrightarrow>
     typstGameStatusItems ops cfg (p\<lparr>device := Some (d\<lparr>ip := s\<rparr>)\<rparr>) = typstGameStatusItems ops cfg p"
  "device p = Some d \<Longrightarrow>
     typstExpItems ops cfg (p\<lparr>device := Some (d\<lparr>ip := s\<rparr>)\<rparr>) = typstExpItems ops cfg p"
  "device p = Some d \<Longrightarrow>
     typstPosInfoRows ops cfg (p\<lparr>device := Some (d\<lparr>ip := s\<rparr>)\<rparr>) = typstPosInfoRows ops cfg p"
  "device p = Some d \<Longrightarrow>
     typstEnvInfoRows ops cfg (p\<lparr>device := Some (d\<lparr>ip := s\<rparr>)\<rparr>) = typstEnvInfoRows ops cfg p"
  "device p = Some d \<Longrightarrow>
     noPlayer (Some (p\<lparr>device := Some (d\<lparr>ip := s\<rparr>)\<rparr>)) = noPlayer (Some p)"
  "device p = Some d \<Longrightarrow>
     typstDocument timestamp (p\<lparr>device := Some (d\<lparr>ip := s\<rparr>)\<rparr>) theme lbl flags panels =
     typstDocument timestamp p theme lbl flags panels"
  by (simp_all add: typstFlags_def typstBasicInfoRows_def typstGameStatusItems_def typstExpItems_def
      typstPosInfoRows_def typstEnvInfoRows_def typstDeviceInfoRows_def noPlayer_def
      typstDocument_def typstHealthItem_def
      cong: if_cong option.case_cong split del: if_split)

lemma device_ip_rows_embed:
  assumes "device p = Some d" and "isFieldEnabled cfg (ascii ''device'') \<and> isFieldEnabled cfg (ascii ''device.ip'')"
  shows "embedsEscapedRow (\<lambda>s. typstDeviceInfoRows ops cfg (p\<lparr>device := Some (d\<lparr>ip := s\<rparr>)\<rparr>))"
  using assms
  by (cases "isFieldEnabled cfg (ascii ''device'')"; cases "isFieldEnabled cfg (ascii ''device.ip'')";
      simp add: typstDeviceInfoRows_def Let_def escapeTypstText_append cong: if_cong split del: if_split;
      intro embeds_intros)

lemma device_ip_rows_unused:
  assumes "device p = Some d" and "\<not> (isFieldEnabled cfg (ascii ''device'') \<and> isFieldEnabled cfg (ascii ''device.ip''))"
  shows "typstDeviceInfoRows ops cfg (p\<lparr>device := Some (d\<lparr>ip := s\<rparr>)\<rparr>) = typstDeviceInfoRows ops cfg p"
  using assms
  by (cases "isFieldEnabled cfg (ascii ''device'')"; cases "isFieldEnabled cfg (ascii ''device.ip'')";
      simp add: typstDeviceInfoRows_def Let_def cong: if_cong split del: if_split)

lemma device_ip_escapedOnly':
  assumes h: "device p = Some d"
  shows "escapedOnly (\<lambda>s. generateTypstCode ops timestamp (Some (p\<lparr>device := Some (d\<lparr>ip := s\<rparr>)\<rparr>)) queryName theme cfg lbl)"
proof (cases "isFieldEnabled cfg (ascii ''device'') \<and> isFieldEnabled cfg (ascii ''device.ip'')")
  case c: True
  note r = device_ip_rows_embed [OF h c, where ops = ops]
  have "embedsEscapedRow (\<lambda>s. typstPanels ops theme cfg (p\<lparr>device := Some (d\<lparr>ip := s\<rparr>)\<rparr>))"
    by (simp add: typstPanels_def Let_def device_ip_frames [OF h] embedsEscapedRow_not_Nil [OF r]
        split del: if_split)
       (intro embeds_intros panel_embeds r)
  then have "embedsEscaped (\<lambda>s. typstDocument timestamp p theme lbl (typstFlags cfg p)
      (typstPanels ops theme cfg (p\<lparr>device := Some (d\<lparr>ip := s\<rparr>)\<rparr>)))"
    by (rule document_embeds_panels)
  then show ?thesis
    by (cases "noPlayer (Some p)")
       (simp_all add: escapedOnly_def generateTypstCode_def device_ip_frames [OF h])
next
  case c: False
  have u: "typstPanels ops theme cfg (p\<lparr>device := Some (d\<lparr>ip := s\<rparr>)\<rparr>) = typstPanels ops theme cfg p" for s
    by (simp add: typstPanels_def device_ip_frames [OF h] device_ip_rows_unused [OF h c])
  show ?thesis
    by (cases "noPlayer (Some p)")
       (simp_all add: escapedOnly_def generateTypstCode_def device_ip_frames [OF h] u)
qed

lemma device_ip_escapedOnly:
  "escapedOnly (\<lambda>s. generateTypstCode ops timestamp (Some (p\<lparr>device := Some (d\<lparr>ip := s\<rparr>)\<rparr>)) queryName theme cfg lbl)"
  using device_ip_escapedOnly' [where p = "p\<lparr>device := Some d\<rparr>" and d = d]
  by simp

lemma device_serverAddress_frames:
  "device p = Some d \<Longrightarrow>
     typstFlags cfg (p\<lparr>device := Some (d\<lparr>serverAddress := s\<rparr>)\<rparr>) = typstFlags cfg p"
  "device p = Some d \<Longrightarrow>
     typstBasicInfoRows ops cfg (p\<lparr>device := Some (d\<lparr>serverAddress := s\<rparr>)\<rparr>) = typstBasicInfoRows ops cfg p"
  "device p = Some d \<Longrightarrow>
     typstGameStatusItems ops cfg (p\<lparr>device := Some (d\<lparr>serverAddress := s\<rparr>)\<rparr>) = typstGameStatusItems ops cfg p"
  "device p = Some d \<Longrightarrow>
     typstExpItems ops cfg (p\<lparr>device := Some (d\<lparr>serverAddress := s\<rparr>)\<rparr>) = typstExpItems ops cfg p"
  "device p = Some d \<Longrightarrow>
     typstPosInfoRows ops cfg (p\<lparr>device := Some (d\<lparr>serverAddress := s\<rparr>)\<rparr>) = typstPosInfoRows ops cfg p"
  "device p = Some d \<Longrightarrow>
     typstEnvInfoRows ops cfg (p\<lparr>device := Some (d\<lparr>serverAddress := s\<rparr>)\<rparr>) = typstEnvInfoRows ops cfg p"
  "device p = Some d \<Longrightarrow>
     noPlayer (Some (p\<lparr>device := Some (d\<lparr>serverAddress := s\<rparr>)\<rparr>)) = noPlayer (Some p)"
  "device p = Some d \<Longrightarrow>
     typstDocument timestamp (p\<lparr>device := Some (d\<lparr>serverAddress := s\<rparr>)\<rparr>) theme lbl flags panels =
     typstDocument timestamp p theme lbl flags panels"
  by (simp_all add: typstFlags_def typstBasicInfoRows_def typstGameStatusItems_def typstExpItems_def
      typstPosInfoRows_def typstEnvInfoRows_def typstDeviceInfoRows_def noPlayer_def
      typstDocument_def typstHealthItem_def
      cong: if_cong option.case_cong split del: if_split)

lemma device_serverAddress_rows_embed:
  assumes "device p = Some d" and "isFieldEnabled cfg (ascii ''device'') \<and> isFieldEnabled cfg (ascii ''device.serverAddress'')"
  shows "embedsEscapedRow (\<lambda>s. typstDeviceInfoRows ops cfg (p\<lparr>device := Some (d\<lparr>serverAddress := s\<rparr>)\<rparr>))"
  using assms
  by (cases "isFieldEnabled cfg (ascii ''device'')"; cases "isFieldEnabled cfg (ascii ''device.serverAddress'')";
      simp add: typstDeviceInfoRows_def Let_def escapeTypstText_append cong: if_cong split del: if_split;
      intro embeds_intros)

lemma device_serverAddress_rows_unused:
  assumes "device p = Some d" and "\<not> (isFieldEnabled cfg (ascii ''device'') \<and> isFieldEnabled cfg (ascii ''device.serverAddress''))"
  shows "typstDeviceInfoRows ops cfg (p\<lparr>device := Some (d\<lparr>serverAddress := s\<rparr>)\<rparr>) = typstDeviceInfoRows ops cfg p"
  using assms
  by (cases "isFieldEnabled cfg (ascii ''device'')"; cases "isFieldEnabled cfg (ascii ''device.serverAddress'')";
      simp add: typstDeviceInfoRows_def Let_def cong: if_cong split del: if_split)

lemma device_serverAddress_escapedOnly':
  assumes h: "device p = Some d"
  shows "escapedOnly (\<lambda>s. generateTypstCode ops timestamp (Some (p\<lparr>device := Some (d\<lparr>serverAddress := s\<rparr>)\<rparr>)) queryName theme cfg lbl)"
proof (cases "isFieldEnabled cfg (ascii ''device'') \<and> isFieldEnabled cfg (ascii ''device.serverAddress'')")
  case c: True
  note r = device_serverAddress_rows_embed [OF h c, where ops = ops]
  have "embedsEscapedRow (\<lambda>s. typstPanels ops theme cfg (p\<lparr>device := Some (d\<lparr>serverAddress := s\<rparr>)\<rparr>))"
    by (simp add: typstPanels_def Let_def device_serverAddress_frames [OF h] embedsEscapedRow_not_Nil [OF r]
        split del: if_split)
       (intro embeds_intros panel_embeds r)
  then have "embedsEscaped (\<lambda>s. typstDocument timestamp p theme lbl (typstFlags cfg p)
      (typstPanels ops theme cfg (p\<lparr>device := Some (d\<lparr>serverAddress := s\<rparr>)\<rparr>)))"
    by (rule document_embeds_panels)
  then show ?thesis
    by (cases "noPlayer (Some p)")
       (simp_all add: escapedOnly_def generateTypstCode_def device_serverAddress_frames [OF h])
next
  case c: False
  have u: "typstPanels ops theme cfg (p\<lparr>device := Some (d\<lparr>serverAddress := s\<rparr>)\<rparr>) = typstPanels ops theme cfg p" for s
    by (simp add: typstPanels_def device_serverAddress_frames [OF h] device_serverAddress_rows_unused [OF h c])
  show ?thesis
    by (cases "noPlayer (Some p)")
       (simp_all add: escapedOnly_def generateTypstCode_def device_serverAddress_frames [OF h] u)
qed

lemma device_serverAddress_escapedOnly:
  "escapedOnly (\<lambda>s. generateTypstCode ops timestamp (Some (p\<lparr>device := Some (d\<lparr>serverAddress := s\<rparr>)\<rparr>)) queryName theme cfg lbl)"
  using device_serverAddress_escapedOnly' [where p = "p\<lparr>device := Some d\<rparr>" and d = d]
  by simp

section \<open>Inverting the escaping\<close>

lemma unescape_plain: "u \<noteq> 0x5C \<Longrightarrow> unescapeTypstText (u # s) = u # unescapeTypstText s"
  by (cases s) simp_all

lemma unescape_escaped:
  "v \<in> set typstSpecials \<Longrightarrow> unescapeTypstText (0x5C # v # s) = v # unescapeTypstText s"
  by simp

lemma wellEscaped_plain:
  "u \<notin> set typstSpecials \<Longrightarrow> wellEscaped (u # s) = wellEscaped s"
  by (cases s) (auto simp add: typstSpecials_def)

lemma wellEscaped_escaped:
  "v \<in> set typstSpecials \<Longrightarrow> wellEscaped (0x5C # v # s) = wellEscaped s"
  by simp

lemma unescape_escapeChar:
  "unescapeTypstText (escapeChar u @ t) =
     (if u = 0x0A \<or> u = 0x09 then [0x20] else if u = 0x0D then [] else [u]) @ unescapeTypstText t"
proof (cases "u \<in> set typstSpecials")
  case True
  then have "unescapeTypstText (escapeChar u @ t) = u # unescapeTypstText t"
    by (simp add: escapeChar_def unescape_escaped del: unescapeTypstText.simps)
  moreover from True have "u \<noteq> 0x0A \<and> u \<noteq> 0x09 \<and> u \<noteq> 0x0D"
    by (auto simp add: typstSpecials_def)
  ultimately show ?thesis by simp
next
  case False
  then have "u \<noteq> 0x5C" by (auto simp add: typstSpecials_def)
  with False show ?thesis
    by (simp add: escapeChar_def unescape_plain del: unescapeTypstText.simps)
qed

lemma wellEscaped_escapeChar: "wellEscaped (escapeChar u @ t) = wellEscaped t"
proof (cases "u \<in> set typstSpecials")
  case True
  then show ?thesis
    by (simp add: escapeChar_def wellEscaped_escaped del: wellEscaped.simps)
next
  case False
  have "(0x20 :: 16 word) \<notin> set typstSpecials" by (simp add: typstSpecials_def)
  with False show ?thesis
    by (simp add: escapeChar_def wellEscaped_plain del: wellEscaped.simps)
qed

lemma unescape_escape: "unescapeTypstText (escapeTypstText s) = collapseWhiteSpace s"
  by (induction s)
     (simp_all add: escapeTypstText_Cons unescape_escapeChar collapseWhiteSpace_def
       del: unescapeTypstText.simps(3))

lemma collapse_plain:
  "0x0A \<notin> set s \<and> 0x0D \<notin> set s \<and> 0x09 \<notin> set s \<Longrightarrow> collapseWhiteSpace s = s"
  by (induction s) (auto simp add: collapseWhiteSpace_def)

lemma specials_kept:
  "filter (\<lambda>u. u \<in> set typstSpecials) (collapseWhiteSpace s) =
     filter (\<lambda>u. u \<in> set typstSpecials) s"
  by (induction s) (simp_all add: collapseWhiteSpace_def typstSpecials_def)

lemma wellEscaped_escape: "wellEscaped (escapeTypstText s)"
  by (induction s)
     (simp_all add: escapeTypstText_Cons wellEscaped_escapeChar del: wellEscaped.simps(3))

lemma name_frames:
  "typstFlags cfg (p\<lparr>PlayerInfo.name := v\<rparr>) = typstFlags cfg p"
  "typstPanels ops theme cfg (p\<lparr>PlayerInfo.name := v\<rparr>) = typstPanels ops theme cfg p"
  by (simp_all add: typstFlags_def typstPanels_def typstBasicInfoRows_def typstGameStatusItems_def
      typstExpItems_def typstPosInfoRows_def typstEnvInfoRows_def typstDeviceInfoRows_def
      typstHealthItem_def cong: if_cong option.case_cong split del: if_split)

lemma name_embedded:
  "\<exists>pre post. \<forall>s. s \<noteq> [] \<longrightarrow>
     generateTypstCode ops timestamp (Some (p\<lparr>PlayerInfo.name := Some s\<rparr>)) queryName theme cfg lbl =
       pre @ escapeTypstText s @ post"
proof -
  obtain pre post where "\<forall>s. typstDocument timestamp (p\<lparr>PlayerInfo.name := Some s\<rparr>) theme lbl
      (typstFlags cfg p) (typstPanels ops theme cfg p) = pre @ escapeTypstText s @ post"
    using document_embeds_name
      [where timestamp = timestamp and p = p and theme = theme and lbl = lbl
         and flags = "typstFlags cfg p" and panels = "typstPanels ops theme cfg p"]
    unfolding embedsEscaped_def by blast
  then have "\<forall>s. s \<noteq> [] \<longrightarrow>
     generateTypstCode ops timestamp (Some (p\<lparr>PlayerInfo.name := Some s\<rparr>)) queryName theme cfg lbl =
       pre @ escapeTypstText s @ post"
    by (simp add: generateTypstCode_def noPlayer_def name_frames)
  then show ?thesis by blast
qed

lemma generateTypstCode_embeds:
  "embedsEscaped (\<lambda>s. generateTypstCode ops s player queryName theme cfg lbl)"
  "embedsEscaped (\<lambda>s. generateTypstCode ops timestamp player queryName theme cfg s)"
  "noPlayer player \<Longrightarrow> embedsEscaped (\<lambda>s. generateTypstCode ops timestamp player s theme cfg lbl)"
proof -
  show "embedsEscaped (\<lambda>s. generateTypstCode ops s player queryName theme cfg lbl)"
    by (cases player; cases "noPlayer player")
       (simp_all add: generateTypstCode_def typstNotFound_embeds typstDocument_embeds)
  show "embedsEscaped (\<lambda>s. generateTypstCode ops timestamp player queryName theme cfg s)"
    by (cases player; cases "noPlayer player")
       (simp_all add: generateTypstCode_def typstNotFound_embeds typstDocument_embeds)
  show "noPlayer player \<Longrightarrow>
      embedsEscaped (\<lambda>s. generateTypstCode ops timestamp player s theme cfg lbl)"
    by (cases player) (simp_all add: generateTypstCode_def typstNotFound_embeds)
qed

text \<open>
  Claim C8. Inverting the escaping rules on an escaped string gives the string back,
  with every special character in its place: the special characters of the result are
  those of the input, in order. Only what the escaping does not keep is changed: a line
  feed or tab is a space and a carriage return is gone, so a string without these three
  is recovered exactly. An escaped string is well escaped: no
  special character in it is left without its backslash. And the markup embeds each
  string that comes from outside only in escaped form, in a fixed context: the time
  stamp and the label in every document, the query in the not-found document, the name
  in the document of a record, and each string field of the record, of its biome, of
  its block and of its device, which is either embedded in escaped form or not used at
  all (when its row is disabled or the record has no name).
\<close>

theorem escaped_strings_only:
  "unescapeTypstText (escapeTypstText t) = collapseWhiteSpace t \<and>
   filter (\<lambda>u. u \<in> set typstSpecials) (unescapeTypstText (escapeTypstText t)) =
     filter (\<lambda>u. u \<in> set typstSpecials) t \<and>
   (0x0A \<notin> set t \<and> 0x0D \<notin> set t \<and> 0x09 \<notin> set t \<longrightarrow>
      unescapeTypstText (escapeTypstText t) = t) \<and>
   wellEscaped (escapeTypstText t) \<and>
   embedsEscaped (\<lambda>s. generateTypstCode ops s player queryName theme cfg lbl) \<and>
   embedsEscaped (\<lambda>s. generateTypstCode ops timestamp player queryName theme cfg s) \<and>
   (noPlayer player \<longrightarrow>
      embedsEscaped (\<lambda>s. generateTypstCode ops timestamp player s theme cfg lbl)) \<and>
   (\<exists>pre post. \<forall>s. s \<noteq> [] \<longrightarrow>
      generateTypstCode ops timestamp (Some (p\<lparr>PlayerInfo.name := Some s\<rparr>)) queryName theme cfg lbl =
        pre @ escapeTypstText s @ post) \<and>
   escapedOnly (\<lambda>s. generateTypstCode ops timestamp (Some (p\<lparr>xuid := s\<rparr>)) queryName theme cfg lbl) \<and>
   escapedOnly (\<lambda>s. generateTypstCode ops timestamp (Some (p\<lparr>uuid := s\<rparr>)) queryName theme cfg lbl) \<and>
   escapedOnly (\<lambda>s. generateTypstCode ops timestamp (Some (p\<lparr>uniqueId := s\<rparr>)) queryName theme cfg lbl) \<and>
   escapedOnly (\<lambda>s. generateTypstCode ops timestamp (Some (p\<lparr>langCode := s\<rparr>)) queryName theme cfg lbl) \<and>
   escapedOnly (\<lambda>s. generateTypstCode ops timestamp
      (Some (p\<lparr>biome := Some (b\<lparr>Biome.name := s\<rparr>)\<rparr>)) queryName theme cfg lbl) \<and>
   escapedOnly (\<lambda>s. generateTypstCode ops timestamp
      (Some (p\<lparr>standingOn := Some (k\<lparr>BlockInfo.name := s\<rparr>)\<rparr>)) queryName theme cfg lbl) \<and>
   escapedOnly (\<lambda>s. generateTypstCode ops timestamp
      (Some (p\<lparr>device := Some (d\<lparr>os := s\<rparr>)\<rparr>)) queryName theme cfg lbl) \<and>
   escapedOnly (\<lambda>s. generateTypstCode ops timestamp
      (Some (p\<lparr>device := Some (d\<lparr>ip := s\<rparr>)\<rparr>)) queryName theme cfg lbl) \<and>
   escapedOnly (\<lambda>s. generateTypstCode ops timestamp
      (Some (p\<lparr>device := Some (d\<lparr>serverAddress := s\<rparr>)\<rparr>)) queryName theme cfg lbl)"
proof -
  have r: "0x0A \<notin> set t \<and> 0x0D \<notin> set t \<and> 0x09 \<notin> set t \<longrightarrow>
      unescapeTypstText (escapeTypstText t) = t"
    by (simp add: unescape_escape collapse_plain)
  have f: "filter (\<lambda>u. u \<in> set typstSpecials) (unescapeTypstText (escapeTypstText t)) =
      filter (\<lambda>u. u \<in> set typstSpecials) t"
    by (simp add: unescape_escape specials_kept)
  have q: "noPlayer player \<longrightarrow>
      embedsEscaped (\<lambda>s. generateTypstCode ops timestamp player s theme cfg lbl)"
    by (simp add: generateTypstCode_embeds(3))
  show ?thesis
    by (intro conjI unescape_escape f r wellEscaped_escape generateTypstCode_embeds(1,2) q
        name_embedded xuid_escapedOnly uuid_escapedOnly uniqueId_escapedOnly langCode_escapedOnly
        biome_name_escapedOnly standingOn_name_escapedOnly device_os_escapedOnly
        device_ip_escapedOnly device_serverAddress_escapedOnly)
qed

text \<open>
  A string with special characters and no line break is recovered; the not-found
  document embeds the query in escaped form; so does the document of a record with its
  name.
\<close>

theorem escaped_strings_only_witness:
  "unescapeTypstText (escapeTypstText (ascii ''[a_b]#'')) = (ascii ''[a_b]#'') \<and>
   embedsEscaped (\<lambda>s. generateTypstCode intOps (ascii ''2026/11/2 10:00:00'') None s lxgwTheme twoFilters (ascii ''[MC]'')) \<and>
   (\<exists>pre post.
      generateTypstCode intOps (ascii ''2026/11/2 10:00:00'') (Some (steve\<lparr>PlayerInfo.name := Some (ascii ''St*ve'')\<rparr>))
        (ascii ''Steve'') lxgwTheme twoFilters (ascii ''[MC]'') = pre @ escapeTypstText (ascii ''St*ve'') @ post)"
proof -
  note t = escaped_strings_only
    [where t = "(ascii ''[a_b]#'')" and ops = intOps and timestamp = "(ascii ''2026/11/2 10:00:00'')"
       and player = None and queryName = "(ascii ''Steve'')" and theme = lxgwTheme and cfg = twoFilters
       and lbl = "(ascii ''[MC]'')" and p = steve]
  have c: "0x0A \<notin> set (ascii ''[a_b]#'') \<and> 0x0D \<notin> set (ascii ''[a_b]#'') \<and> 0x09 \<notin> set (ascii ''[a_b]#'')"
    by (simp add: ascii_simps)
  have n: "noPlayer (None :: (int, jsstring) PlayerInfo option)"
    by (simp add: noPlayer_def)
  note t1 = t [THEN conjunct2, THEN conjunct2]
  note t5 = t1 [THEN conjunct2, THEN conjunct2, THEN conjunct2, THEN conjunct2]
  note t6 = t5 [THEN conjunct2]
  have 1: "unescapeTypstText (escapeTypstText (ascii ''[a_b]#'')) = (ascii ''[a_b]#'')"
    by (rule mp [OF t1 [THEN conjunct1] c])
  have 2: "embedsEscaped
      (\<lambda>s. generateTypstCode intOps (ascii ''2026/11/2 10:00:00'') None s lxgwTheme twoFilters (ascii ''[MC]''))"
    by (rule mp [OF t5 [THEN conjunct1] n])
  obtain pre post where "\<forall>s. s \<noteq> [] \<longrightarrow>
      generateTypstCode intOps (ascii ''2026/11/2 10:00:00'') (Some (steve\<lparr>PlayerInfo.name := Some s\<rparr>))
        (ascii ''Steve'') lxgwTheme twoFilters (ascii ''[MC]'') = pre @ escapeTypstText s @ post"
    using t6 [THEN conjunct1] by blast
  moreover have "(ascii ''St*ve'') \<noteq> []"
    by (simp add: ascii_simps)
  ultimately have 3: "\<exists>pre post.
      generateTypstCode intOps (ascii ''2026/11/2 10:00:00'') (Some (steve\<lparr>PlayerInfo.name := Some (ascii ''St*ve'')\<rparr>))
        (ascii ''Steve'') lxgwTheme twoFilters (ascii ''[MC]'') = pre @ escapeTypstText (ascii ''St*ve'') @ post"
    by blast
  from 1 2 3 show ?thesis
    by (intro conjI)
qed

section \<open>The not-found branch\<close>

lemma notFound_outputs:
  assumes "noPlayer player"
  shows "formatTextOutput ops player queryName cfg lbl = textNotFound queryName lbl"
    and "generateTypstCode ops timestamp player queryName theme cfg lbl =
         typstNotFound timestamp queryName theme lbl"
  using assms by (cases player; simp add: formatTextOutput_def generateTypstCode_def)+

lemma found_outputs:
  assumes "\<not> noPlayer player"
  shows "\<exists>p. player = Some p \<and>
      formatTextOutput ops player queryName cfg lbl = trimEnd (join (ascii ''\<newline>'') (textLines ops cfg p lbl)) \<and>
      generateTypstCode ops timestamp player queryName theme cfg lbl =
        typstDocument timestamp p theme lbl (typstFlags cfg p) (typstPanels ops theme cfg p)"
  using assms by (cases player) (simp_all add: formatTextOutput_def generateTypstCode_def noPlayer_def)

text \<open>
  Claim C4, as the code has it. For a record that is absent or has no name (or an empty
  one), whatever its other fields and whatever the filter set: the text formatter
  returns the label, the fixed not-found text and the query, so the output ends with
  the query as it was given; the markup formatter returns the not-found document,
  which contains the query in escaped form (not as it was given, when the query has
  special characters). For every other record the text formatter returns the joined
  lines, trimmed at the end, and the markup formatter the full document: the
  not-found message is the only early exit.
\<close>

theorem not_found_branch:
  "(noPlayer player \<longrightarrow>
      formatTextOutput ops player queryName cfg lbl =
        lbl @ (ascii '' '' @ [0xD83D, 0xDC64] @ ascii '' '' @ [0x73A9, 0x5BB6, 0x67E5, 0x8BE2] @ ascii ''\<newline>'' @
               ascii ''\<newline>'' @
               [0x274C] @ ascii '' '' @ [0x672A, 0x627E, 0x5230, 0x73A9, 0x5BB6] @ ascii '': '') @ queryName \<and>
      suffix queryName (formatTextOutput ops player queryName cfg lbl) \<and>
      generateTypstCode ops timestamp player queryName theme cfg lbl =
        typstNotFound timestamp queryName theme lbl \<and>
      sublist (escapeTypstText queryName)
        (generateTypstCode ops timestamp player queryName theme cfg lbl)) \<and>
   (\<not> noPlayer player \<longrightarrow>
      (\<exists>p. player = Some p \<and>
         formatTextOutput ops player queryName cfg lbl = trimEnd (join (ascii ''\<newline>'') (textLines ops cfg p lbl)) \<and>
         generateTypstCode ops timestamp player queryName theme cfg lbl =
           typstDocument timestamp p theme lbl (typstFlags cfg p) (typstPanels ops theme cfg p)))"
proof (intro conjI impI)
  assume n: "noPlayer player"
  show "formatTextOutput ops player queryName cfg lbl = lbl @ (ascii '' '' @ [0xD83D, 0xDC64] @ ascii '' '' @ [0x73A9, 0x5BB6, 0x67E5, 0x8BE2] @ ascii ''\<newline>'' @
                                                               ascii ''\<newline>'' @
                                                               [0x274C] @ ascii '' '' @ [0x672A, 0x627E, 0x5230, 0x73A9, 0x5BB6] @ ascii '': '') @ queryName"
    using notFound_outputs(1) [OF n] by (simp add: textNotFound_def)
  then show "suffix queryName (formatTextOutput ops player queryName cfg lbl)"
    by (simp add: suffix_def)
  show "generateTypstCode ops timestamp player queryName theme cfg lbl =
      typstNotFound timestamp queryName theme lbl"
    by (rule notFound_outputs(2) [OF n])
  show "sublist (escapeTypstText queryName)
      (generateTypstCode ops timestamp player queryName theme cfg lbl)"
    using embedsEscaped_sublist [OF generateTypstCode_embeds(3) [OF n]] by simp
next
  assume "\<not> noPlayer player"
  then show "\<exists>p. player = Some p \<and>
      formatTextOutput ops player queryName cfg lbl = trimEnd (join (ascii ''\<newline>'') (textLines ops cfg p lbl)) \<and>
      generateTypstCode ops timestamp player queryName theme cfg lbl =
        typstDocument timestamp p theme lbl (typstFlags cfg p) (typstPanels ops theme cfg p)"
    by (rule found_outputs)
qed

text \<open>
  A record without a name and a query with an underscore: the text output ends with
  the query, and the markup contains it in escaped form.
\<close>

theorem not_found_branch_witness:
  "formatTextOutput intOps (Some (steve\<lparr>PlayerInfo.name := None\<rparr>)) (ascii ''a_b'') twoFilters (ascii ''[MC]'') =
     (ascii ''[MC] '' @ [0xD83D, 0xDC64] @ ascii '' '' @ [0x73A9, 0x5BB6, 0x67E5, 0x8BE2] @ ascii ''\<newline>'' @
      ascii ''\<newline>'' @
      [0x274C] @ ascii '' '' @ [0x672A, 0x627E, 0x5230, 0x73A9, 0x5BB6] @ ascii '': a_b'') \<and>
   sublist ((ascii ''a'') @ [0x5C] @ (ascii ''_b''))
     (generateTypstCode intOps (ascii ''2026/11/2 10:00:00'') (Some (steve\<lparr>PlayerInfo.name := None\<rparr>)) (ascii ''a_b'')
        lxgwTheme twoFilters (ascii ''[MC]'')) \<and>
   formatTextOutput intOps (Some steve) (ascii ''a_b'') twoFilters (ascii ''[MC]'') =
     trimEnd (join (ascii ''\<newline>'') (textLines intOps twoFilters steve (ascii ''[MC]'')))"
proof -
  note t = not_found_branch
    [where ops = intOps and queryName = "(ascii ''a_b'')" and cfg = twoFilters and lbl = "(ascii ''[MC]'')"
       and timestamp = "(ascii ''2026/11/2 10:00:00'')" and theme = lxgwTheme]
  have n: "noPlayer (Some (steve\<lparr>PlayerInfo.name := None\<rparr>))"
    by (simp add: noPlayer_def)
  have s: "\<not> noPlayer (Some steve)"
    by (simp add: noPlayer_def steve_def ascii_simps)
  have e: "escapeTypstText (ascii ''a_b'') = (ascii ''a'') @ [0x5C] @ (ascii ''_b'')"
    by (simp add: escapeTypstText_Cons escapeChar_def typstSpecials_def ascii_simps)
  note a = mp [OF t [where player = "Some (steve\<lparr>PlayerInfo.name := None\<rparr>)", THEN conjunct1] n]
  note b = mp [OF t [where player = "Some steve", THEN conjunct2] s]
  have 1: "formatTextOutput intOps (Some (steve\<lparr>PlayerInfo.name := None\<rparr>)) (ascii ''a_b'') twoFilters (ascii ''[MC]'') =
      (ascii ''[MC] '' @ [0xD83D, 0xDC64] @ ascii '' '' @ [0x73A9, 0x5BB6, 0x67E5, 0x8BE2] @ ascii ''\<newline>'' @
       ascii ''\<newline>'' @
       [0x274C] @ ascii '' '' @ [0x672A, 0x627E, 0x5230, 0x73A9, 0x5BB6] @ ascii '': a_b'')"
    using a [THEN conjunct1] by (simp add: ascii_simps)
  have 2: "sublist ((ascii ''a'') @ [0x5C] @ (ascii ''_b''))
      (generateTypstCode intOps (ascii ''2026/11/2 10:00:00'') (Some (steve\<lparr>PlayerInfo.name := None\<rparr>)) (ascii ''a_b'')
         lxgwTheme twoFilters (ascii ''[MC]''))"
    using a [THEN conjunct2, THEN conjunct2, THEN conjunct2] e by simp
  have 3: "formatTextOutput intOps (Some steve) (ascii ''a_b'') twoFilters (ascii ''[MC]'') =
      trimEnd (join (ascii ''\<newline>'') (textLines intOps twoFilters steve (ascii ''[MC]'')))"
    using b by simp
  from 1 2 3 show ?thesis
    by (intro conjI)
qed

text \<open>The claim as stated fails on such a query: the markup does not contain it verbatim.\<close>

theorem query_verbatim_counterexample:
  "\<not> sublist (ascii ''a_b'')
     (generateTypstCode intOps (ascii ''2026/11/2 10:00:00'') None (ascii ''a_b'') lxgwTheme twoFilters (ascii ''[MC]''))"
  by code_simp


end
